theory Spec2Isabelle
  imports Complex_Main
begin

section \<open>Data model of \<^verbatim>\<open>src/main.c\<close>\<close>

text \<open>
  The C program computes on \<^verbatim>\<open>float\<close>. Here a \<^verbatim>\<open>float\<close> is the real number it
  denotes and every operation is exact: no rounding, no infinities, no NaN. The
  statements below are statements about the algorithm in exact arithmetic, with
  one exception: \<^verbatim>\<open>get_aabb_mtv\<close> is modelled a second time with every operation
  rounded to binary32, and the statement on the vector it returns is made on that
  second model.

  Field names carry a prefix where two C structs share a name or where the C name
  is reserved in Isabelle: \<^verbatim>\<open>Vector2.x\<close> is \<open>v_x\<close>, \<^verbatim>\<open>Rectangle.x\<close> is \<open>r_x\<close>,
  \<^verbatim>\<open>Player.size\<close> is \<open>p_size\<close>, \<^verbatim>\<open>Player.speed\<close> is \<open>p_speed\<close>,
  \<^verbatim>\<open>Obstacle.end\<close> is \<open>endp\<close>.
\<close>

record Vector2 =
  v_x :: real
  v_y :: real

record Rectangle =
  r_x :: real
  r_y :: real
  r_width :: real
  r_height :: real

record Player =
  position :: Vector2
  velocity :: Vector2
  p_size :: Vector2
  p_speed :: real
  jump_impulse :: real
  health :: real
  max_health :: real
  is_grounded :: bool

record Obstacle =
  rect :: Rectangle
  start :: Vector2
  endp :: Vector2
  speed :: real
  is_moving_to_start :: bool
  is_player_attached :: bool

text \<open>
  The globals \<^verbatim>\<open>PLAYER\<close>, \<^verbatim>\<open>N_OBSTACLES\<close> and \<^verbatim>\<open>OBSTACLES\<close>. The array keeps
  all its \<^verbatim>\<open>MAX_N_OBSTACLES\<close> slots, also those at and beyond the count: the
  program rewinds the count and writes into old slots again.
\<close>

record game =
  PLAYER :: Player
  N_OBSTACLES :: nat
  OBSTACLES :: "Obstacle list"

definition GRAVITY_ACCELERATION :: real where
  "GRAVITY_ACCELERATION = 50"

definition MAX_N_OBSTACLES :: nat where
  "MAX_N_OBSTACLES = 64"

definition PLAYER_MAX_HEALTH :: real where
  "PLAYER_MAX_HEALTH = 100"

definition MAX_SPEED_WITHOUT_DAMAGE :: real where
  "MAX_SPEED_WITHOUT_DAMAGE = 30"

section \<open>The raylib and raymath functions the program calls\<close>

text \<open>
  \<^verbatim>\<open>raylib.h\<close> and \<^verbatim>\<open>raymath.h\<close> belong to an external library and are not in
  the repository.

  Modelled from the spec: the 2D vector algebra of raymath that the program uses
  (section 2, component 1; section 3, \<open>Vector2\<close>): the zero vector, the sum, the
  difference, the product with a scalar, the negation, the dot product and the
  Euclidean length, each on the two components.
\<close>

definition Vector2Zero :: Vector2 where
  "Vector2Zero = \<lparr>v_x = 0, v_y = 0\<rparr>"

definition Vector2Add :: "Vector2 \<Rightarrow> Vector2 \<Rightarrow> Vector2" where
  "Vector2Add v1 v2 = \<lparr>v_x = v_x v1 + v_x v2, v_y = v_y v1 + v_y v2\<rparr>"

definition Vector2Subtract :: "Vector2 \<Rightarrow> Vector2 \<Rightarrow> Vector2" where
  "Vector2Subtract v1 v2 = \<lparr>v_x = v_x v1 - v_x v2, v_y = v_y v1 - v_y v2\<rparr>"

definition Vector2Scale :: "Vector2 \<Rightarrow> real \<Rightarrow> Vector2" where
  "Vector2Scale v k = \<lparr>v_x = v_x v * k, v_y = v_y v * k\<rparr>"

definition Vector2Negate :: "Vector2 \<Rightarrow> Vector2" where
  "Vector2Negate v = \<lparr>v_x = - v_x v, v_y = - v_y v\<rparr>"

definition Vector2DotProduct :: "Vector2 \<Rightarrow> Vector2 \<Rightarrow> real" where
  "Vector2DotProduct v1 v2 = v_x v1 * v_x v2 + v_y v1 * v_y v2"

definition Vector2Length :: "Vector2 \<Rightarrow> real" where
  "Vector2Length v = sqrt (v_x v * v_x v + v_y v * v_y v)"

text \<open>
  Modelled from the spec: \<^verbatim>\<open>Vector2Normalize\<close> of raymath returns the zero vector
  on the zero vector, never dividing by zero, and otherwise the vector scaled by
  the inverse of its length (section 4.1, \<open>normalize\<close>).
\<close>

definition Vector2Normalize :: "Vector2 \<Rightarrow> Vector2" where
  "Vector2Normalize v =
     (let len = Vector2Length v
      in if len > 0 then Vector2Scale v (1 / len) else Vector2Zero)"

text \<open>
  Modelled from the spec: \<^verbatim>\<open>CheckCollisionRecs\<close> of raylib holds when the extents
  of the two rectangles intersect on both axes, touching edges not being an
  intersection (section 4.1, \<open>aabbOverlap\<close>).
\<close>

definition CheckCollisionRecs :: "Rectangle \<Rightarrow> Rectangle \<Rightarrow> bool" where
  "CheckCollisionRecs rec1 rec2 \<longleftrightarrow>
     (r_x rec1 < r_x rec2 + r_width rec2 \<and> r_x rec1 + r_width rec1 > r_x rec2) \<and>
     (r_y rec1 < r_y rec2 + r_height rec2 \<and> r_y rec1 + r_height rec1 > r_y rec2)"

section \<open>utils\<close>

text \<open>
  \<^verbatim>\<open>randf\<close> divides a random integer of \<open>0..INT32_MAX\<close> by \<open>INT32_MAX\<close>; its
  result \<open>p\<close> is an input of the model, a number of the unit interval.
\<close>

definition randf_min_max :: "real \<Rightarrow> real \<Rightarrow> real \<Rightarrow> real" where
  "randf_min_max lo hi p = lo + p * (hi - lo)"

definition get_aabb_mtv :: "Rectangle \<Rightarrow> Rectangle \<Rightarrow> Vector2" where
  "get_aabb_mtv r1 r2 =
     (if \<not> CheckCollisionRecs r1 r2 then Vector2Zero
      else
        let x_west = r_x r2 - r_x r1 - r_width r1;
            x_east = r_x r2 + r_width r2 - r_x r1;
            mtv_x = (if \<bar>x_west\<bar> < \<bar>x_east\<bar> then x_west else x_east);
            y_south = r_y r2 + r_height r2 - r_y r1;
            y_north = r_y r2 - r_y r1 - r_height r1;
            mtv_y = (if \<bar>y_south\<bar> < \<bar>y_north\<bar> then y_south else y_north)
        in if \<bar>mtv_x\<bar> > \<bar>mtv_y\<bar> then \<lparr>v_x = 0, v_y = mtv_y\<rparr>
           else \<lparr>v_x = mtv_x, v_y = 0\<rparr>)"

text \<open>The mover's rectangle after a translation by a vector.\<close>

definition translate_rect :: "Rectangle \<Rightarrow> Vector2 \<Rightarrow> Rectangle" where
  "translate_rect r v = r\<lparr>r_x := r_x r + v_x v, r_y := r_y r + v_y v\<rparr>"

text \<open>
  Two rectangles touch: they do not overlap, and on one axis an edge of the one
  lies on the facing edge of the other while the extents on the other axis
  intersect.
\<close>

definition touching :: "Rectangle \<Rightarrow> Rectangle \<Rightarrow> bool" where
  "touching a b \<longleftrightarrow>
     \<not> CheckCollisionRecs a b \<and>
     (((r_x a + r_width a = r_x b \<or> r_x a = r_x b + r_width b) \<and>
       r_y a < r_y b + r_height b \<and> r_y a + r_height a > r_y b) \<or>
      ((r_y a + r_height a = r_y b \<or> r_y a = r_y b + r_height b) \<and>
       r_x a < r_x b + r_width b \<and> r_x a + r_width a > r_x b))"

text \<open>
  The candidate of smaller magnitude among two, the second on a tie: the choice
  \<^verbatim>\<open>get_aabb_mtv\<close> makes on each axis, between west and east on X and between
  south and north on Y.
\<close>

definition shallowest :: "real \<Rightarrow> real \<Rightarrow> real" where
  "shallowest a b = (if \<bar>a\<bar> < \<bar>b\<bar> then a else b)"



section \<open>utils, with the rounding of \<^verbatim>\<open>float\<close>\<close>

text \<open>
  A \<^verbatim>\<open>float\<close> is an IEEE 754 binary32 number: a significand of 24 bits and an
  exponent of \<open>- 126\<close> at least, the numbers below \<open>2 powi (- 126)\<close> being the
  subnormal ones. Every addition and subtraction of the program computes the exact result
  and rounds it once to the nearest binary32 number, a tie going to the even
  significand; comparisons and \<^verbatim>\<open>fabs\<close> are exact. Overflow is not modelled: a
  result beyond \<^verbatim>\<open>FLT_MAX\<close> is rounded as if the exponent had no upper bound, and
  \<open>binary32\<close> holds only of the numbers within \<^verbatim>\<open>FLT_MAX\<close>.

  \<open>round_even y\<close> is the integer nearest to \<open>y\<close>, the even one of the two
  on a tie.
\<close>

definition round_even :: "real \<Rightarrow> int" where
  "round_even y =
     (let f = \<lfloor>y\<rfloor>;
          d = y - of_int f
      in if d < 1 / 2 then f else if 1 / 2 < d then f + 1 else if even f then f else f + 1)"

text \<open>
  The exponent of the binade of \<open>x\<close>, and \<open>x\<close> rounded to a multiple of the unit in
  the last place of that binade.
\<close>

definition exponent32 :: "real \<Rightarrow> int" where
  "exponent32 x = max \<lfloor>log 2 \<bar>x\<bar>\<rfloor> (- 126)"

definition round32 :: "real \<Rightarrow> real" where
  "round32 x =
     (if x = 0 then 0
      else 2 powi (exponent32 x - 23) *
           of_int (round_even (x / 2 powi (exponent32 x - 23))))"

definition FLT_MAX :: real where
  "FLT_MAX = 340282346638528859811704183484516925440"

text \<open>The real numbers that are values of a \<^verbatim>\<open>float\<close>.\<close>

definition binary32 :: "real \<Rightarrow> bool" where
  "binary32 x \<longleftrightarrow> round32 x = x \<and> \<bar>x\<bar> \<le> FLT_MAX"

definition fadd :: "real \<Rightarrow> real \<Rightarrow> real" where
  "fadd x y = round32 (x + y)"

definition fsub :: "real \<Rightarrow> real \<Rightarrow> real" where
  "fsub x y = round32 (x - y)"

text \<open>
  \<^verbatim>\<open>CheckCollisionRecs\<close>, as modelled above, and \<^verbatim>\<open>get_aabb_mtv\<close> again, every
  sum and every difference rounded. The C expressions associate to the left:
  \<^verbatim>\<open>r2.x - r1.x - r1.width\<close> rounds \<^verbatim>\<open>r2.x - r1.x\<close> and then the difference with
  the width, \<^verbatim>\<open>r2.x + r2.width - r1.x\<close> rounds the sum and then the difference.
\<close>

definition CheckCollisionRecs_f32 :: "Rectangle \<Rightarrow> Rectangle \<Rightarrow> bool" where
  "CheckCollisionRecs_f32 rec1 rec2 \<longleftrightarrow>
     (r_x rec1 < fadd (r_x rec2) (r_width rec2) \<and> fadd (r_x rec1) (r_width rec1) > r_x rec2) \<and>
     (r_y rec1 < fadd (r_y rec2) (r_height rec2) \<and> fadd (r_y rec1) (r_height rec1) > r_y rec2)"

definition get_aabb_mtv_f32 :: "Rectangle \<Rightarrow> Rectangle \<Rightarrow> Vector2" where
  "get_aabb_mtv_f32 r1 r2 =
     (if \<not> CheckCollisionRecs_f32 r1 r2 then Vector2Zero
      else
        let x_west = fsub (fsub (r_x r2) (r_x r1)) (r_width r1);
            x_east = fsub (fadd (r_x r2) (r_width r2)) (r_x r1);
            mtv_x = (if \<bar>x_west\<bar> < \<bar>x_east\<bar> then x_west else x_east);
            y_south = fsub (fadd (r_y r2) (r_height r2)) (r_y r1);
            y_north = fsub (fsub (r_y r2) (r_y r1)) (r_height r1);
            mtv_y = (if \<bar>y_south\<bar> < \<bar>y_north\<bar> then y_south else y_north)
        in if \<bar>mtv_x\<bar> > \<bar>mtv_y\<bar> then \<lparr>v_x = 0, v_y = mtv_y\<rparr>
           else \<lparr>v_x = mtv_x, v_y = 0\<rparr>)"

text \<open>
  The mover's rectangle after a translation by a vector, each coordinate added
  in one rounded addition.
\<close>

definition translate_rect_f32 :: "Rectangle \<Rightarrow> Vector2 \<Rightarrow> Rectangle" where
  "translate_rect_f32 r v = r\<lparr>r_x := fadd (r_x r) (v_x v), r_y := fadd (r_y r) (v_y v)\<rparr>"

text \<open>A rectangle whose four fields are values of a \<^verbatim>\<open>float\<close>.\<close>

definition binary32_rect :: "Rectangle \<Rightarrow> bool" where
  "binary32_rect r \<longleftrightarrow>
     binary32 (r_x r) \<and> binary32 (r_y r) \<and> binary32 (r_width r) \<and> binary32 (r_height r)"

text \<open>
  No operation of the overlap test and of the four candidates rounds: each of
  the ten sums and differences that \<^verbatim>\<open>CheckCollisionRecs\<close> and \<^verbatim>\<open>get_aabb_mtv\<close>
  compute on the two rectangles is a value of a \<^verbatim>\<open>float\<close> already. Likewise
  for the translation of a rectangle by a vector.
\<close>

definition unrounded :: "Rectangle \<Rightarrow> Rectangle \<Rightarrow> bool" where
  "unrounded r1 r2 \<longleftrightarrow>
     binary32 (r_x r1 + r_width r1) \<and>
     binary32 (r_y r1 + r_height r1) \<and>
     binary32 (r_x r2 + r_width r2) \<and>
     binary32 (r_y r2 + r_height r2) \<and>
     binary32 (r_x r2 - r_x r1) \<and>
     binary32 (r_x r2 - r_x r1 - r_width r1) \<and>
     binary32 (r_x r2 + r_width r2 - r_x r1) \<and>
     binary32 (r_y r2 + r_height r2 - r_y r1) \<and>
     binary32 (r_y r2 - r_y r1) \<and>
     binary32 (r_y r2 - r_y r1 - r_height r1)"

definition unrounded_move :: "Rectangle \<Rightarrow> Vector2 \<Rightarrow> bool" where
  "unrounded_move r v \<longleftrightarrow> binary32 (r_x r + v_x v) \<and> binary32 (r_y r + v_y v)"

section \<open>obstacle\<close>

definition zero_obstacle :: Obstacle where
  "zero_obstacle =
     \<lparr>rect = \<lparr>r_x = 0, r_y = 0, r_width = 0, r_height = 0\<rparr>,
      start = Vector2Zero, endp = Vector2Zero, speed = 0,
      is_moving_to_start = False, is_player_attached = False\<rparr>"

definition zero_player :: Player where
  "zero_player =
     \<lparr>position = Vector2Zero, velocity = Vector2Zero, p_size = Vector2Zero,
      p_speed = 0, jump_impulse = 0, health = 0, max_health = 0, is_grounded = False\<rparr>"

text \<open>The globals as the C initialisers \<^verbatim>\<open>{0}\<close> leave them at program start.\<close>

definition initial_game :: game where
  "initial_game =
     \<lparr>PLAYER = zero_player, N_OBSTACLES = 0,
      OBSTACLES = replicate MAX_N_OBSTACLES zero_obstacle\<rparr>"

text \<open>
  The array has \<^verbatim>\<open>MAX_N_OBSTACLES\<close> slots and the count never exceeds it. A count
  above the capacity would make \<^verbatim>\<open>spawn_obstacle\<close> write past the array in C;
  the theorems about it assume \<open>game_ok\<close>, which every reachable state satisfies.
\<close>

definition game_ok :: "game \<Rightarrow> bool" where
  "game_ok g \<longleftrightarrow>
     length (OBSTACLES g) = MAX_N_OBSTACLES \<and> N_OBSTACLES g \<le> MAX_N_OBSTACLES"

text \<open>
  \<^verbatim>\<open>spawn_obstacle\<close> returns the index it filled, or \<open>-1\<close>, and the globals after
  the call. It assigns four fields of the slot and no other.
\<close>

definition spawn_obstacle ::
    "Rectangle \<Rightarrow> Vector2 \<Rightarrow> Vector2 \<Rightarrow> real \<Rightarrow> game \<Rightarrow> int \<times> game" where
  "spawn_obstacle rect' start' end' speed' g =
     (if N_OBSTACLES g = MAX_N_OBSTACLES then (- 1, g)
      else
        let idx = N_OBSTACLES g;
            obstacle = OBSTACLES g ! idx
        in (int idx,
            g\<lparr>N_OBSTACLES := idx + 1,
              OBSTACLES := (OBSTACLES g)
                [idx := obstacle\<lparr>rect := rect', start := start', endp := end',
                                 speed := speed'\<rparr>]\<rparr>))"

definition spawn_static_obstacle :: "Rectangle \<Rightarrow> game \<Rightarrow> int \<times> game" where
  "spawn_static_obstacle rect' g =
     (let start' = \<lparr>v_x = r_x rect', v_y = r_y rect'\<rparr>;
          end' = start';
          speed' = 0
      in spawn_obstacle rect' start' end' speed' g)"

text \<open>
  The body of the loop of \<^verbatim>\<open>update_obstacles\<close> for the obstacle of index \<open>i\<close>,
  and the loop over the indices below the count.
\<close>

definition update_obstacle :: "real \<Rightarrow> nat \<Rightarrow> game \<Rightarrow> game" where
  "update_obstacle dt i g =
     (let obstacle = OBSTACLES g ! i
      in if \<not> (speed obstacle > 0) then g
         else
           let direction0 =
                 Vector2Normalize (Vector2Subtract (endp obstacle) (start obstacle));
               direction =
                 (if is_moving_to_start obstacle then Vector2Negate direction0
                  else direction0);
               position_step = Vector2Scale direction (dt * speed obstacle);
               rect1 = (rect obstacle)
                 \<lparr>r_x := r_x (rect obstacle) + v_x position_step,
                  r_y := r_y (rect obstacle) + v_y position_step\<rparr>;
               player1 =
                 (if is_player_attached obstacle
                  then (PLAYER g)
                    \<lparr>position := Vector2Add (position (PLAYER g)) position_step\<rparr>
                  else PLAYER g);
               position' = \<lparr>v_x = r_x rect1, v_y = r_y rect1\<rparr>;
               target =
                 (if is_moving_to_start obstacle then start obstacle else endp obstacle);
               to_target_direction = Vector2Subtract target position';
               is_to_target = Vector2DotProduct direction to_target_direction > 0;
               obstacle1 =
                 (if \<not> is_to_target then
                    let clamped_position =
                          (if is_moving_to_start obstacle then start obstacle
                           else endp obstacle)
                    in obstacle
                         \<lparr>rect := rect1\<lparr>r_x := v_x clamped_position,
                                         r_y := v_y clamped_position\<rparr>,
                          is_moving_to_start := \<not> is_moving_to_start obstacle\<rparr>
                  else obstacle\<lparr>rect := rect1\<rparr>)
           in g\<lparr>PLAYER := player1, OBSTACLES := (OBSTACLES g)[i := obstacle1]\<rparr>)"

definition update_obstacles :: "real \<Rightarrow> game \<Rightarrow> game" where
  "update_obstacles dt g = fold (update_obstacle dt) [0..<N_OBSTACLES g] g"

section \<open>player\<close>

text \<open>
  What a frame reads from outside: \<^verbatim>\<open>GetFrameTime()\<close>, the four key queries, and
  the results of the calls of \<^verbatim>\<open>randf\<close> in the order they are made.
\<close>

record frame =
  frame_time :: real
  key_A_down :: bool
  key_D_down :: bool
  key_W_pressed :: bool
  key_R_pressed :: bool
  randf :: "nat \<Rightarrow> real"

definition get_player_rect :: "Player \<Rightarrow> Rectangle" where
  "get_player_rect p =
     \<lparr>r_x = v_x (position p) + 0.5 * v_x (p_size p),
      r_y = v_y (position p) + v_y (p_size p),
      r_width = v_x (p_size p),
      r_height = v_y (p_size p)\<rparr>"

definition update_player :: "frame \<Rightarrow> game \<Rightarrow> game" where
  "update_player fr g =
     (let dt = frame_time fr;
          p = PLAYER g;
          velocity1 = (velocity p)\<lparr>v_y := v_y (velocity p) + GRAVITY_ACCELERATION * dt\<rparr>;
          direction0 = Vector2Zero;
          direction1 =
            (if key_A_down fr then direction0\<lparr>v_x := v_x direction0 - 1\<rparr> else direction0);
          direction2 =
            (if key_D_down fr then direction1\<lparr>v_x := v_x direction1 + 1\<rparr> else direction1);
          direction = Vector2Normalize direction2;
          position_step0 = Vector2Scale direction (p_speed p * dt);
          velocity2 =
            (if key_W_pressed fr \<and> is_grounded p
             then velocity1\<lparr>v_y := v_y velocity1 - jump_impulse p\<rparr> else velocity1);
          position_step = Vector2Add position_step0 (Vector2Scale velocity2 dt)
      in g\<lparr>PLAYER := p\<lparr>velocity := velocity2,
                         position := Vector2Add (position p) position_step\<rparr>\<rparr>)"

text \<open>
  The four running extrema of \<^verbatim>\<open>update_player_collisions\<close>, the body of its
  loop for the obstacle of index \<open>i\<close>, and the function.
\<close>

record extrema =
  mtv_min_x :: real
  mtv_max_x :: real
  mtv_min_y :: real
  mtv_max_y :: real

definition collide_obstacle :: "nat \<Rightarrow> extrema \<times> game \<Rightarrow> extrema \<times> game" where
  "collide_obstacle i = (\<lambda>(e, g).
     let obstacle = OBSTACLES g ! i;
         obstacle_rect = rect obstacle;
         player_rect = get_player_rect (PLAYER g);
         mtv = get_aabb_mtv player_rect obstacle_rect;
         e1 = \<lparr>mtv_min_x = min (mtv_min_x e) (v_x mtv),
               mtv_max_x = max (mtv_max_x e) (v_x mtv),
               mtv_min_y = min (mtv_min_y e) (v_y mtv),
               mtv_max_y = max (mtv_max_y e) (v_y mtv)\<rparr>
     in (e1, g\<lparr>OBSTACLES := (OBSTACLES g)
                 [i := obstacle\<lparr>is_player_attached := v_y mtv < 0 \<and> speed obstacle > 0\<rparr>]\<rparr>))"

definition collide_obstacles :: "game \<Rightarrow> extrema \<times> game" where
  "collide_obstacles g =
     fold collide_obstacle [0..<N_OBSTACLES g]
       (\<lparr>mtv_min_x = 0, mtv_max_x = 0, mtv_min_y = 0, mtv_max_y = 0\<rparr>, g)"

text \<open>The correction vector the resolver combines from the four extrema.\<close>

definition combined_mtv :: "extrema \<Rightarrow> Vector2" where
  "combined_mtv e =
     (let mtv0 = \<lparr>v_x = mtv_min_x e, v_y = mtv_min_y e\<rparr>;
          mtv1 = (if \<bar>mtv_max_x e\<bar> > \<bar>mtv_min_x e\<bar> then mtv0\<lparr>v_x := mtv_max_x e\<rparr> else mtv0);
          mtv2 = (if \<bar>mtv_max_y e\<bar> > \<bar>mtv_min_y e\<bar> then mtv1\<lparr>v_y := mtv_max_y e\<rparr> else mtv1)
      in mtv2)"

definition update_player_collisions :: "game \<Rightarrow> game" where
  "update_player_collisions g =
     (let (e, g1) = collide_obstacles g;
          mtv = combined_mtv e;
          p = PLAYER g1;
          p1 = p\<lparr>position := Vector2Add (position p) mtv\<rparr>;
          is_just_grounded = v_y mtv < 0 \<and> v_y (velocity p1) > 0
      in if is_just_grounded then
           let speed' = Vector2Length (velocity p1);
               damage0 = speed' - MAX_SPEED_WITHOUT_DAMAGE;
               damage = (if damage0 < 0 then 0 else damage0)
           in g1\<lparr>PLAYER := p1\<lparr>health := health p1 - damage,
                                velocity := Vector2Zero,
                                is_grounded := True\<rparr>\<rparr>
         else if v_y mtv > 0 \<and> v_y (velocity p1) < 0 then
           g1\<lparr>PLAYER := p1\<lparr>velocity := (velocity p1)\<lparr>v_y := 0\<rparr>\<rparr>\<rparr>
         else g1\<lparr>PLAYER := p1\<lparr>is_grounded := False\<rparr>\<rparr>)"

section \<open>game\<close>

text \<open>
  The body of the loop of \<^verbatim>\<open>load_game\<close> that spawns platform \<open>i\<close>: its two
  calls of \<^verbatim>\<open>randf\<close> are calls \<open>2 * i\<close> and \<open>2 * i + 1\<close> of the load.
\<close>

definition spawn_platform :: "(nat \<Rightarrow> real) \<Rightarrow> nat \<Rightarrow> game \<Rightarrow> game" where
  "spawn_platform rnd i g =
     (let x_min = - 15;
          x_max = 5;
          y = 8 - real i * 8;
          x = randf_min_max x_min x_max (rnd (2 * i));
          speed' = randf_min_max 5 9 (rnd (2 * i + 1))
      in snd (spawn_obstacle
                \<lparr>r_x = x, r_y = y, r_width = 10, r_height = 2.5\<rparr>
                \<lparr>v_x = x_min, v_y = y\<rparr> \<lparr>v_x = x_max, v_y = y\<rparr> speed' g))"

definition load_game :: "(nat \<Rightarrow> real) \<Rightarrow> game \<Rightarrow> game" where
  "load_game rnd g =
     (let p = (PLAYER g)
            \<lparr>position := Vector2Zero, velocity := Vector2Zero,
             p_size := \<lparr>v_x = 1, v_y = 2\<rparr>, p_speed := 15, jump_impulse := 30,
             max_health := PLAYER_MAX_HEALTH, health := PLAYER_MAX_HEALTH\<rparr>;
          g0 = g\<lparr>PLAYER := p, N_OBSTACLES := 0\<rparr>;
          g1 = snd (spawn_static_obstacle
                 \<lparr>r_x = - 20, r_y = 20, r_width = 40, r_height = 2.5\<rparr> g0);
          g2 = snd (spawn_static_obstacle
                 \<lparr>r_x = - 20, r_y = - 100, r_width = 2.5, r_height = 120\<rparr> g1);
          g3 = snd (spawn_static_obstacle
                 \<lparr>r_x = - 17.5, r_y = 15, r_width = 2.5, r_height = 5\<rparr> g2);
          g4 = snd (spawn_static_obstacle
                 \<lparr>r_x = 17.5, r_y = - 100, r_width = 2.5, r_height = 120\<rparr> g3)
      in fold (spawn_platform rnd) [0..<10] g4)"

definition update_reset :: "frame \<Rightarrow> game \<Rightarrow> game" where
  "update_reset fr g = (if key_R_pressed fr then load_game (randf fr) g else g)"

text \<open>
  One pass of the main loop. \<^verbatim>\<open>update_camera\<close> reads the player's position and
  writes \<^verbatim>\<open>CAMERA.target\<close> only, which nothing else of the update reads; the
  camera and the drawing are left out.
\<close>

definition update :: "frame \<Rightarrow> game \<Rightarrow> game" where
  "update fr g =
     update_player_collisions
       (update_obstacles (frame_time fr) (update_player fr (update_reset fr g)))"

text \<open>
  The frames the program can meet: the frame time is not negative and every
  result of \<^verbatim>\<open>randf\<close> lies in the unit interval.
\<close>

definition frame_ok :: "frame \<Rightarrow> bool" where
  "frame_ok fr \<longleftrightarrow> 0 \<le> frame_time fr \<and> (\<forall>k. 0 \<le> randf fr k \<and> randf fr k \<le> 1)"

text \<open>
  The states of \<^verbatim>\<open>main\<close> at the head of its loop: \<^verbatim>\<open>load\<close> runs \<^verbatim>\<open>load_game\<close>
  on the initial globals, then every pass runs \<^verbatim>\<open>update\<close>.
\<close>

inductive reachable :: "game \<Rightarrow> bool" where
  loaded: "(\<forall>k. 0 \<le> rnd k \<and> rnd k \<le> 1) \<Longrightarrow> reachable (load_game rnd initial_game)"
| ticked: "reachable g \<Longrightarrow> frame_ok fr \<Longrightarrow> reachable (update fr g)"

section \<open>The loops as list functions\<close>

text \<open>
  The three loops of the program run over the indices below the count and assign
  to the slot of the index. The definitions of this section name what one pass
  of a loop does to one obstacle, so that the lemmas below can state each loop as
  a \<open>map\<close> or a \<open>foldl\<close> over the first \<^verbatim>\<open>N_OBSTACLES\<close> slots.
\<close>

definition obstacle_position :: "Obstacle \<Rightarrow> Vector2" where
  "obstacle_position ob = \<lparr>v_x = r_x (rect ob), v_y = r_y (rect ob)\<rparr>"

definition obstacle_target :: "Obstacle \<Rightarrow> Vector2" where
  "obstacle_target ob = (if is_moving_to_start ob then start ob else endp ob)"

definition obstacle_direction :: "Obstacle \<Rightarrow> Vector2" where
  "obstacle_direction ob =
     (let direction = Vector2Normalize (Vector2Subtract (endp ob) (start ob))
      in if is_moving_to_start ob then Vector2Negate direction else direction)"

definition obstacle_step :: "real \<Rightarrow> Obstacle \<Rightarrow> Vector2" where
  "obstacle_step dt ob = Vector2Scale (obstacle_direction ob) (dt * speed ob)"

definition moved_obstacle :: "real \<Rightarrow> Obstacle \<Rightarrow> Obstacle" where
  "moved_obstacle dt ob =
     (if \<not> (speed ob > 0) then ob
      else
        let position' = Vector2Add (obstacle_position ob) (obstacle_step dt ob)
        in if Vector2DotProduct (obstacle_direction ob)
                (Vector2Subtract (obstacle_target ob) position') > 0
           then ob\<lparr>rect := (rect ob)\<lparr>r_x := v_x position', r_y := v_y position'\<rparr>\<rparr>
           else ob\<lparr>rect := (rect ob)\<lparr>r_x := v_x (obstacle_target ob),
                                      r_y := v_y (obstacle_target ob)\<rparr>,
                   is_moving_to_start := \<not> is_moving_to_start ob\<rparr>)"

definition carried :: "real \<Rightarrow> Player \<Rightarrow> Obstacle \<Rightarrow> Player" where
  "carried dt p ob =
     (if speed ob > 0 \<and> is_player_attached ob
      then p\<lparr>position := Vector2Add (position p) (obstacle_step dt ob)\<rparr> else p)"

definition track_extrema :: "extrema \<Rightarrow> Vector2 \<Rightarrow> extrema" where
  "track_extrema e mtv =
     \<lparr>mtv_min_x = min (mtv_min_x e) (v_x mtv), mtv_max_x = max (mtv_max_x e) (v_x mtv),
      mtv_min_y = min (mtv_min_y e) (v_y mtv), mtv_max_y = max (mtv_max_y e) (v_y mtv)\<rparr>"

definition attach :: "Rectangle \<Rightarrow> Obstacle \<Rightarrow> Obstacle" where
  "attach player_rect ob =
     ob\<lparr>is_player_attached := v_y (get_aabb_mtv player_rect (rect ob)) < 0 \<and> speed ob > 0\<rparr>"

text \<open>
  A point lies on the closed segment from \<open>a\<close> to \<open>b\<close>: it is \<open>a\<close> when the
  segment is a point; otherwise it is collinear with the two ends and its
  projection falls between them.
\<close>

definition on_segment :: "Vector2 \<Rightarrow> Vector2 \<Rightarrow> Vector2 \<Rightarrow> bool" where
  "on_segment a b p \<longleftrightarrow>
     (if a = b then p = a
      else (v_x b - v_x a) * (v_y p - v_y a) - (v_y b - v_y a) * (v_x p - v_x a) = 0 \<and>
           0 \<le> Vector2DotProduct (Vector2Subtract p a) (Vector2Subtract b a) \<and>
           Vector2DotProduct (Vector2Subtract p a) (Vector2Subtract b a) \<le>
             Vector2DotProduct (Vector2Subtract b a) (Vector2Subtract b a))"

text \<open>
  What \<^verbatim>\<open>load_game\<close> spawns, as a list of descriptors in the order of the
  calls: the four static obstacles, then the ten platforms, whose \<open>x\<close> and
  \<open>speed\<close> come from \<^verbatim>\<open>randf\<close>. \<open>respawn\<close> is the assignment \<^verbatim>\<open>spawn_obstacle\<close>
  makes to a slot, \<open>spawn_of\<close> reads a descriptor back from an obstacle, and
  \<open>loaded_player\<close> is what \<^verbatim>\<open>load_game\<close> assigns to the player.
\<close>

record spawn =
  s_rect :: Rectangle
  s_start :: Vector2
  s_end :: Vector2
  s_speed :: real

definition respawn :: "spawn \<Rightarrow> Obstacle \<Rightarrow> Obstacle" where
  "respawn sp ob =
     ob\<lparr>rect := s_rect sp, start := s_start sp, endp := s_end sp, speed := s_speed sp\<rparr>"

definition spawn_one :: "spawn \<Rightarrow> game \<Rightarrow> game" where
  "spawn_one sp g = snd (spawn_obstacle (s_rect sp) (s_start sp) (s_end sp) (s_speed sp) g)"

definition static_spawn :: "Rectangle \<Rightarrow> spawn" where
  "static_spawn r =
     \<lparr>s_rect = r, s_start = \<lparr>v_x = r_x r, v_y = r_y r\<rparr>,
      s_end = \<lparr>v_x = r_x r, v_y = r_y r\<rparr>, s_speed = 0\<rparr>"

definition platform_spawn :: "(nat \<Rightarrow> real) \<Rightarrow> nat \<Rightarrow> spawn" where
  "platform_spawn rnd i =
     \<lparr>s_rect = \<lparr>r_x = randf_min_max (- 15) 5 (rnd (2 * i)), r_y = 8 - real i * 8,
                 r_width = 10, r_height = 2.5\<rparr>,
      s_start = \<lparr>v_x = - 15, v_y = 8 - real i * 8\<rparr>,
      s_end = \<lparr>v_x = 5, v_y = 8 - real i * 8\<rparr>,
      s_speed = randf_min_max 5 9 (rnd (2 * i + 1))\<rparr>"

definition level :: "(nat \<Rightarrow> real) \<Rightarrow> spawn list" where
  "level rnd =
     [static_spawn \<lparr>r_x = - 20, r_y = 20, r_width = 40, r_height = 2.5\<rparr>,
      static_spawn \<lparr>r_x = - 20, r_y = - 100, r_width = 2.5, r_height = 120\<rparr>,
      static_spawn \<lparr>r_x = - 17.5, r_y = 15, r_width = 2.5, r_height = 5\<rparr>,
      static_spawn \<lparr>r_x = 17.5, r_y = - 100, r_width = 2.5, r_height = 120\<rparr>] @
     map (platform_spawn rnd) [0..<10]"

definition loaded_player :: "Player \<Rightarrow> Player" where
  "loaded_player p =
     p\<lparr>position := \<lparr>v_x = 0, v_y = 0\<rparr>, velocity := \<lparr>v_x = 0, v_y = 0\<rparr>,
       p_size := \<lparr>v_x = 1, v_y = 2\<rparr>, p_speed := 15, jump_impulse := 30,
       max_health := 100, health := 100\<rparr>"

definition spawn_of :: "Obstacle \<Rightarrow> spawn" where
  "spawn_of ob = \<lparr>s_rect = rect ob, s_start = start ob, s_end = endp ob, s_speed = speed ob\<rparr>"

text \<open>
  A frame with no key down and none pressed, and the run of the main loop over a
  list of frames.
\<close>

definition idle :: "real \<Rightarrow> frame" where
  "idle dt =
     \<lparr>frame_time = dt, key_A_down = False, key_D_down = False, key_W_pressed = False,
      key_R_pressed = False, randf = (\<lambda>k. 0)\<rparr>"

definition run :: "frame list \<Rightarrow> game \<Rightarrow> game" where
  "run frs g = fold update frs g"

text \<open>
  What every state of the main loop satisfies: the count is 14 and the array has
  its 64 slots; the four static obstacles have speed zero and no attachment,
  the ten platforms have positive speed; the health is at most the maximum,
  which is \<^verbatim>\<open>PLAYER_MAX_HEALTH\<close>.
\<close>

definition level_ok :: "game \<Rightarrow> bool" where
  "level_ok g \<longleftrightarrow>
     N_OBSTACLES g = 14 \<and> length (OBSTACLES g) = MAX_N_OBSTACLES \<and>
     (\<forall>i < 4. speed (OBSTACLES g ! i) = 0 \<and> \<not> is_player_attached (OBSTACLES g ! i)) \<and>
     (\<forall>i. 4 \<le> i \<and> i < 14 \<longrightarrow> 0 < speed (OBSTACLES g ! i)) \<and>
     health (PLAYER g) \<le> max_health (PLAYER g) \<and>
     max_health (PLAYER g) = PLAYER_MAX_HEALTH"

section \<open>States used as examples\<close>

text \<open>
  A player of the size the game loads, at the origin and falling at speed \<open>vy\<close>
  with health \<open>h\<close>, whose rectangle reaches half a unit into a static floor.
\<close>

definition landing_game :: "real \<Rightarrow> real \<Rightarrow> game" where
  "landing_game vy h =
     \<lparr>PLAYER = \<lparr>position = \<lparr>v_x = 0, v_y = 0\<rparr>, velocity = \<lparr>v_x = 0, v_y = vy\<rparr>,
                p_size = \<lparr>v_x = 1, v_y = 2\<rparr>, p_speed = 15, jump_impulse = 30,
                health = h, max_health = 100, is_grounded = False\<rparr>,
      N_OBSTACLES = 1,
      OBSTACLES = [\<lparr>rect = \<lparr>r_x = - 20, r_y = 3.5, r_width = 40, r_height = 2.5\<rparr>,
                    start = \<lparr>v_x = - 20, v_y = 3.5\<rparr>, endp = \<lparr>v_x = - 20, v_y = 3.5\<rparr>,
                    speed = 0, is_moving_to_start = False, is_player_attached = False\<rparr>]\<rparr>"

text \<open>
  A platform of the game midway on its patrol from \<open>(-15, 0)\<close> to \<open>(5, 0)\<close>,
  alone in the array, with a flag for its direction.
\<close>

definition patrol_game :: "real \<Rightarrow> bool \<Rightarrow> game" where
  "patrol_game x m =
     \<lparr>PLAYER = zero_player,
      N_OBSTACLES = 1,
      OBSTACLES = [\<lparr>rect = \<lparr>r_x = x, r_y = 0, r_width = 10, r_height = 2.5\<rparr>,
                    start = \<lparr>v_x = - 15, v_y = 0\<rparr>, endp = \<lparr>v_x = 5, v_y = 0\<rparr>,
                    speed = 5, is_moving_to_start = m, is_player_attached = False\<rparr>]\<rparr>"

text \<open>The array at capacity.\<close>

definition full_game :: game where
  "full_game = initial_game\<lparr>N_OBSTACLES := MAX_N_OBSTACLES\<rparr>"

text \<open>
  The player of the game at rest at the origin with no obstacle spawned.
\<close>

definition drop_game :: game where
  "drop_game = initial_game\<lparr>PLAYER := loaded_player zero_player\<rparr>"

section \<open>A run of the game\<close>

text \<open>
  The globals with a given player and given obstacles in the first slots, the
  rest of the array as the initialiser left it.
\<close>

definition game_of :: "Player \<Rightarrow> Obstacle list \<Rightarrow> game" where
  "game_of p obs =
     \<lparr>PLAYER = p, N_OBSTACLES = length obs,
      OBSTACLES = obs @ replicate (MAX_N_OBSTACLES - length obs) zero_obstacle\<rparr>"

text \<open>
  What \<^verbatim>\<open>update_player_collisions\<close> does to the player after its loop, given the
  combined correction vector.
\<close>

definition resolve :: "Vector2 \<Rightarrow> Player \<Rightarrow> Player" where
  "resolve mtv p =
     (let p1 = p\<lparr>position := Vector2Add (position p) mtv\<rparr>
      in if v_y mtv < 0 \<and> v_y (velocity p1) > 0 then
           p1\<lparr>health := health p1 - max 0 (Vector2Length (velocity p1) - MAX_SPEED_WITHOUT_DAMAGE),
              velocity := Vector2Zero, is_grounded := True\<rparr>
         else if v_y mtv > 0 \<and> v_y (velocity p1) < 0 then
           p1\<lparr>velocity := (velocity p1)\<lparr>v_y := 0\<rparr>\<rparr>
         else p1\<lparr>is_grounded := False\<rparr>)"

text \<open>
  A frame without reset, of length \<open>dt\<close>, with the keys A and D down or not and
  W pressed or not; and the frame that presses R, whose random numbers are all 1.
\<close>

definition keys :: "real \<Rightarrow> bool \<Rightarrow> bool \<Rightarrow> bool \<Rightarrow> frame" where
  "keys dt a d w =
     \<lparr>frame_time = dt, key_A_down = a, key_D_down = d, key_W_pressed = w,
      key_R_pressed = False, randf = (\<lambda>k. 0)\<rparr>"

definition reset_frame :: frame where
  "reset_frame =
     \<lparr>frame_time = 0, key_A_down = False, key_D_down = False, key_W_pressed = False,
      key_R_pressed = True, randf = (\<lambda>k. 1)\<rparr>"

text \<open>
  The level as \<^verbatim>\<open>load_game\<close> builds it when every first random number of a
  platform is \<open>1/2\<close> and every second one is \<open>0\<close>: all ten platforms start at
  \<open>x = -5\<close> with speed 5, so they move together. A state of that level is then
  given by the player's position, vertical velocity, health and grounded flag,
  the common \<open>x\<close> and direction flag of the platforms, and the platform the
  player is attached to, if any.
\<close>

definition first_draws :: "nat \<Rightarrow> real" where
  "first_draws k = (if even k then 1 / 2 else 0)"

definition platform_at :: "real \<Rightarrow> bool \<Rightarrow> nat option \<Rightarrow> nat \<Rightarrow> Obstacle" where
  "platform_at x m att i =
     \<lparr>rect = \<lparr>r_x = x, r_y = 8 - real i * 8, r_width = 10, r_height = 5 / 2\<rparr>,
      start = \<lparr>v_x = - 15, v_y = 8 - real i * 8\<rparr>, endp = \<lparr>v_x = 5, v_y = 8 - real i * 8\<rparr>,
      speed = 5, is_moving_to_start = m, is_player_attached = (att = Some i)\<rparr>"

definition static_at :: "real \<Rightarrow> real \<Rightarrow> real \<Rightarrow> real \<Rightarrow> Obstacle" where
  "static_at x y w h =
     \<lparr>rect = \<lparr>r_x = x, r_y = y, r_width = w, r_height = h\<rparr>,
      start = \<lparr>v_x = x, v_y = y\<rparr>, endp = \<lparr>v_x = x, v_y = y\<rparr>,
      speed = 0, is_moving_to_start = False, is_player_attached = False\<rparr>"

definition snapshot ::
    "real \<Rightarrow> real \<Rightarrow> real \<Rightarrow> real \<Rightarrow> bool \<Rightarrow> real \<Rightarrow> bool \<Rightarrow> nat option \<Rightarrow> game" where
  "snapshot px py vy h gr x m att =
     game_of
       \<lparr>position = \<lparr>v_x = px, v_y = py\<rparr>, velocity = \<lparr>v_x = 0, v_y = vy\<rparr>,
        p_size = \<lparr>v_x = 1, v_y = 2\<rparr>, p_speed = 15, jump_impulse = 30, health = h,
        max_health = 100, is_grounded = gr\<rparr>
       [static_at (- 20) 20 40 (5 / 2), static_at (- 20) (- 100) (5 / 2) 120,
        static_at (- (35 / 2)) 15 (5 / 2) 5, static_at (35 / 2) (- 100) (5 / 2) 120,
        platform_at x m att 0, platform_at x m att 1, platform_at x m att 2,
        platform_at x m att 3, platform_at x m att 4, platform_at x m att 5,
        platform_at x m att 6, platform_at x m att 7, platform_at x m att 8,
        platform_at x m att 9]"

text \<open>
  Sixty-five frames. The first lets the player fall from the origin onto the
  lowest platform. Then nine times three frames climb one platform each: a jump
  of 1/8 s, 1/4 s of rise into the upper half of the next platform, which moves
  the player on top of it, and 1/4 s to land there. Five frames of free fall
  from the top platform end on the lowest platform at speed 78.125. The same
  climb follows, and five frames of free fall end on the ground at speed
  84.375. The keys A and D keep the player over the platforms.
\<close>

definition plan :: "frame list" where
  "plan =
     [keys (5 / 16) False False False,
      keys (1 / 8) False True True,
      keys (1 / 4) False False False,
      keys (1 / 4) False False False,
      keys (1 / 8) False False True,
      keys (1 / 4) False False False,
      keys (1 / 4) False False False,
      keys (1 / 8) False False True,
      keys (1 / 4) False False False,
      keys (1 / 4) False False False,
      keys (1 / 8) False False True,
      keys (1 / 4) False False False,
      keys (1 / 4) False False False,
      keys (1 / 8) False False True,
      keys (1 / 4) False False False,
      keys (1 / 4) False False False,
      keys (1 / 8) True False True,
      keys (1 / 4) False False False,
      keys (1 / 4) False False False,
      keys (1 / 8) True False True,
      keys (1 / 4) False False False,
      keys (1 / 4) False False False,
      keys (1 / 8) False False True,
      keys (1 / 4) False False False,
      keys (1 / 4) False False False,
      keys (1 / 8) True False True,
      keys (1 / 4) False False False,
      keys (1 / 4) False False False,
      keys (5 / 16) False False False,
      keys (5 / 16) False False False,
      keys (3 / 16) False False False,
      keys (5 / 16) False False False,
      keys (7 / 16) False True False,
      keys (1 / 8) False False True,
      keys (1 / 4) False False False,
      keys (1 / 4) False False False,
      keys (1 / 8) False True True,
      keys (1 / 4) False False False,
      keys (1 / 4) False False False,
      keys (1 / 8) False False True,
      keys (1 / 4) False False False,
      keys (1 / 4) False False False,
      keys (1 / 8) False True True,
      keys (1 / 4) False False False,
      keys (1 / 4) False False False,
      keys (1 / 8) False False True,
      keys (1 / 4) False False False,
      keys (1 / 4) False False False,
      keys (1 / 8) False False True,
      keys (1 / 4) False False False,
      keys (1 / 4) False False False,
      keys (1 / 8) False False True,
      keys (1 / 4) False False False,
      keys (1 / 4) False False False,
      keys (1 / 8) True False True,
      keys (1 / 4) False False False,
      keys (1 / 4) False False False,
      keys (1 / 8) True False True,
      keys (1 / 4) False False False,
      keys (1 / 4) False False False,
      keys (5 / 16) False False False,
      keys (5 / 16) False False False,
      keys (5 / 16) False False False,
      keys (3 / 8) False False False,
      keys (3 / 8) False False False]"

section \<open>The minimum translation vector\<close>

text \<open>
  In exact arithmetic the vector separates the two rectangles and leaves them
  touching.
\<close>

lemma get_aabb_mtv_exact:
  "(\<not> CheckCollisionRecs r1 r2 \<longrightarrow> get_aabb_mtv r1 r2 = Vector2Zero) \<and>
   (CheckCollisionRecs r1 r2 \<longrightarrow>
      ((v_x (get_aabb_mtv r1 r2) \<noteq> 0) \<noteq> (v_y (get_aabb_mtv r1 r2) \<noteq> 0)) \<and>
      \<not> CheckCollisionRecs (translate_rect r1 (get_aabb_mtv r1 r2)) r2 \<and>
      touching (translate_rect r1 (get_aabb_mtv r1 r2)) r2)"
  by (auto simp: get_aabb_mtv_def CheckCollisionRecs_def translate_rect_def touching_def
      Let_def)

text \<open>Rounding in a binade that is known, and the roundings of the examples.\<close>

lemma exponent32_at:
  assumes "2 powi e \<le> \<bar>x\<bar>" and "\<bar>x\<bar> < 2 powi (e + 1)" and "- 126 \<le> e"
  shows "exponent32 x = e"
proof -
  have p: "0 < \<bar>x\<bar>"
    using assms(1) by (smt (verit) zero_less_power_int)
  have q: "(2 :: real) powr (of_int e + 1) = 2 powi (e + 1)"
    using powr_real_of_int' [of 2 "e + 1"] by simp
  have "\<lfloor>log 2 \<bar>x\<bar>\<rfloor> = e"
    using assms p by (simp add: floor_log_eq_powr_iff powr_real_of_int' q)
  then show ?thesis
    using assms(3) by (simp add: exponent32_def)
qed

lemma round32_at:
  assumes "2 powi e \<le> \<bar>x\<bar>" and "\<bar>x\<bar> < 2 powi (e + 1)" and "- 126 \<le> e"
  shows "round32 x = 2 powi (e - 23) * of_int (round_even (x / 2 powi (e - 23)))"
proof -
  have "0 < \<bar>x\<bar>"
    using assms(1) by (smt (verit) zero_less_power_int)
  then have "x \<noteq> 0" by auto
  then show ?thesis
    by (simp add: round32_def exponent32_at [OF assms])
qed

lemma round32_zero: "round32 0 = 0"
  by (simp add: round32_def)

lemma round32_value_1: "round32 (- (43 / 2)) = - (43 / 2)"
  by (simp add: round32_at [where e = "4"] round_even_def)

lemma round32_value_2: "round32 (- (41 / 2)) = - (41 / 2)"
  by (simp add: round32_at [where e = "4"] round_even_def)

lemma round32_value_3: "round32 (- 20) = - 20"
  by (simp add: round32_at [where e = "4"] round_even_def)

lemma round32_value_4: "round32 (- (9 / 4)) = - (9 / 4)"
  by (simp add: round32_at [where e = "1"] round_even_def)

lemma round32_value_5: "round32 (- 1) = - 1"
  by (simp add: round32_at [where e = "0"] round_even_def)

lemma round32_value_6: "round32 (- (7549747 / 8388608)) = - (7549747 / 8388608)"
  by (simp add: round32_at [where e = "-1"] round_even_def)

lemma round32_value_7: "round32 (- (13421773 / 16777216)) = - (13421773 / 16777216)"
  by (simp add: round32_at [where e = "-1"] round_even_def)

lemma round32_value_8: "round32 (- (1 / 2)) = - (1 / 2)"
  by (simp add: round32_at [where e = "-1"] round_even_def)

lemma round32_value_9: "round32 (- (1 / 4)) = - (1 / 4)"
  by (simp add: round32_at [where e = "-2"] round_even_def)

lemma round32_value_10: "round32 (- (1677721 / 16777216)) = - (1677721 / 16777216)"
  by (simp add: round32_at [where e = "-4"] round_even_def)

lemma round32_value_11: "round32 (- (1 / 33554432)) = - (1 / 33554432)"
  by (simp add: round32_at [where e = "-25"] round_even_def)

lemma round32_value_12: "round32 (13421773 / 134217728) = 13421773 / 134217728"
  by (simp add: round32_at [where e = "-4"] round_even_def)

lemma round32_value_13: "round32 (838861 / 8388608) = 838861 / 8388608"
  by (simp add: round32_at [where e = "-4"] round_even_def)

lemma round32_value_14: "round32 (3355443 / 16777216) = 3355443 / 16777216"
  by (simp add: round32_at [where e = "-3"] round_even_def)

lemma round32_value_15: "round32 (1 / 2) = 1 / 2"
  by (simp add: round32_at [where e = "-1"] round_even_def)

lemma round32_value_16: "round32 (120795957 / 134217728) = 15099495 / 16777216"
  by (simp add: round32_at [where e = "-1"] round_even_def)

lemma round32_value_17: "round32 (33554431 / 33554432) = 1"
  by (simp add: round32_at [where e = "-1"] round_even_def)

lemma round32_value_18: "round32 (134217725 / 134217728) = 1"
  by (simp add: round32_at [where e = "-1"] round_even_def)

lemma round32_value_19: "round32 1 = 1"
  by (simp add: round32_at [where e = "0"] round_even_def)

lemma round32_value_20: "round32 (3 / 2) = 3 / 2"
  by (simp add: round32_at [where e = "0"] round_even_def)

lemma round32_value_21: "round32 2 = 2"
  by (simp add: round32_at [where e = "1"] round_even_def)

lemma round32_value_22: "round32 (9 / 4) = 9 / 4"
  by (simp add: round32_at [where e = "1"] round_even_def)

lemma round32_value_23: "round32 (5 / 2) = 5 / 2"
  by (simp add: round32_at [where e = "1"] round_even_def)

lemma round32_value_24: "round32 (7 / 2) = 7 / 2"
  by (simp add: round32_at [where e = "1"] round_even_def)

lemma round32_value_25: "round32 4 = 4"
  by (simp add: round32_at [where e = "2"] round_even_def)

lemma round32_value_26: "round32 6 = 6"
  by (simp add: round32_at [where e = "2"] round_even_def)

lemma round32_value_27: "round32 (335544319 / 33554432) = 10"
  by (simp add: round32_at [where e = "3"] round_even_def)

lemma round32_value_28: "round32 10 = 10"
  by (simp add: round32_at [where e = "3"] round_even_def)

lemma round32_value_29: "round32 (1355599053 / 134217728) = 5295309 / 524288"
  by (simp add: round32_at [where e = "3"] round_even_def)

lemma round32_value_30: "round32 (182871661 / 16777216) = 11429479 / 1048576"
  by (simp add: round32_at [where e = "3"] round_even_def)

lemma round32_value_31: "round32 11 = 11"
  by (simp add: round32_at [where e = "3"] round_even_def)

lemma round32_value_32: "round32 (92274691 / 8388608) = 11"
  by (simp add: round32_at [where e = "3"] round_even_def)

lemma round32_value_33: "round32 (39 / 2) = 39 / 2"
  by (simp add: round32_at [where e = "4"] round_even_def)

lemma round32_value_34: "round32 20 = 20"
  by (simp add: round32_at [where e = "4"] round_even_def)

lemma round32_value_35: "round32 40 = 40"
  by (simp add: round32_at [where e = "5"] round_even_def)

lemmas round32_values =
  round32_zero round32_value_1 round32_value_2 round32_value_3 round32_value_4
  round32_value_5 round32_value_6 round32_value_7 round32_value_8 round32_value_9
  round32_value_10 round32_value_11 round32_value_12 round32_value_13 round32_value_14
  round32_value_15 round32_value_16 round32_value_17 round32_value_18 round32_value_19
  round32_value_20 round32_value_21 round32_value_22 round32_value_23 round32_value_24
  round32_value_25 round32_value_26 round32_value_27 round32_value_28 round32_value_29
  round32_value_30 round32_value_31 round32_value_32 round32_value_33 round32_value_34
  round32_value_35

text \<open>
  Where nothing rounds, the rounded functions are the exact ones.
\<close>

lemma unrounded_agree:
  assumes "unrounded r1 r2"
  shows "CheckCollisionRecs_f32 r1 r2 = CheckCollisionRecs r1 r2 \<and>
         get_aabb_mtv_f32 r1 r2 = get_aabb_mtv r1 r2"
proof -
  have c: "CheckCollisionRecs_f32 r1 r2 = CheckCollisionRecs r1 r2"
    using assms
    by (simp add: unrounded_def binary32_def fadd_def CheckCollisionRecs_f32_def
        CheckCollisionRecs_def)
  have "get_aabb_mtv_f32 r1 r2 = get_aabb_mtv r1 r2"
    unfolding get_aabb_mtv_f32_def get_aabb_mtv_def c
    using assms by (simp add: unrounded_def binary32_def fadd_def fsub_def)
  then show ?thesis
    using c by simp
qed

lemma get_aabb_mtv_f32_axis:
  "v_x (get_aabb_mtv_f32 r1 r2) = 0 \<or> v_y (get_aabb_mtv_f32 r1 r2) = 0"
  by (simp add: get_aabb_mtv_f32_def Let_def Vector2Zero_def)

lemma unrounded_move_resolved:
  assumes u: "unrounded r1 r2"
    and c: "CheckCollisionRecs_f32 r1 r2"
    and b: "binary32_rect r2"
    and m: "unrounded_move r1 (get_aabb_mtv_f32 r1 r2)"
  shows "\<not> CheckCollisionRecs_f32 (translate_rect_f32 r1 (get_aabb_mtv_f32 r1 r2)) r2"
proof -
  define v where "v = get_aabb_mtv r1 r2"
  have e: "get_aabb_mtv_f32 r1 r2 = v" and ce: "CheckCollisionRecs r1 r2"
    using unrounded_agree [OF u] c by (simp_all add: v_def)
  have t: "translate_rect_f32 r1 v = translate_rect r1 v"
    using m
    by (simp add: e unrounded_move_def binary32_def translate_rect_f32_def translate_rect_def
        fadd_def)
  have s: "fadd (r_x r2) (r_width r2) = r_x r2 + r_width r2"
    "fadd (r_y r2) (r_height r2) = r_y r2 + r_height r2"
    using u by (simp_all add: unrounded_def binary32_def fadd_def)
  have r: "round32 (r_x r2) = r_x r2" "round32 (r_y r2) = r_y r2"
    using b by (simp_all add: binary32_rect_def binary32_def)
  have k: "r_x r1 + v_x v + r_width r1 = r_x r2 \<or> r_x r1 + v_x v = r_x r2 + r_width r2 \<or>
      r_y r1 + v_y v = r_y r2 + r_height r2 \<or> r_y r1 + v_y v + r_height r1 = r_y r2"
    using ce by (auto simp: v_def get_aabb_mtv_def Let_def)
  have f: "CheckCollisionRecs_f32 (translate_rect r1 v) r2 \<longleftrightarrow>
      (r_x r1 + v_x v < r_x r2 + r_width r2 \<and>
       round32 (r_x r1 + v_x v + r_width r1) > r_x r2) \<and>
      (r_y r1 + v_y v < r_y r2 + r_height r2 \<and>
       round32 (r_y r1 + v_y v + r_height r1) > r_y r2)"
    unfolding CheckCollisionRecs_f32_def s by (simp add: translate_rect_def fadd_def)
  have "\<not> CheckCollisionRecs_f32 (translate_rect r1 v) r2"
    unfolding f using k r by auto
  then show ?thesis
    by (simp add: e t)
qed

text \<open>
  C1, with the rounding of \<^verbatim>\<open>float\<close>. Two rectangles that the overlap test
  does not report as overlapping get the zero vector, and the vector returned
  never has two nonzero components. When the two rectangles overlap and no
  operation of the overlap test and of the four candidates rounds, the vector has
  exactly one nonzero component, and the mover translated by it touches the other
  rectangle: the two no longer overlap and share an edge line. When moreover the
  other rectangle is made of \<^verbatim>\<open>float\<close> values and the translation does not
  round either, the rounded overlap test no longer reports the translated mover.
\<close>

theorem get_aabb_mtv_f32_separates:
  "(\<not> CheckCollisionRecs_f32 r1 r2 \<longrightarrow> get_aabb_mtv_f32 r1 r2 = Vector2Zero) \<and>
   (v_x (get_aabb_mtv_f32 r1 r2) = 0 \<or> v_y (get_aabb_mtv_f32 r1 r2) = 0) \<and>
   (unrounded r1 r2 \<and> CheckCollisionRecs_f32 r1 r2 \<longrightarrow>
      ((v_x (get_aabb_mtv_f32 r1 r2) \<noteq> 0) \<noteq> (v_y (get_aabb_mtv_f32 r1 r2) \<noteq> 0)) \<and>
      \<not> CheckCollisionRecs (translate_rect r1 (get_aabb_mtv_f32 r1 r2)) r2 \<and>
      touching (translate_rect r1 (get_aabb_mtv_f32 r1 r2)) r2) \<and>
   (unrounded r1 r2 \<and> CheckCollisionRecs_f32 r1 r2 \<and> binary32_rect r2 \<and>
    unrounded_move r1 (get_aabb_mtv_f32 r1 r2) \<longrightarrow>
      \<not> CheckCollisionRecs_f32 (translate_rect_f32 r1 (get_aabb_mtv_f32 r1 r2)) r2)"
proof -
  have a: "\<not> CheckCollisionRecs_f32 r1 r2 \<longrightarrow> get_aabb_mtv_f32 r1 r2 = Vector2Zero"
    by (simp add: get_aabb_mtv_f32_def)
  have c: "((v_x (get_aabb_mtv_f32 r1 r2) \<noteq> 0) \<noteq> (v_y (get_aabb_mtv_f32 r1 r2) \<noteq> 0)) \<and>
      \<not> CheckCollisionRecs (translate_rect r1 (get_aabb_mtv_f32 r1 r2)) r2 \<and>
      touching (translate_rect r1 (get_aabb_mtv_f32 r1 r2)) r2"
    if "unrounded r1 r2" "CheckCollisionRecs_f32 r1 r2"
    using unrounded_agree [OF that(1)] that(2) get_aabb_mtv_exact [of r1 r2] by simp
  show ?thesis
    using a get_aabb_mtv_f32_axis [of r1 r2] c unrounded_move_resolved [of r1 r2] by blast
qed

theorem get_aabb_mtv_f32_separates_witness:
  "unrounded
      \<lparr>r_x = 1 / 2, r_y = 2, r_width = 1, r_height = 2\<rparr>
      \<lparr>r_x = - 20, r_y = 7 / 2, r_width = 40, r_height = 5 / 2\<rparr> \<and>
   CheckCollisionRecs_f32
       \<lparr>r_x = 1 / 2, r_y = 2, r_width = 1, r_height = 2\<rparr>
       \<lparr>r_x = - 20, r_y = 7 / 2, r_width = 40, r_height = 5 / 2\<rparr> \<and>
   binary32_rect \<lparr>r_x = - 20, r_y = 7 / 2, r_width = 40, r_height = 5 / 2\<rparr> \<and>
   unrounded_move
       \<lparr>r_x = 1 / 2, r_y = 2, r_width = 1, r_height = 2\<rparr> (get_aabb_mtv_f32
       \<lparr>r_x = 1 / 2, r_y = 2, r_width = 1, r_height = 2\<rparr>
       \<lparr>r_x = - 20, r_y = 7 / 2, r_width = 40, r_height = 5 / 2\<rparr>) \<and>
   get_aabb_mtv_f32
       \<lparr>r_x = 1 / 2, r_y = 2, r_width = 1, r_height = 2\<rparr>
       \<lparr>r_x = - 20, r_y = 7 / 2, r_width = 40, r_height = 5 / 2\<rparr> =
           \<lparr>v_x = 0, v_y = - (1 / 2)\<rparr> \<and>
   touching (translate_rect
       \<lparr>r_x = 1 / 2, r_y = 2, r_width = 1, r_height = 2\<rparr> (get_aabb_mtv_f32
       \<lparr>r_x = 1 / 2, r_y = 2, r_width = 1, r_height = 2\<rparr>
       \<lparr>r_x = - 20, r_y = 7 / 2, r_width = 40, r_height = 5 / 2\<rparr>))
       \<lparr>r_x = - 20, r_y = 7 / 2, r_width = 40, r_height = 5 / 2\<rparr> \<and>
   \<not> CheckCollisionRecs_f32 (translate_rect_f32
       \<lparr>r_x = 1 / 2, r_y = 2, r_width = 1, r_height = 2\<rparr> (get_aabb_mtv_f32
       \<lparr>r_x = 1 / 2, r_y = 2, r_width = 1, r_height = 2\<rparr>
       \<lparr>r_x = - 20, r_y = 7 / 2, r_width = 40, r_height = 5 / 2\<rparr>))
       \<lparr>r_x = - 20, r_y = 7 / 2, r_width = 40, r_height = 5 / 2\<rparr> \<and>
   \<not> CheckCollisionRecs_f32
       \<lparr>r_x = 1 / 2, r_y = 2, r_width = 1, r_height = 2\<rparr>
       \<lparr>r_x = - 20, r_y = 4, r_width = 40, r_height = 5 / 2\<rparr> \<and>
   get_aabb_mtv_f32
       \<lparr>r_x = 1 / 2, r_y = 2, r_width = 1, r_height = 2\<rparr>
       \<lparr>r_x = - 20, r_y = 4, r_width = 40, r_height = 5 / 2\<rparr> = Vector2Zero"
proof -
  have u: "unrounded
      \<lparr>r_x = 1 / 2, r_y = 2, r_width = 1, r_height = 2\<rparr>
      \<lparr>r_x = - 20, r_y = 7 / 2, r_width = 40, r_height = 5 / 2\<rparr>"
    by (simp add: unrounded_def binary32_def FLT_MAX_def round32_values)
  have c: "CheckCollisionRecs_f32
      \<lparr>r_x = 1 / 2, r_y = 2, r_width = 1, r_height = 2\<rparr>
      \<lparr>r_x = - 20, r_y = 7 / 2, r_width = 40, r_height = 5 / 2\<rparr>"
    by (simp add: CheckCollisionRecs_f32_def fadd_def round32_values)
  have b: "binary32_rect
      \<lparr>r_x = - 20, r_y = 7 / 2, r_width = 40, r_height = 5 / 2\<rparr>"
    by (simp add: binary32_rect_def binary32_def FLT_MAX_def round32_values)
  have n: "\<not> CheckCollisionRecs_f32
      \<lparr>r_x = 1 / 2, r_y = 2, r_width = 1, r_height = 2\<rparr>
      \<lparr>r_x = - 20, r_y = 4, r_width = 40, r_height = 5 / 2\<rparr>"
    by (simp add: CheckCollisionRecs_f32_def fadd_def round32_values)
  have m: "get_aabb_mtv_f32
      \<lparr>r_x = 1 / 2, r_y = 2, r_width = 1, r_height = 2\<rparr>
      \<lparr>r_x = - 20, r_y = 7 / 2, r_width = 40, r_height = 5 / 2\<rparr> =
          \<lparr>v_x = 0, v_y = - (1 / 2)\<rparr>"
    using c by (simp add: get_aabb_mtv_f32_def fadd_def fsub_def round32_values)
  have v: "unrounded_move
      \<lparr>r_x = 1 / 2, r_y = 2, r_width = 1, r_height = 2\<rparr> (get_aabb_mtv_f32
      \<lparr>r_x = 1 / 2, r_y = 2, r_width = 1, r_height = 2\<rparr>
      \<lparr>r_x = - 20, r_y = 7 / 2, r_width = 40, r_height = 5 / 2\<rparr>)"
    unfolding m by (simp add: unrounded_move_def binary32_def FLT_MAX_def round32_values)
  show ?thesis
    using get_aabb_mtv_f32_separates
            [of "\<lparr>r_x = 1 / 2, r_y = 2, r_width = 1, r_height = 2\<rparr>"
                "\<lparr>r_x = - 20, r_y = 7 / 2, r_width = 40, r_height = 5 / 2\<rparr>"]
          get_aabb_mtv_f32_separates
            [of "\<lparr>r_x = 1 / 2, r_y = 2, r_width = 1, r_height = 2\<rparr>"
                "\<lparr>r_x = - 20, r_y = 4, r_width = 40, r_height = 5 / 2\<rparr>"]
          u c b n m v
    by simp
qed

text \<open>
  With rounding, overlap does not give a separating vector. The mover of size
  \<open>1 \<times> 2\<close> at \<open>x = -0.8f\<close> overlaps the rectangle of size \<open>10 \<times> 2.5\<close> at
  \<open>x = 0.1f\<close>: the difference \<^verbatim>\<open>r2.x - r1.x\<close> rounds down, the vector returned is
  \<open>3 / 2 ^ 27\<close> short, and the mover translated by it, exactly or with a rounded
  addition, still overlaps. And the mover at \<open>x = - 1\<close> overlaps the rectangle at
  \<open>x = - (1 / 2 ^ 25)\<close>, yet \<^verbatim>\<open>r2.x - r1.x\<close> rounds to \<open>1\<close>, the western candidate is
  \<open>0\<close>, and the zero vector is returned.
\<close>

theorem get_aabb_mtv_f32_counterexample:
  "binary32_rect
      \<lparr>r_x = - (13421773 / 16777216), r_y = 0, r_width = 1, r_height = 2\<rparr> \<and>
   binary32_rect
       \<lparr>r_x = 13421773 / 134217728, r_y = - (1 / 4), r_width = 10, r_height = 5 / 2\<rparr> \<and>
   CheckCollisionRecs_f32
       \<lparr>r_x = - (13421773 / 16777216), r_y = 0, r_width = 1, r_height = 2\<rparr>
       \<lparr>r_x = 13421773 / 134217728, r_y = - (1 / 4), r_width = 10, r_height = 5 / 2\<rparr> \<and>
   get_aabb_mtv_f32
       \<lparr>r_x = - (13421773 / 16777216), r_y = 0, r_width = 1, r_height = 2\<rparr>
       \<lparr>r_x = 13421773 / 134217728, r_y = - (1 / 4), r_width = 10, r_height = 5 / 2\<rparr> =
           \<lparr>v_x = - (1677721 / 16777216), v_y = 0\<rparr> \<and>
   CheckCollisionRecs_f32 (translate_rect_f32
       \<lparr>r_x = - (13421773 / 16777216), r_y = 0, r_width = 1, r_height = 2\<rparr>
           (get_aabb_mtv_f32
       \<lparr>r_x = - (13421773 / 16777216), r_y = 0, r_width = 1, r_height = 2\<rparr>
       \<lparr>r_x = 13421773 / 134217728, r_y = - (1 / 4), r_width = 10, r_height = 5 / 2\<rparr>))
       \<lparr>r_x = 13421773 / 134217728, r_y = - (1 / 4), r_width = 10, r_height = 5 / 2\<rparr> \<and>
   CheckCollisionRecs (translate_rect
       \<lparr>r_x = - (13421773 / 16777216), r_y = 0, r_width = 1, r_height = 2\<rparr>
           (get_aabb_mtv_f32
       \<lparr>r_x = - (13421773 / 16777216), r_y = 0, r_width = 1, r_height = 2\<rparr>
       \<lparr>r_x = 13421773 / 134217728, r_y = - (1 / 4), r_width = 10, r_height = 5 / 2\<rparr>))
       \<lparr>r_x = 13421773 / 134217728, r_y = - (1 / 4), r_width = 10, r_height = 5 / 2\<rparr> \<and>
   \<not> touching (translate_rect
       \<lparr>r_x = - (13421773 / 16777216), r_y = 0, r_width = 1, r_height = 2\<rparr>
           (get_aabb_mtv_f32
       \<lparr>r_x = - (13421773 / 16777216), r_y = 0, r_width = 1, r_height = 2\<rparr>
       \<lparr>r_x = 13421773 / 134217728, r_y = - (1 / 4), r_width = 10, r_height = 5 / 2\<rparr>))
       \<lparr>r_x = 13421773 / 134217728, r_y = - (1 / 4), r_width = 10, r_height = 5 / 2\<rparr> \<and>
   binary32_rect \<lparr>r_x = - 1, r_y = 0, r_width = 1, r_height = 2\<rparr> \<and>
   binary32_rect
       \<lparr>r_x = - (1 / 33554432), r_y = - (1 / 4), r_width = 10, r_height = 5 / 2\<rparr> \<and>
   CheckCollisionRecs_f32
       \<lparr>r_x = - 1, r_y = 0, r_width = 1, r_height = 2\<rparr>
       \<lparr>r_x = - (1 / 33554432), r_y = - (1 / 4), r_width = 10, r_height = 5 / 2\<rparr> \<and>
   get_aabb_mtv_f32
       \<lparr>r_x = - 1, r_y = 0, r_width = 1, r_height = 2\<rparr>
       \<lparr>r_x = - (1 / 33554432), r_y = - (1 / 4), r_width = 10, r_height = 5 / 2\<rparr> =
           \<lparr>v_x = 0, v_y = 0\<rparr>"
proof -
  have b: "binary32_rect
      \<lparr>r_x = - (13421773 / 16777216), r_y = 0, r_width = 1, r_height = 2\<rparr> \<and>
      binary32_rect
          \<lparr>r_x = 13421773 / 134217728, r_y = - (1 / 4), r_width = 10, r_height = 5 / 2\<rparr> \<and>
      binary32_rect \<lparr>r_x = - 1, r_y = 0, r_width = 1, r_height = 2\<rparr> \<and>
      binary32_rect
          \<lparr>r_x = - (1 / 33554432), r_y = - (1 / 4), r_width = 10, r_height = 5 / 2\<rparr>"
    by (simp add: binary32_rect_def binary32_def FLT_MAX_def round32_values)
  have c1: "CheckCollisionRecs_f32
      \<lparr>r_x = - (13421773 / 16777216), r_y = 0, r_width = 1, r_height = 2\<rparr>
      \<lparr>r_x = 13421773 / 134217728, r_y = - (1 / 4), r_width = 10, r_height = 5 / 2\<rparr>"
    by (simp add: CheckCollisionRecs_f32_def fadd_def round32_values)
  have m1: "get_aabb_mtv_f32
      \<lparr>r_x = - (13421773 / 16777216), r_y = 0, r_width = 1, r_height = 2\<rparr>
      \<lparr>r_x = 13421773 / 134217728, r_y = - (1 / 4), r_width = 10, r_height = 5 / 2\<rparr> =
          \<lparr>v_x = - (1677721 / 16777216), v_y = 0\<rparr>"
    using c1 by (simp add: get_aabb_mtv_f32_def fadd_def fsub_def round32_values)
  have t1: "CheckCollisionRecs_f32 (translate_rect_f32
      \<lparr>r_x = - (13421773 / 16777216), r_y = 0, r_width = 1, r_height = 2\<rparr>
          \<lparr>v_x = - (1677721 / 16777216), v_y = 0\<rparr>)
      \<lparr>r_x = 13421773 / 134217728, r_y = - (1 / 4), r_width = 10, r_height = 5 / 2\<rparr>"
    by (simp add: CheckCollisionRecs_f32_def translate_rect_f32_def fadd_def round32_values)
  have e1: "CheckCollisionRecs (translate_rect
      \<lparr>r_x = - (13421773 / 16777216), r_y = 0, r_width = 1, r_height = 2\<rparr>
          \<lparr>v_x = - (1677721 / 16777216), v_y = 0\<rparr>)
      \<lparr>r_x = 13421773 / 134217728, r_y = - (1 / 4), r_width = 10, r_height = 5 / 2\<rparr>"
    by (simp add: CheckCollisionRecs_def translate_rect_def)
  have c2: "CheckCollisionRecs_f32
      \<lparr>r_x = - 1, r_y = 0, r_width = 1, r_height = 2\<rparr>
      \<lparr>r_x = - (1 / 33554432), r_y = - (1 / 4), r_width = 10, r_height = 5 / 2\<rparr>"
    by (simp add: CheckCollisionRecs_f32_def fadd_def round32_values)
  have m2: "get_aabb_mtv_f32
      \<lparr>r_x = - 1, r_y = 0, r_width = 1, r_height = 2\<rparr>
      \<lparr>r_x = - (1 / 33554432), r_y = - (1 / 4), r_width = 10, r_height = 5 / 2\<rparr> =
          \<lparr>v_x = 0, v_y = 0\<rparr>"
    using c2 by (simp add: get_aabb_mtv_f32_def fadd_def fsub_def round32_values)
  show ?thesis
    using b c1 t1 e1 c2 m2 by (simp add: m1 touching_def)
qed



section \<open>Lemmas: the loops as list functions\<close>

lemma take_Suc_map_drop:
  assumes "k < length xs"
  shows "(map f (take k xs) @ drop k xs)[k := f (xs ! k)] = map f (take (Suc k) xs) @ drop (Suc k) xs"
proof -
  have "drop k xs = xs ! k # drop (Suc k) xs"
    using assms by (simp add: Cons_nth_drop_Suc)
  moreover have "take (Suc k) xs = take k xs @ [xs ! k]"
    using assms by (simp add: take_Suc_conv_app_nth)
  ultimately show ?thesis
    using assms by (simp add: list_update_append)
qed

lemma nth_map_take_drop:
  assumes "k < length xs"
  shows "(map f (take k xs) @ drop k xs) ! k = xs ! k"
  using assms by (simp add: nth_append)

lemma update_obstacle_eq:
  "update_obstacle dt i g =
     g\<lparr>PLAYER := carried dt (PLAYER g) (OBSTACLES g ! i),
       OBSTACLES := (OBSTACLES g)[i := moved_obstacle dt (OBSTACLES g ! i)]\<rparr>"
  by (simp add: update_obstacle_def Let_def carried_def moved_obstacle_def obstacle_step_def
      obstacle_direction_def obstacle_target_def obstacle_position_def Vector2Add_def)

lemma fold_update_obstacle:
  assumes "k \<le> length (OBSTACLES g)"
  shows "fold (update_obstacle dt) [0..<k] g =
           g\<lparr>PLAYER := foldl (carried dt) (PLAYER g) (take k (OBSTACLES g)),
             OBSTACLES := map (moved_obstacle dt) (take k (OBSTACLES g)) @
                          drop k (OBSTACLES g)\<rparr>"
  using assms
proof (induction k)
  case 0
  then show ?case by simp
next
  case (Suc k)
  then have k: "k < length (OBSTACLES g)" by simp
  have t: "take (Suc k) (OBSTACLES g) = take k (OBSTACLES g) @ [OBSTACLES g ! k]"
    using k by (simp add: take_Suc_conv_app_nth)
  have "fold (update_obstacle dt) [0..<Suc k] g =
          update_obstacle dt k (fold (update_obstacle dt) [0..<k] g)"
    by simp
  also have "\<dots> = update_obstacle dt k
      (g\<lparr>PLAYER := foldl (carried dt) (PLAYER g) (take k (OBSTACLES g)),
         OBSTACLES := map (moved_obstacle dt) (take k (OBSTACLES g)) @
                      drop k (OBSTACLES g)\<rparr>)"
    using Suc.IH k by simp
  also have "\<dots> =
      g\<lparr>PLAYER := foldl (carried dt) (PLAYER g) (take (Suc k) (OBSTACLES g)),
        OBSTACLES := map (moved_obstacle dt) (take (Suc k) (OBSTACLES g)) @
                     drop (Suc k) (OBSTACLES g)\<rparr>"
    unfolding update_obstacle_eq
    using take_Suc_map_drop [OF k, of "moved_obstacle dt"]
      nth_map_take_drop [OF k, of "moved_obstacle dt"]
    by (simp add: t)
  finally show ?case .
qed

lemma update_obstacles_eq:
  assumes "N_OBSTACLES g \<le> length (OBSTACLES g)"
  shows "update_obstacles dt g =
           g\<lparr>PLAYER := foldl (carried dt) (PLAYER g) (take (N_OBSTACLES g) (OBSTACLES g)),
             OBSTACLES := map (moved_obstacle dt) (take (N_OBSTACLES g) (OBSTACLES g)) @
                          drop (N_OBSTACLES g) (OBSTACLES g)\<rparr>"
  using fold_update_obstacle [OF assms] by (simp add: update_obstacles_def)

lemma Vector2_eq_iff: "(a :: Vector2) = b \<longleftrightarrow> v_x a = v_x b \<and> v_y a = v_y b"
  by (cases a, cases b) simp

lemma on_segment_iff:
  "on_segment a b p \<longleftrightarrow>
     (\<exists>t. 0 \<le> t \<and> t \<le> 1 \<and>
          v_x p = v_x a + t * (v_x b - v_x a) \<and> v_y p = v_y a + t * (v_y b - v_y a))"
proof (cases "a = b")
  case True
  then show ?thesis
    by (auto simp: on_segment_def Vector2_eq_iff intro: exI [of _ 0])
next
  case False
  define dx where "dx = v_x b - v_x a"
  define dy where "dy = v_y b - v_y a"
  define qx where "qx = v_x p - v_x a"
  define qy where "qy = v_y p - v_y a"
  define D where "D = dx * dx + dy * dy"
  have "dx \<noteq> 0 \<or> dy \<noteq> 0"
    using False by (auto simp: Vector2_eq_iff dx_def dy_def)
  then have D: "D > 0"
    unfolding D_def by (metis add_pos_nonneg add_nonneg_pos not_real_square_gt_zero zero_le_square)
  have os: "on_segment a b p \<longleftrightarrow> dx * qy - dy * qx = 0 \<and> 0 \<le> qx * dx + qy * dy \<and> qx * dx + qy * dy \<le> D"
    using False
    by (simp add: on_segment_def Vector2DotProduct_def Vector2Subtract_def dx_def dy_def
        qx_def qy_def D_def)
  have ex: "(\<exists>t. 0 \<le> t \<and> t \<le> 1 \<and>
          v_x p = v_x a + t * (v_x b - v_x a) \<and> v_y p = v_y a + t * (v_y b - v_y a)) \<longleftrightarrow>
        (\<exists>t. 0 \<le> t \<and> t \<le> 1 \<and> qx = t * dx \<and> qy = t * dy)"
    by (auto simp: dx_def dy_def qx_def qy_def)
  have "(dx * qy - dy * qx = 0 \<and> 0 \<le> qx * dx + qy * dy \<and> qx * dx + qy * dy \<le> D) \<longleftrightarrow>
        (\<exists>t. 0 \<le> t \<and> t \<le> 1 \<and> qx = t * dx \<and> qy = t * dy)"
  proof
    assume h: "dx * qy - dy * qx = 0 \<and> 0 \<le> qx * dx + qy * dy \<and> qx * dx + qy * dy \<le> D"
    define t where "t = (qx * dx + qy * dy) / D"
    have t0: "0 \<le> t" using h D by (simp add: t_def)
    have t1: "t \<le> 1" using h D by (simp add: t_def)
    have c: "dx * qy = dy * qx" using h by simp
    have "t * dx * D = (qx * dx + qy * dy) * dx"
      using D by (simp add: t_def)
    also have "\<dots> = qx * (dx * dx) + dy * (dx * qy)"
      by (simp add: algebra_simps)
    also have "\<dots> = qx * D"
      by (simp add: c D_def algebra_simps)
    finally have x: "qx = t * dx" using D by simp
    have "t * dy * D = (qx * dx + qy * dy) * dy"
      using D by (simp add: t_def)
    also have "\<dots> = dx * (dy * qx) + qy * (dy * dy)"
      by (simp add: algebra_simps)
    also have "\<dots> = qy * D"
      by (simp add: c [symmetric] D_def algebra_simps)
    finally have y: "qy = t * dy" using D by simp
    show "\<exists>t. 0 \<le> t \<and> t \<le> 1 \<and> qx = t * dx \<and> qy = t * dy"
      using t0 t1 x y by blast
  next
    assume "\<exists>t. 0 \<le> t \<and> t \<le> 1 \<and> qx = t * dx \<and> qy = t * dy"
    then obtain t where t: "0 \<le> t" "t \<le> 1" "qx = t * dx" "qy = t * dy" by blast
    have e: "qx * dx + qy * dy = t * D"
      by (simp add: t D_def algebra_simps)
    have le: "t * D \<le> 1 * D"
      using t D by (intro mult_right_mono) simp_all
    have ge: "0 \<le> t * D"
      using t D by simp
    have cr: "dx * qy - dy * qx = 0"
      by (simp add: t)
    show "dx * qy - dy * qx = 0 \<and> 0 \<le> qx * dx + qy * dy \<and> qx * dx + qy * dy \<le> D"
      using le ge cr unfolding e by simp
  qed
  then show ?thesis using os ex by simp
qed

lemma moved_obstacle_param:
  fixes ax ay dx dy t w h s dt :: real
  assumes s: "s > 0" and L: "sqrt (dx * dx + dy * dy) > 0"
  shows "moved_obstacle dt
           \<lparr>rect = \<lparr>r_x = ax + t * dx, r_y = ay + t * dy, r_width = w, r_height = h\<rparr>,
            start = \<lparr>v_x = ax, v_y = ay\<rparr>, endp = \<lparr>v_x = ax + dx, v_y = ay + dy\<rparr>,
            speed = s, is_moving_to_start = m, is_player_attached = c\<rparr> =
         (let k = dt * s / sqrt (dx * dx + dy * dy);
              t' = (if m then t - k else t + k)
          in if (if m then 0 < t' else t' < 1)
             then \<lparr>rect = \<lparr>r_x = ax + t' * dx, r_y = ay + t' * dy, r_width = w, r_height = h\<rparr>,
                   start = \<lparr>v_x = ax, v_y = ay\<rparr>, endp = \<lparr>v_x = ax + dx, v_y = ay + dy\<rparr>,
                   speed = s, is_moving_to_start = m, is_player_attached = c\<rparr>
             else \<lparr>rect = \<lparr>r_x = (if m then ax else ax + dx), r_y = (if m then ay else ay + dy),
                           r_width = w, r_height = h\<rparr>,
                   start = \<lparr>v_x = ax, v_y = ay\<rparr>, endp = \<lparr>v_x = ax + dx, v_y = ay + dy\<rparr>,
                   speed = s, is_moving_to_start = \<not> m, is_player_attached = c\<rparr>)"
proof -
  define L where "L = sqrt (dx * dx + dy * dy)"
  define k where "k = dt * s / L"
  define ob where "ob =
    \<lparr>rect = \<lparr>r_x = ax + t * dx, r_y = ay + t * dy, r_width = w, r_height = h\<rparr>,
     start = \<lparr>v_x = ax, v_y = ay\<rparr>, endp = \<lparr>v_x = ax + dx, v_y = ay + dy\<rparr>,
     speed = s, is_moving_to_start = m, is_player_attached = c\<rparr>"
  have Lpos: "L > 0" using L by (simp add: L_def)
  have LL: "L * L = dx * dx + dy * dy"
    using Lpos unfolding L_def by (metis abs_of_nonneg less_eq_real_def real_sqrt_abs2 real_sqrt_ge_0_iff real_sqrt_mult_self real_sqrt_gt_0_iff)
  have dir: "obstacle_direction ob =
      (if m then \<lparr>v_x = - (dx / L), v_y = - (dy / L)\<rparr> else \<lparr>v_x = dx / L, v_y = dy / L\<rparr>)"
    using Lpos
    by (simp add: obstacle_direction_def ob_def Vector2Normalize_def Vector2Subtract_def
        Vector2Length_def Vector2Scale_def Vector2Negate_def Let_def L_def)
  have step: "obstacle_step dt ob =
      (if m then \<lparr>v_x = - (k * dx), v_y = - (k * dy)\<rparr> else \<lparr>v_x = k * dx, v_y = k * dy\<rparr>)"
    by (simp add: obstacle_step_def dir Vector2Scale_def k_def) (simp add: ob_def)
  have pos: "Vector2Add (obstacle_position ob) (obstacle_step dt ob) =
      (if m then \<lparr>v_x = ax + (t - k) * dx, v_y = ay + (t - k) * dy\<rparr>
       else \<lparr>v_x = ax + (t + k) * dx, v_y = ay + (t + k) * dy\<rparr>)"
    unfolding step by (simp add: Vector2Add_def obstacle_position_def ob_def algebra_simps)
  have tgt: "obstacle_target ob = (if m then \<lparr>v_x = ax, v_y = ay\<rparr> else \<lparr>v_x = ax + dx, v_y = ay + dy\<rparr>)"
    by (simp add: obstacle_target_def ob_def)
  have dot_end: "(dx / L) * ((ax + dx) - (ax + (t + k) * dx)) + (dy / L) * ((ay + dy) - (ay + (t + k) * dy)) =
      (1 - (t + k)) * L"
  proof -
    have "dx * ((ax + dx) - (ax + (t + k) * dx)) + dy * ((ay + dy) - (ay + (t + k) * dy)) =
        (1 - (t + k)) * (L * L)"
      by (simp add: LL algebra_simps)
    then have "(dx * ((ax + dx) - (ax + (t + k) * dx)) + dy * ((ay + dy) - (ay + (t + k) * dy))) / L =
        (1 - (t + k)) * L"
      using Lpos by simp
    then show ?thesis
      by (simp add: add_divide_distrib)
  qed
  have dot_start: "- (dx / L) * (ax - (ax + (t - k) * dx)) + - (dy / L) * (ay - (ay + (t - k) * dy)) =
      (t - k) * L"
  proof -
    have "dx * ((ax + (t - k) * dx) - ax) + dy * ((ay + (t - k) * dy) - ay) =
        (t - k) * (L * L)"
      by (simp add: LL algebra_simps)
    then have "(dx * ((ax + (t - k) * dx) - ax) + dy * ((ay + (t - k) * dy) - ay)) / L =
        (t - k) * L"
      using Lpos by simp
    then show ?thesis
      by (simp add: add_divide_distrib)
  qed
  have dot: "Vector2DotProduct (obstacle_direction ob)
        (Vector2Subtract (obstacle_target ob)
           (Vector2Add (obstacle_position ob) (obstacle_step dt ob))) =
      (if m then (t - k) * L else (1 - (t + k)) * L)"
    using dot_end dot_start
    by (simp add: dir pos tgt Vector2DotProduct_def Vector2Subtract_def)
  have sign: "(0 < (if m then (t - k) * L else (1 - (t + k)) * L)) =
      (if m then 0 < t - k else t + k < 1)"
    using Lpos by (simp add: zero_less_mult_iff)
  have sp: "speed ob > 0" using s by (simp add: ob_def)
  have "moved_obstacle dt ob =
      (if (if m then 0 < t - k else t + k < 1)
       then ob\<lparr>rect := (rect ob)
               \<lparr>r_x := (if m then ax + (t - k) * dx else ax + (t + k) * dx),
                r_y := (if m then ay + (t - k) * dy else ay + (t + k) * dy)\<rparr>\<rparr>
       else ob\<lparr>rect := (rect ob)
               \<lparr>r_x := (if m then ax else ax + dx), r_y := (if m then ay else ay + dy)\<rparr>,
               is_moving_to_start := \<not> m\<rparr>)"
    unfolding moved_obstacle_def Let_def dot sign
    using sp by (simp add: pos tgt) (simp add: ob_def)
  then show ?thesis
    unfolding ob_def [symmetric] L_def [symmetric] Let_def k_def [symmetric]
    by (simp add: ob_def)
qed

lemma moved_obstacle_degenerate:
  assumes "speed ob > 0" and "start ob = endp ob"
  shows "moved_obstacle dt ob =
           ob\<lparr>rect := (rect ob)\<lparr>r_x := v_x (start ob), r_y := v_y (start ob)\<rparr>,
              is_moving_to_start := \<not> is_moving_to_start ob\<rparr>"
  using assms
  by (simp add: moved_obstacle_def obstacle_direction_def obstacle_target_def
      Vector2Normalize_def Vector2Subtract_def Vector2Length_def Vector2Zero_def
      Vector2Negate_def Vector2DotProduct_def Let_def)

lemma sqrt_scaled:
  fixes c dx dy :: real
  shows "sqrt ((c * dx) * (c * dx) + (c * dy) * (c * dy)) = \<bar>c\<bar> * sqrt (dx * dx + dy * dy)"
proof -
  have "(c * dx) * (c * dx) + (c * dy) * (c * dy) = (c * c) * (dx * dx + dy * dy)"
    by (simp add: algebra_simps)
  then show ?thesis
    by (simp add: real_sqrt_mult)
qed

lemma moved_obstacle_cases:
  assumes sp: "speed ob > 0" and dt: "0 \<le> dt"
    and seg: "on_segment (start ob) (endp ob) (obstacle_position ob)"
  shows "start (moved_obstacle dt ob) = start ob \<and>
         endp (moved_obstacle dt ob) = endp ob \<and>
         speed (moved_obstacle dt ob) = speed ob \<and>
         on_segment (start ob) (endp ob) (obstacle_position (moved_obstacle dt ob)) \<and>
         (Vector2Length (Vector2Subtract (obstacle_target ob) (obstacle_position ob))
            \<le> dt * speed ob \<longrightarrow>
          obstacle_position (moved_obstacle dt ob) = obstacle_target ob \<and>
          is_moving_to_start (moved_obstacle dt ob) = (\<not> is_moving_to_start ob))"
proof (cases "start ob = endp ob")
  case True
  have p: "obstacle_position ob = start ob"
    using seg True by (simp add: on_segment_def)
  show ?thesis
    unfolding moved_obstacle_degenerate [OF sp True]
    using True by (simp add: on_segment_def obstacle_position_def obstacle_target_def)
next
  case False
  define ax where "ax = v_x (start ob)"
  define ay where "ay = v_y (start ob)"
  define dx where "dx = v_x (endp ob) - v_x (start ob)"
  define dy where "dy = v_y (endp ob) - v_y (start ob)"
  define L where "L = sqrt (dx * dx + dy * dy)"
  define m where "m = is_moving_to_start ob"
  define s where "s = speed ob"
  from seg obtain t where t: "0 \<le> t" "t \<le> 1"
      "r_x (rect ob) = ax + t * dx" "r_y (rect ob) = ay + t * dy"
    unfolding on_segment_iff obstacle_position_def ax_def ay_def dx_def dy_def by auto
  have "dx \<noteq> 0 \<or> dy \<noteq> 0"
    using False by (auto simp: Vector2_eq_iff dx_def dy_def)
  then have "dx * dx + dy * dy > 0"
    by (metis add_pos_nonneg add_nonneg_pos not_real_square_gt_zero zero_le_square)
  then have Lpos: "L > 0" by (simp add: L_def)
  define k where "k = dt * s / L"
  have k: "0 \<le> k" using dt sp Lpos by (simp add: k_def s_def)
  have ob: "ob = \<lparr>rect = \<lparr>r_x = ax + t * dx, r_y = ay + t * dy, r_width = r_width (rect ob),
                 r_height = r_height (rect ob)\<rparr>,
          start = \<lparr>v_x = ax, v_y = ay\<rparr>,
          endp = \<lparr>v_x = ax + dx, v_y = ay + dy\<rparr>,
          speed = s, is_moving_to_start = m,
          is_player_attached = is_player_attached ob\<rparr>"
    using t by (simp add: ax_def ay_def dx_def dy_def m_def s_def)
  have mv: "moved_obstacle dt ob =
      (if (if m then 0 < t - k else t + k < 1)
       then \<lparr>rect = \<lparr>r_x = ax + (if m then t - k else t + k) * dx,
                      r_y = ay + (if m then t - k else t + k) * dy,
                      r_width = r_width (rect ob), r_height = r_height (rect ob)\<rparr>,
             start = \<lparr>v_x = ax, v_y = ay\<rparr>, endp = \<lparr>v_x = ax + dx, v_y = ay + dy\<rparr>,
             speed = s, is_moving_to_start = m, is_player_attached = is_player_attached ob\<rparr>
       else \<lparr>rect = \<lparr>r_x = (if m then ax else ax + dx), r_y = (if m then ay else ay + dy),
                      r_width = r_width (rect ob), r_height = r_height (rect ob)\<rparr>,
             start = \<lparr>v_x = ax, v_y = ay\<rparr>, endp = \<lparr>v_x = ax + dx, v_y = ay + dy\<rparr>,
             speed = s, is_moving_to_start = \<not> m, is_player_attached = is_player_attached ob\<rparr>)"
    using moved_obstacle_param [of s dx dy dt ax t ay "r_width (rect ob)" "r_height (rect ob)" m
        "is_player_attached ob"] sp Lpos ob
    by (simp add: Let_def s_def L_def k_def)
  have st: "start ob = \<lparr>v_x = ax, v_y = ay\<rparr>" and en: "endp ob = \<lparr>v_x = ax + dx, v_y = ay + dy\<rparr>"
    by (simp_all add: ax_def ay_def dx_def dy_def)
  have fields: "start (moved_obstacle dt ob) = start ob \<and> endp (moved_obstacle dt ob) = endp ob \<and>
      speed (moved_obstacle dt ob) = speed ob"
    unfolding mv by (simp add: st en s_def)
  have on: "on_segment (start ob) (endp ob) (obstacle_position (moved_obstacle dt ob))"
  proof (cases "if m then 0 < t - k else t + k < 1")
    case True
    define t' where "t' = (if m then t - k else t + k)"
    have "0 \<le> t' \<and> t' \<le> 1"
      using True t k by (auto simp: t'_def split: if_splits)
    then show ?thesis
      unfolding on_segment_iff mv st en using True
      by (auto simp: obstacle_position_def t'_def intro!: exI [of _ t'])
  next
    case False
    then show ?thesis
      unfolding on_segment_iff mv st en
      by (auto simp: obstacle_position_def intro: exI [of _ 0] exI [of _ 1])
  qed
  have dist: "Vector2Length (Vector2Subtract (obstacle_target ob) (obstacle_position ob)) =
      (if m then t * L else (1 - t) * L)"
  proof (cases m)
    case True
    have "Vector2Subtract (obstacle_target ob) (obstacle_position ob) =
        \<lparr>v_x = (- t) * dx, v_y = (- t) * dy\<rparr>"
      using True t by (simp add: obstacle_target_def obstacle_position_def Vector2Subtract_def
          m_def [symmetric] st)
    then show ?thesis
      using True t sqrt_scaled [of "- t" dx dy] by (simp add: Vector2Length_def L_def)
  next
    case False
    have "Vector2Subtract (obstacle_target ob) (obstacle_position ob) =
        \<lparr>v_x = (1 - t) * dx, v_y = (1 - t) * dy\<rparr>"
      using False t by (simp add: obstacle_target_def obstacle_position_def Vector2Subtract_def
          m_def [symmetric] en algebra_simps)
    then show ?thesis
      using False t sqrt_scaled [of "1 - t" dx dy] by (simp add: Vector2Length_def L_def)
  qed
  have snap: "obstacle_position (moved_obstacle dt ob) = obstacle_target ob \<and>
      is_moving_to_start (moved_obstacle dt ob) = (\<not> is_moving_to_start ob)"
    if d: "Vector2Length (Vector2Subtract (obstacle_target ob) (obstacle_position ob))
            \<le> dt * speed ob"
  proof -
    have ks: "k * L = dt * speed ob"
      using Lpos by (simp add: k_def s_def)
    have "\<not> (if m then 0 < t - k else t + k < 1)"
    proof (cases m)
      case True
      then have "t * L \<le> k * L" using d dist ks by simp
      then have "t \<le> k" using Lpos by simp
      then show ?thesis using True by simp
    next
      case False
      then have "(1 - t) * L \<le> k * L" using d dist ks by simp
      then have "1 - t \<le> k" using Lpos by simp
      then show ?thesis using False by simp
    qed
    then show ?thesis
      unfolding mv
      by (simp add: obstacle_position_def obstacle_target_def m_def [symmetric] st en)
  qed
  show ?thesis
    using fields on snap by blast
qed

lemma collide_obstacle_eq:
  "collide_obstacle i (e, g) =
     (track_extrema e (get_aabb_mtv (get_player_rect (PLAYER g)) (rect (OBSTACLES g ! i))),
      g\<lparr>OBSTACLES := (OBSTACLES g)[i := attach (get_player_rect (PLAYER g)) (OBSTACLES g ! i)]\<rparr>)"
  by (simp add: collide_obstacle_def Let_def track_extrema_def attach_def)

lemma fold_collide_obstacle:
  assumes "k \<le> length (OBSTACLES g)"
  shows "fold collide_obstacle [0..<k] (e, g) =
           (foldl track_extrema e
              (map (\<lambda>ob. get_aabb_mtv (get_player_rect (PLAYER g)) (rect ob))
                 (take k (OBSTACLES g))),
            g\<lparr>OBSTACLES := map (attach (get_player_rect (PLAYER g))) (take k (OBSTACLES g)) @
                            drop k (OBSTACLES g)\<rparr>)"
  using assms
proof (induction k)
  case 0
  then show ?case by simp
next
  case (Suc k)
  then have k: "k < length (OBSTACLES g)" by simp
  have t: "take (Suc k) (OBSTACLES g) = take k (OBSTACLES g) @ [OBSTACLES g ! k]"
    using k by (simp add: take_Suc_conv_app_nth)
  have "fold collide_obstacle [0..<Suc k] (e, g) =
          collide_obstacle k (fold collide_obstacle [0..<k] (e, g))"
    by simp
  also have "\<dots> = collide_obstacle k
      (foldl track_extrema e
         (map (\<lambda>ob. get_aabb_mtv (get_player_rect (PLAYER g)) (rect ob))
            (take k (OBSTACLES g))),
       g\<lparr>OBSTACLES := map (attach (get_player_rect (PLAYER g))) (take k (OBSTACLES g)) @
                       drop k (OBSTACLES g)\<rparr>)"
    using Suc.IH k by simp
  also have "\<dots> =
      (foldl track_extrema e
         (map (\<lambda>ob. get_aabb_mtv (get_player_rect (PLAYER g)) (rect ob))
            (take (Suc k) (OBSTACLES g))),
       g\<lparr>OBSTACLES := map (attach (get_player_rect (PLAYER g))) (take (Suc k) (OBSTACLES g)) @
                       drop (Suc k) (OBSTACLES g)\<rparr>)"
    unfolding collide_obstacle_eq
    using take_Suc_map_drop [OF k, of "attach (get_player_rect (PLAYER g))"]
      nth_map_take_drop [OF k, of "attach (get_player_rect (PLAYER g))"]
    by (simp add: t)
  finally show ?case .
qed

lemma collide_obstacles_eq:
  assumes "N_OBSTACLES g \<le> length (OBSTACLES g)"
  shows "collide_obstacles g =
           (foldl track_extrema \<lparr>mtv_min_x = 0, mtv_max_x = 0, mtv_min_y = 0, mtv_max_y = 0\<rparr>
              (map (\<lambda>ob. get_aabb_mtv (get_player_rect (PLAYER g)) (rect ob))
                 (take (N_OBSTACLES g) (OBSTACLES g))),
            g\<lparr>OBSTACLES :=
                 map (attach (get_player_rect (PLAYER g))) (take (N_OBSTACLES g) (OBSTACLES g)) @
                 drop (N_OBSTACLES g) (OBSTACLES g)\<rparr>)"
  using fold_collide_obstacle [OF assms] by (simp add: collide_obstacles_def)

lemma update_obstacles_nth:
  assumes "N_OBSTACLES g \<le> length (OBSTACLES g)"
  shows "N_OBSTACLES (update_obstacles dt g) = N_OBSTACLES g \<and>
         length (OBSTACLES (update_obstacles dt g)) = length (OBSTACLES g) \<and>
         (\<forall>i < N_OBSTACLES g.
            OBSTACLES (update_obstacles dt g) ! i = moved_obstacle dt (OBSTACLES g ! i)) \<and>
         (\<forall>i \<ge> N_OBSTACLES g. OBSTACLES (update_obstacles dt g) ! i = OBSTACLES g ! i)"
  using assms
  by (simp add: update_obstacles_eq [OF assms] nth_append min_def)

lemma fold_update_obstacles_on_segment:
  assumes "N_OBSTACLES g \<le> length (OBSTACLES g)"
    and "i < N_OBSTACLES g"
    and "speed (OBSTACLES g ! i) > 0"
    and "on_segment (start (OBSTACLES g ! i)) (endp (OBSTACLES g ! i))
           (obstacle_position (OBSTACLES g ! i))"
    and "\<forall>dt \<in> set dts. 0 \<le> dt"
  shows "start (OBSTACLES (fold update_obstacles dts g) ! i) = start (OBSTACLES g ! i) \<and>
         endp (OBSTACLES (fold update_obstacles dts g) ! i) = endp (OBSTACLES g ! i) \<and>
         speed (OBSTACLES (fold update_obstacles dts g) ! i) = speed (OBSTACLES g ! i) \<and>
         on_segment (start (OBSTACLES g ! i)) (endp (OBSTACLES g ! i))
           (obstacle_position (OBSTACLES (fold update_obstacles dts g) ! i))"
  using assms
proof (induction dts arbitrary: g)
  case Nil
  then show ?case by simp
next
  case (Cons dt dts)
  let ?g = "update_obstacles dt g"
  have dt: "0 \<le> dt" using Cons.prems(5) by simp
  have n: "N_OBSTACLES ?g = N_OBSTACLES g" "length (OBSTACLES ?g) = length (OBSTACLES g)"
    and i: "OBSTACLES ?g ! i = moved_obstacle dt (OBSTACLES g ! i)"
    using update_obstacles_nth [OF Cons.prems(1), of dt] Cons.prems(2) by simp_all
  note m = moved_obstacle_cases [OF Cons.prems(3) dt Cons.prems(4)]
  have "start (OBSTACLES (fold update_obstacles dts ?g) ! i) = start (OBSTACLES ?g ! i) \<and>
      endp (OBSTACLES (fold update_obstacles dts ?g) ! i) = endp (OBSTACLES ?g ! i) \<and>
      speed (OBSTACLES (fold update_obstacles dts ?g) ! i) = speed (OBSTACLES ?g ! i) \<and>
      on_segment (start (OBSTACLES ?g ! i)) (endp (OBSTACLES ?g ! i))
        (obstacle_position (OBSTACLES (fold update_obstacles dts ?g) ! i))"
  proof (rule Cons.IH)
    show "N_OBSTACLES ?g \<le> length (OBSTACLES ?g)"
      using n Cons.prems(1) by simp
    show "i < N_OBSTACLES ?g"
      using n Cons.prems(2) by simp
    show "0 < speed (OBSTACLES ?g ! i)"
      using m Cons.prems(3) by (simp add: i)
    show "on_segment (start (OBSTACLES ?g ! i)) (endp (OBSTACLES ?g ! i))
        (obstacle_position (OBSTACLES ?g ! i))"
      using m by (simp add: i)
    show "\<forall>dt \<in> set dts. 0 \<le> dt"
      using Cons.prems(5) by simp
  qed
  then show ?case
    using m by (simp add: i)
qed

text \<open>
  C3. An obstacle below the count with positive speed whose rectangle position
  lies on the segment from \<open>start\<close> to \<open>end\<close> still lies on it after any sequence
  of calls of \<^verbatim>\<open>update_obstacles\<close> with frame times that are not negative, and
  its \<open>start\<close>, \<open>end\<close> and \<open>speed\<close> are the same. When the distance to the
  endpoint it moves to is at most the step \<open>dt * speed\<close>, the call puts it
  exactly on that endpoint and flips \<open>is_moving_to_start\<close>.
\<close>

theorem patrol_bounded:
  assumes "N_OBSTACLES g \<le> length (OBSTACLES g)"
    and "i < N_OBSTACLES g"
    and "speed (OBSTACLES g ! i) > 0"
    and "on_segment (start (OBSTACLES g ! i)) (endp (OBSTACLES g ! i))
           (obstacle_position (OBSTACLES g ! i))"
    and "\<forall>dt \<in> set dts. 0 \<le> dt"
  shows "on_segment (start (OBSTACLES g ! i)) (endp (OBSTACLES g ! i))
           (obstacle_position (OBSTACLES (fold update_obstacles dts g) ! i)) \<and>
         start (OBSTACLES (fold update_obstacles dts g) ! i) = start (OBSTACLES g ! i) \<and>
         endp (OBSTACLES (fold update_obstacles dts g) ! i) = endp (OBSTACLES g ! i) \<and>
         speed (OBSTACLES (fold update_obstacles dts g) ! i) = speed (OBSTACLES g ! i) \<and>
         (\<forall>dt. 0 \<le> dt \<and>
               Vector2Length (Vector2Subtract (obstacle_target (OBSTACLES g ! i))
                                (obstacle_position (OBSTACLES g ! i)))
                 \<le> dt * speed (OBSTACLES g ! i) \<longrightarrow>
               obstacle_position (OBSTACLES (update_obstacles dt g) ! i) =
                 obstacle_target (OBSTACLES g ! i) \<and>
               is_moving_to_start (OBSTACLES (update_obstacles dt g) ! i) =
                 (\<not> is_moving_to_start (OBSTACLES g ! i)))"
proof -
  have snap: "obstacle_position (OBSTACLES (update_obstacles dt g) ! i) =
        obstacle_target (OBSTACLES g ! i) \<and>
      is_moving_to_start (OBSTACLES (update_obstacles dt g) ! i) =
        (\<not> is_moving_to_start (OBSTACLES g ! i))"
    if "0 \<le> dt"
      and "Vector2Length (Vector2Subtract (obstacle_target (OBSTACLES g ! i))
             (obstacle_position (OBSTACLES g ! i))) \<le> dt * speed (OBSTACLES g ! i)"
    for dt
    using moved_obstacle_cases [OF assms(3) that(1) assms(4)] that(2)
      update_obstacles_nth [OF assms(1), of dt] assms(2)
    by simp
  show ?thesis
    using fold_update_obstacles_on_segment [OF assms] snap by blast
qed

lemma sqrt_25: "sqrt 25 = 5"
  by (rule real_sqrt_unique) simp_all

theorem patrol_bounded_witness:
  "on_segment \<lparr>v_x = - 15, v_y = 0\<rparr> \<lparr>v_x = 5, v_y = 0\<rparr>
     (obstacle_position (OBSTACLES (fold update_obstacles [1 / 2, 2] (patrol_game 0 False)) ! 0)) \<and>
   obstacle_position (OBSTACLES (update_obstacles 1 (patrol_game 0 False)) ! 0) =
     \<lparr>v_x = 5, v_y = 0\<rparr> \<and>
   is_moving_to_start (OBSTACLES (update_obstacles 1 (patrol_game 0 False)) ! 0)"
proof -
  have a1: "N_OBSTACLES (patrol_game 0 False) \<le> length (OBSTACLES (patrol_game 0 False))"
    by (simp add: patrol_game_def)
  have a2: "0 < N_OBSTACLES (patrol_game 0 False)"
    by (simp add: patrol_game_def)
  have a3: "speed (OBSTACLES (patrol_game 0 False) ! 0) > 0"
    by (simp add: patrol_game_def)
  have a4: "on_segment (start (OBSTACLES (patrol_game 0 False) ! 0))
      (endp (OBSTACLES (patrol_game 0 False) ! 0))
      (obstacle_position (OBSTACLES (patrol_game 0 False) ! 0))"
    by (simp add: patrol_game_def on_segment_def obstacle_position_def
        Vector2DotProduct_def Vector2Subtract_def)
  have a5: "\<forall>dt \<in> set [1 / 2, 2 :: real]. 0 \<le> dt"
    by simp
  have d: "Vector2Length (Vector2Subtract (obstacle_target (OBSTACLES (patrol_game 0 False) ! 0))
        (obstacle_position (OBSTACLES (patrol_game 0 False) ! 0)))
      \<le> 1 * speed (OBSTACLES (patrol_game 0 False) ! 0)"
    by (simp add: patrol_game_def obstacle_target_def obstacle_position_def
        Vector2Subtract_def Vector2Length_def sqrt_25)
  show ?thesis
    using patrol_bounded [OF a1 a2 a3 a4 a5] d
    by (simp add: patrol_game_def obstacle_target_def)
qed

section \<open>The resolver\<close>

lemma collide_obstacle_PLAYER: "PLAYER (snd (collide_obstacle i eg)) = PLAYER (snd eg)"
  by (cases eg) (simp add: collide_obstacle_def Let_def)

lemma fold_collide_obstacle_PLAYER:
  "PLAYER (snd (fold collide_obstacle ks eg)) = PLAYER (snd eg)"
  by (induction ks arbitrary: eg) (simp_all add: collide_obstacle_PLAYER)

lemma collide_obstacles_PLAYER: "PLAYER (snd (collide_obstacles g)) = PLAYER g"
  by (simp add: collide_obstacles_def fold_collide_obstacle_PLAYER)

text \<open>
  C2. When the combined correction of the resolver points up (\<open>mtv.y < 0\<close>) while
  the player falls (\<open>velocity.y > 0\<close>), the resolver subtracts
  \<open>max 0 (|velocity| - MAX_SPEED_WITHOUT_DAMAGE)\<close> from the health, with the
  length of the whole velocity vector and no clamp of the health at zero, sets
  the velocity to \<open>(0, 0)\<close> and sets \<open>is_grounded\<close>. At speed
  \<open>MAX_SPEED_WITHOUT_DAMAGE\<close> the health stays; at
  \<open>MAX_SPEED_WITHOUT_DAMAGE + 10\<close> it drops by \<open>10\<close>.
\<close>

theorem hard_landing:
  assumes "v_y (combined_mtv (fst (collide_obstacles g))) < 0"
    and "v_y (velocity (PLAYER g)) > 0"
  shows "health (PLAYER (update_player_collisions g)) =
           health (PLAYER g) -
             max 0 (Vector2Length (velocity (PLAYER g)) - MAX_SPEED_WITHOUT_DAMAGE) \<and>
         velocity (PLAYER (update_player_collisions g)) = \<lparr>v_x = 0, v_y = 0\<rparr> \<and>
         is_grounded (PLAYER (update_player_collisions g)) \<and>
         (Vector2Length (velocity (PLAYER g)) = MAX_SPEED_WITHOUT_DAMAGE \<longrightarrow>
            health (PLAYER (update_player_collisions g)) = health (PLAYER g)) \<and>
         (Vector2Length (velocity (PLAYER g)) = MAX_SPEED_WITHOUT_DAMAGE + 10 \<longrightarrow>
            health (PLAYER (update_player_collisions g)) = health (PLAYER g) - 10)"
proof -
  obtain e g1 where c: "collide_obstacles g = (e, g1)"
    by (cases "collide_obstacles g")
  have p: "PLAYER g1 = PLAYER g"
    using collide_obstacles_PLAYER [of g] c by simp
  from assms c have m: "v_y (combined_mtv e) < 0" by simp
  show ?thesis
    using m assms(2)
    by (simp add: update_player_collisions_def c p Let_def Vector2Zero_def max_def)
qed

lemma landing_game_mtv:
  "combined_mtv (fst (collide_obstacles (landing_game vy h))) = \<lparr>v_x = 0, v_y = - 0.5\<rparr>"
proof -
  have n: "N_OBSTACLES (landing_game vy h) \<le> length (OBSTACLES (landing_game vy h))"
    by (simp add: landing_game_def)
  have r: "get_player_rect (PLAYER (landing_game vy h)) =
      \<lparr>r_x = 0.5, r_y = 2, r_width = 1, r_height = 2\<rparr>"
    by (simp add: landing_game_def get_player_rect_def)
  have m: "get_aabb_mtv \<lparr>r_x = 0.5, r_y = 2, r_width = 1, r_height = 2\<rparr>
      \<lparr>r_x = - 20, r_y = 3.5, r_width = 40, r_height = 2.5\<rparr> = \<lparr>v_x = 0, v_y = - 0.5\<rparr>"
    by (simp add: get_aabb_mtv_def CheckCollisionRecs_def)
  have t: "take (N_OBSTACLES (landing_game vy h)) (OBSTACLES (landing_game vy h)) =
      OBSTACLES (landing_game vy h)"
    by (simp add: landing_game_def)
  have "fst (collide_obstacles (landing_game vy h)) =
      \<lparr>mtv_min_x = 0, mtv_max_x = 0, mtv_min_y = - 0.5, mtv_max_y = 0\<rparr>"
    unfolding collide_obstacles_eq [OF n] r t
    by (simp add: landing_game_def m [simplified] track_extrema_def)
  then show ?thesis
    by (simp add: combined_mtv_def)
qed

lemma sqrt_1600: "sqrt 1600 = 40"
  by (rule real_sqrt_unique) simp_all

lemma sqrt_900: "sqrt 900 = 30"
  by (rule real_sqrt_unique) simp_all

theorem hard_landing_witness:
  "v_y (combined_mtv (fst (collide_obstacles (landing_game 40 5)))) < 0 \<and>
   v_y (velocity (PLAYER (landing_game 40 5))) > 0 \<and>
   Vector2Length (velocity (PLAYER (landing_game 40 5))) = MAX_SPEED_WITHOUT_DAMAGE + 10 \<and>
   health (PLAYER (landing_game 40 5)) = 5 \<and>
   health (PLAYER (update_player_collisions (landing_game 40 5))) = - 5 \<and>
   velocity (PLAYER (update_player_collisions (landing_game 40 5))) = \<lparr>v_x = 0, v_y = 0\<rparr> \<and>
   is_grounded (PLAYER (update_player_collisions (landing_game 40 5))) \<and>
   Vector2Length (velocity (PLAYER (landing_game 30 5))) = MAX_SPEED_WITHOUT_DAMAGE \<and>
   health (PLAYER (update_player_collisions (landing_game 30 5))) = 5"
proof -
  have m: "v_y (combined_mtv (fst (collide_obstacles (landing_game vy h)))) < 0" for vy h
    by (simp add: landing_game_mtv)
  have v40: "v_y (velocity (PLAYER (landing_game 40 5))) > 0"
    by (simp add: landing_game_def)
  have v30: "v_y (velocity (PLAYER (landing_game 30 5))) > 0"
    by (simp add: landing_game_def)
  have l40: "Vector2Length (velocity (PLAYER (landing_game 40 5))) = 40"
    by (simp add: landing_game_def Vector2Length_def sqrt_1600)
  have l30: "Vector2Length (velocity (PLAYER (landing_game 30 5))) = 30"
    by (simp add: landing_game_def Vector2Length_def sqrt_900)
  have h: "health (PLAYER (landing_game vy 5)) = 5" for vy
    by (simp add: landing_game_def)
  show ?thesis
    using hard_landing [OF m v40] hard_landing [OF m v30] m v40 l40 l30 h
    by (simp add: MAX_SPEED_WITHOUT_DAMAGE_def)
qed

section \<open>Spawning\<close>







text \<open>
  C8. With fewer than \<^verbatim>\<open>MAX_N_OBSTACLES\<close> obstacles, \<^verbatim>\<open>spawn_obstacle\<close>
  returns the old count as the handle, raises the count by one, stores the
  rectangle, the endpoints and the speed in the slot of the handle and leaves
  every obstacle below the old count as it was. At capacity it returns \<open>-1\<close>
  and the globals are unchanged.
\<close>

theorem spawn_obstacle_capacity:
  assumes "game_ok g"
  shows "(N_OBSTACLES g < MAX_N_OBSTACLES \<longrightarrow>
            fst (spawn_obstacle r s e sp g) = int (N_OBSTACLES g) \<and>
            N_OBSTACLES (snd (spawn_obstacle r s e sp g)) = N_OBSTACLES g + 1 \<and>
            length (OBSTACLES (snd (spawn_obstacle r s e sp g))) = length (OBSTACLES g) \<and>
            rect (OBSTACLES (snd (spawn_obstacle r s e sp g)) ! N_OBSTACLES g) = r \<and>
            start (OBSTACLES (snd (spawn_obstacle r s e sp g)) ! N_OBSTACLES g) = s \<and>
            endp (OBSTACLES (snd (spawn_obstacle r s e sp g)) ! N_OBSTACLES g) = e \<and>
            speed (OBSTACLES (snd (spawn_obstacle r s e sp g)) ! N_OBSTACLES g) = sp \<and>
            (\<forall>j < N_OBSTACLES g.
               OBSTACLES (snd (spawn_obstacle r s e sp g)) ! j = OBSTACLES g ! j)) \<and>
         (N_OBSTACLES g = MAX_N_OBSTACLES \<longrightarrow> spawn_obstacle r s e sp g = (- 1, g))"
  using assms by (auto simp: spawn_obstacle_def game_ok_def Let_def)


theorem spawn_obstacle_capacity_witness:
  "game_ok initial_game \<and>
   fst (spawn_obstacle \<lparr>r_x = 1, r_y = 2, r_width = 3, r_height = 4\<rparr>
          \<lparr>v_x = 1, v_y = 2\<rparr> \<lparr>v_x = 5, v_y = 2\<rparr> 7 initial_game) = 0 \<and>
   N_OBSTACLES (snd (spawn_obstacle \<lparr>r_x = 1, r_y = 2, r_width = 3, r_height = 4\<rparr>
          \<lparr>v_x = 1, v_y = 2\<rparr> \<lparr>v_x = 5, v_y = 2\<rparr> 7 initial_game)) = 1 \<and>
   rect (OBSTACLES (snd (spawn_obstacle \<lparr>r_x = 1, r_y = 2, r_width = 3, r_height = 4\<rparr>
          \<lparr>v_x = 1, v_y = 2\<rparr> \<lparr>v_x = 5, v_y = 2\<rparr> 7 initial_game)) ! 0) =
     \<lparr>r_x = 1, r_y = 2, r_width = 3, r_height = 4\<rparr> \<and>
   speed (OBSTACLES (snd (spawn_obstacle \<lparr>r_x = 1, r_y = 2, r_width = 3, r_height = 4\<rparr>
          \<lparr>v_x = 1, v_y = 2\<rparr> \<lparr>v_x = 5, v_y = 2\<rparr> 7 initial_game)) ! 0) = 7 \<and>
   game_ok full_game \<and>
   N_OBSTACLES full_game = MAX_N_OBSTACLES \<and>
   spawn_obstacle \<lparr>r_x = 1, r_y = 2, r_width = 3, r_height = 4\<rparr>
          \<lparr>v_x = 1, v_y = 2\<rparr> \<lparr>v_x = 5, v_y = 2\<rparr> 7 full_game = (- 1, full_game)"
proof -
  have i: "game_ok initial_game"
    by (simp add: game_ok_def initial_game_def)
  have f: "game_ok full_game"
    by (simp add: game_ok_def full_game_def initial_game_def)
  show ?thesis
    using spawn_obstacle_capacity [OF i, of "\<lparr>r_x = 1, r_y = 2, r_width = 3, r_height = 4\<rparr>"
        "\<lparr>v_x = 1, v_y = 2\<rparr>" "\<lparr>v_x = 5, v_y = 2\<rparr>" 7]
      spawn_obstacle_capacity [OF f, of "\<lparr>r_x = 1, r_y = 2, r_width = 3, r_height = 4\<rparr>"
        "\<lparr>v_x = 1, v_y = 2\<rparr>" "\<lparr>v_x = 5, v_y = 2\<rparr>" 7] i f
    by (simp add: initial_game_def full_game_def MAX_N_OBSTACLES_def)
qed

section \<open>Lemmas: loading the level\<close>

lemma spawn_one_eq:
  assumes "N_OBSTACLES g \<noteq> MAX_N_OBSTACLES"
  shows "spawn_one sp g =
           g\<lparr>N_OBSTACLES := Suc (N_OBSTACLES g),
             OBSTACLES := (OBSTACLES g)[N_OBSTACLES g := respawn sp (OBSTACLES g ! N_OBSTACLES g)]\<rparr>"
  using assms by (simp add: spawn_one_def spawn_obstacle_def Let_def respawn_def)

lemma fold_spawn_one:
  assumes "N_OBSTACLES g + length sps \<le> MAX_N_OBSTACLES"
    and "length (OBSTACLES g) = MAX_N_OBSTACLES"
  shows "fold spawn_one sps g =
           g\<lparr>N_OBSTACLES := N_OBSTACLES g + length sps,
             OBSTACLES :=
               take (N_OBSTACLES g) (OBSTACLES g) @
               map2 respawn sps (take (length sps) (drop (N_OBSTACLES g) (OBSTACLES g))) @
               drop (N_OBSTACLES g + length sps) (OBSTACLES g)\<rparr>"
  using assms
proof (induction sps arbitrary: g)
  case Nil
  then show ?case by simp
next
  case (Cons sp sps)
  let ?n = "N_OBSTACLES g"
  let ?xs = "OBSTACLES g"
  let ?g = "g\<lparr>N_OBSTACLES := Suc ?n, OBSTACLES := ?xs[?n := respawn sp (?xs ! ?n)]\<rparr>"
  have n: "?n < length ?xs"
    using Cons.prems by simp
  then have ne: "?n \<noteq> MAX_N_OBSTACLES"
    using Cons.prems by simp
  have d: "drop ?n ?xs = ?xs ! ?n # drop (Suc ?n) ?xs"
    using n by (simp add: Cons_nth_drop_Suc)
  have tk: "take (Suc ?n) (?xs[?n := respawn sp (?xs ! ?n)]) = take ?n ?xs @ [respawn sp (?xs ! ?n)]"
    using n by (simp add: take_Suc_conv_app_nth)
  have "fold spawn_one (sp # sps) g = fold spawn_one sps ?g"
    by (simp add: spawn_one_eq [OF ne])
  also have "\<dots> = ?g\<lparr>N_OBSTACLES := N_OBSTACLES ?g + length sps,
             OBSTACLES :=
               take (N_OBSTACLES ?g) (OBSTACLES ?g) @
               map2 respawn sps (take (length sps) (drop (N_OBSTACLES ?g) (OBSTACLES ?g))) @
               drop (N_OBSTACLES ?g + length sps) (OBSTACLES ?g)\<rparr>"
    using Cons.prems by (intro Cons.IH) simp_all
  also have "\<dots> = g\<lparr>N_OBSTACLES := ?n + length (sp # sps),
             OBSTACLES :=
               take ?n ?xs @
               map2 respawn (sp # sps) (take (length (sp # sps)) (drop ?n ?xs)) @
               drop (?n + length (sp # sps)) ?xs\<rparr>"
    using tk by (simp add: d)
  finally show ?case .
qed

lemma spawn_static_obstacle_eq:
  "snd (spawn_static_obstacle r g) = spawn_one (static_spawn r) g"
  by (simp add: spawn_static_obstacle_def static_spawn_def spawn_one_def Let_def)

lemma spawn_platform_eq: "spawn_platform rnd = (\<lambda>i. spawn_one (platform_spawn rnd i))"
  by (rule ext)+ (simp add: spawn_platform_def platform_spawn_def spawn_one_def Let_def)

lemma load_game_fold:
  "load_game rnd g =
     fold spawn_one (level rnd) (g\<lparr>PLAYER := loaded_player (PLAYER g), N_OBSTACLES := 0\<rparr>)"
  unfolding load_game_def level_def Let_def spawn_static_obstacle_eq spawn_platform_eq
  by (simp add: fold_map comp_def loaded_player_def Vector2Zero_def PLAYER_MAX_HEALTH_def)

lemma length_level: "length (level rnd) = 14"
  by (simp add: level_def)

lemma load_game_eq:
  assumes "length (OBSTACLES g) = MAX_N_OBSTACLES"
  shows "load_game rnd g =
           g\<lparr>PLAYER := loaded_player (PLAYER g), N_OBSTACLES := 14,
             OBSTACLES := map2 respawn (level rnd) (take 14 (OBSTACLES g)) @
                          drop 14 (OBSTACLES g)\<rparr>"
  unfolding load_game_fold
  using assms by (subst fold_spawn_one) (simp_all add: length_level MAX_N_OBSTACLES_def)

section \<open>Lemmas: what every state of the main loop satisfies\<close>

lemma level_nth_static:
  assumes "i < 4"
  shows "s_speed (level rnd ! i) = 0"
proof -
  from assms consider "i = 0" | "i = 1" | "i = 2" | "i = 3" by linarith
  then show ?thesis
    by cases (simp_all add: level_def static_spawn_def)
qed

lemma level_nth_platform:
  assumes "4 \<le> i" and "i < 14"
  shows "level rnd ! i = platform_spawn rnd (i - 4)"
proof -
  have e: "i - Suc (Suc (Suc (Suc 0))) = i - 4"
    by simp
  have "level rnd ! i = map (platform_spawn rnd) [0..<10] ! (i - 4)"
    using assms unfolding level_def by (subst nth_append) (simp add: e)
  also have "\<dots> = platform_spawn rnd (i - 4)"
    using assms by (subst nth_map) simp_all
  finally show ?thesis .
qed

lemma load_game_nth:
  assumes "length (OBSTACLES g) = MAX_N_OBSTACLES"
  shows "N_OBSTACLES (load_game rnd g) = 14 \<and>
         length (OBSTACLES (load_game rnd g)) = MAX_N_OBSTACLES \<and>
         PLAYER (load_game rnd g) = loaded_player (PLAYER g) \<and>
         (\<forall>i < 14. OBSTACLES (load_game rnd g) ! i = respawn (level rnd ! i) (OBSTACLES g ! i)) \<and>
         (\<forall>i \<ge> 14. OBSTACLES (load_game rnd g) ! i = OBSTACLES g ! i)"
  using assms
  by (simp add: load_game_eq [OF assms] length_level MAX_N_OBSTACLES_def nth_append)

lemma platform_speed_positive:
  assumes "0 \<le> rnd (2 * k + 1)"
  shows "0 < s_speed (platform_spawn rnd k)"
  using assms by (simp add: platform_spawn_def randf_min_max_def add_pos_nonneg)

lemma level_ok_load_game:
  assumes len: "length (OBSTACLES g) = MAX_N_OBSTACLES"
    and att: "\<forall>i < 4. \<not> is_player_attached (OBSTACLES g ! i)"
    and rnd: "\<forall>k. 0 \<le> rnd k \<and> rnd k \<le> 1"
  shows "level_ok (load_game rnd g)"
proof -
  note l = load_game_nth [OF len, of rnd]
  have st: "speed (OBSTACLES (load_game rnd g) ! i) = 0 \<and>
      \<not> is_player_attached (OBSTACLES (load_game rnd g) ! i)" if "i < 4" for i
    using l that att level_nth_static [OF that, of rnd] by (simp add: respawn_def)
  have pl: "0 < speed (OBSTACLES (load_game rnd g) ! i)" if "4 \<le> i" "i < 14" for i
    using l that level_nth_platform [OF that, of rnd] rnd
      platform_speed_positive [of rnd "i - 4"]
    by (simp add: respawn_def)
  show ?thesis
    unfolding level_ok_def
    using l st pl by (simp add: loaded_player_def PLAYER_MAX_HEALTH_def)
qed

lemma level_ok_update_player:
  assumes "level_ok g"
  shows "level_ok (update_player fr g)"
  using assms by (simp add: level_ok_def update_player_def Let_def)

lemma moved_obstacle_fields:
  "speed (moved_obstacle dt ob) = speed ob \<and>
   is_player_attached (moved_obstacle dt ob) = is_player_attached ob \<and>
   start (moved_obstacle dt ob) = start ob \<and> endp (moved_obstacle dt ob) = endp ob"
  by (simp add: moved_obstacle_def Let_def)

lemma carried_health:
  "health (carried dt p ob) = health p \<and> max_health (carried dt p ob) = max_health p"
  by (simp add: carried_def)

lemma foldl_carried_health:
  "health (foldl (carried dt) p obs) = health p \<and>
   max_health (foldl (carried dt) p obs) = max_health p"
  by (induction obs arbitrary: p) (simp_all add: carried_health)

lemma level_ok_update_obstacles:
  assumes "level_ok g"
  shows "level_ok (update_obstacles dt g)"
proof -
  have n: "N_OBSTACLES g \<le> length (OBSTACLES g)"
    using assms by (simp add: level_ok_def MAX_N_OBSTACLES_def)
  note u = update_obstacles_nth [OF n, of dt]
  have p: "PLAYER (update_obstacles dt g) =
      foldl (carried dt) (PLAYER g) (take (N_OBSTACLES g) (OBSTACLES g))"
    by (simp add: update_obstacles_eq [OF n])
  show ?thesis
    using assms u unfolding level_ok_def p
    by (simp add: moved_obstacle_fields foldl_carried_health)
qed

lemma update_player_collisions_facts:
  assumes "N_OBSTACLES g \<le> length (OBSTACLES g)"
  shows "N_OBSTACLES (update_player_collisions g) = N_OBSTACLES g \<and>
         length (OBSTACLES (update_player_collisions g)) = length (OBSTACLES g) \<and>
         (\<forall>i < N_OBSTACLES g. OBSTACLES (update_player_collisions g) ! i =
             attach (get_player_rect (PLAYER g)) (OBSTACLES g ! i)) \<and>
         (\<forall>i \<ge> N_OBSTACLES g. OBSTACLES (update_player_collisions g) ! i = OBSTACLES g ! i) \<and>
         health (PLAYER (update_player_collisions g)) \<le> health (PLAYER g) \<and>
         max_health (PLAYER (update_player_collisions g)) = max_health (PLAYER g)"
  using assms
  by (simp add: update_player_collisions_def collide_obstacles_eq [OF assms] Let_def
      nth_append min_def)

lemma level_ok_update_player_collisions:
  assumes "level_ok g"
  shows "level_ok (update_player_collisions g)"
proof -
  have n: "N_OBSTACLES g \<le> length (OBSTACLES g)"
    using assms by (simp add: level_ok_def MAX_N_OBSTACLES_def)
  note u = update_player_collisions_facts [OF n]
  show ?thesis
    using assms u unfolding level_ok_def
    by (auto simp: attach_def)
qed

lemma level_ok_update_reset:
  assumes "level_ok g" and "frame_ok fr"
  shows "level_ok (update_reset fr g)"
  using assms level_ok_load_game [of g "randf fr"]
  by (simp add: update_reset_def level_ok_def frame_ok_def)

lemma level_ok_update:
  assumes "level_ok g" and "frame_ok fr"
  shows "level_ok (update fr g)"
  unfolding update_def
  by (intro level_ok_update_player_collisions level_ok_update_obstacles
      level_ok_update_player level_ok_update_reset assms)

lemma reachable_level_ok:
  assumes "reachable g"
  shows "level_ok g"
  using assms
proof (induction rule: reachable.induct)
  case (loaded rnd)
  show ?case
    by (rule level_ok_load_game)
      (use loaded in \<open>simp_all add: initial_game_def zero_obstacle_def MAX_N_OBSTACLES_def\<close>)
next
  case (ticked g fr)
  then show ?case by (simp add: level_ok_update)
qed

section \<open>Attachment\<close>

text \<open>
  C4. In every state of the main loop, an obstacle below the count with speed
  zero has \<open>is_player_attached\<close> false. The resolver assigns to
  \<open>is_player_attached\<close> of every obstacle below the count the value of
  \<open>mtv.y < 0 \<and> speed > 0\<close>, where \<open>mtv\<close> is the vector of the player's rectangle
  against that obstacle.
\<close>

theorem static_never_attached:
  assumes "reachable g" and "i < N_OBSTACLES g"
  shows "(speed (OBSTACLES g ! i) = 0 \<longrightarrow> \<not> is_player_attached (OBSTACLES g ! i)) \<and>
         is_player_attached (OBSTACLES (update_player_collisions g) ! i) =
           (v_y (get_aabb_mtv (get_player_rect (PLAYER g)) (rect (OBSTACLES g ! i))) < 0 \<and>
            speed (OBSTACLES g ! i) > 0)"
proof -
  have ok: "level_ok g"
    using assms(1) by (rule reachable_level_ok)
  then have n: "N_OBSTACLES g \<le> length (OBSTACLES g)" and i: "i < 14"
    using assms(2) by (simp_all add: level_ok_def MAX_N_OBSTACLES_def)
  have "\<not> is_player_attached (OBSTACLES g ! i)" if "speed (OBSTACLES g ! i) = 0"
  proof (cases "i < 4")
    case True
    then show ?thesis using ok by (simp add: level_ok_def)
  next
    case False
    then have "0 < speed (OBSTACLES g ! i)"
      using ok i by (simp add: level_ok_def)
    then show ?thesis using that by simp
  qed
  moreover have "is_player_attached (OBSTACLES (update_player_collisions g) ! i) =
      (v_y (get_aabb_mtv (get_player_rect (PLAYER g)) (rect (OBSTACLES g ! i))) < 0 \<and>
       speed (OBSTACLES g ! i) > 0)"
    using update_player_collisions_facts [OF n] assms(2) by (simp add: attach_def)
  ultimately show ?thesis by blast
qed

lemma loaded_zero_reachable: "reachable (load_game (\<lambda>k. 0) initial_game)"
  by (rule reachable.loaded) simp

lemma initial_game_length: "length (OBSTACLES initial_game) = MAX_N_OBSTACLES"
  by (simp add: initial_game_def)

section \<open>Health\<close>

text \<open>
  C5, as amended. In every state of the main loop the health is at most the
  maximum health, which is \<^verbatim>\<open>PLAYER_MAX_HEALTH\<close>, and a pass of the loop without
  reset does not raise the health. No lower bound is stated: the damage of a
  landing is subtracted without a clamp.
\<close>

theorem health_at_most_max:
  assumes "reachable g"
  shows "health (PLAYER g) \<le> max_health (PLAYER g) \<and>
         max_health (PLAYER g) = PLAYER_MAX_HEALTH \<and>
         (\<forall>fr. \<not> key_R_pressed fr \<longrightarrow> health (PLAYER (update fr g)) \<le> health (PLAYER g))"
proof -
  have ok: "level_ok g"
    using assms by (rule reachable_level_ok)
  have n: "N_OBSTACLES g \<le> length (OBSTACLES g)"
    using ok by (simp add: level_ok_def MAX_N_OBSTACLES_def)
  have "health (PLAYER (update fr g)) \<le> health (PLAYER g)" if r: "\<not> key_R_pressed fr" for fr
  proof -
    let ?g1 = "update_player fr g"
    let ?g2 = "update_obstacles (frame_time fr) ?g1"
    have n1: "N_OBSTACLES ?g1 \<le> length (OBSTACLES ?g1)"
      using n by (simp add: update_player_def Let_def)
    have h1: "health (PLAYER ?g1) = health (PLAYER g)"
      by (simp add: update_player_def Let_def)
    have h2: "health (PLAYER ?g2) = health (PLAYER ?g1)"
      by (simp add: update_obstacles_eq [OF n1] foldl_carried_health)
    have n2: "N_OBSTACLES ?g2 \<le> length (OBSTACLES ?g2)"
      using update_obstacles_nth [OF n1, of "frame_time fr"] n1 by simp
    have "health (PLAYER (update_player_collisions ?g2)) \<le> health (PLAYER ?g2)"
      using update_player_collisions_facts [OF n2] by simp
    then show ?thesis
      using r h1 h2 by (simp add: update_def update_reset_def)
  qed
  then show ?thesis
    using ok by (simp add: level_ok_def)
qed

theorem health_at_most_max_witness:
  "reachable (load_game (\<lambda>k. 0) initial_game) \<and>
   health (PLAYER (load_game (\<lambda>k. 0) initial_game)) = 100 \<and>
   max_health (PLAYER (load_game (\<lambda>k. 0) initial_game)) = 100 \<and>
   health (PLAYER (update (idle 1) (load_game (\<lambda>k. 0) initial_game))) \<le> 100"
proof -
  note l = load_game_nth [OF initial_game_length, of "\<lambda>k. 0"]
  have h: "health (PLAYER (load_game (\<lambda>k. 0) initial_game)) = 100"
    using l by (simp add: loaded_player_def)
  have k: "\<not> key_R_pressed (idle 1)"
    by (simp add: idle_def)
  show ?thesis
    using health_at_most_max [OF loaded_zero_reachable] loaded_zero_reachable h k
    by (auto simp: PLAYER_MAX_HEALTH_def)
qed

section \<open>Reset\<close>

lemma spawn_of_respawn: "spawn_of (respawn sp ob) = sp"
  by (simp add: spawn_of_def respawn_def)

lemma map_spawn_of_respawn:
  assumes "length sps = length obs"
  shows "map spawn_of (map2 respawn sps obs) = sps"
  using assms by (induction sps obs rule: list_induct2) (simp_all add: spawn_of_respawn)

lemma level_fixed:
  "take 4 (level rnd) = take 4 (level rnd') \<and>
   (\<forall>i < 14. s_start (level rnd ! i) = s_start (level rnd' ! i) \<and>
              s_end (level rnd ! i) = s_end (level rnd' ! i) \<and>
              r_y (s_rect (level rnd ! i)) = r_y (s_rect (level rnd' ! i)) \<and>
              r_width (s_rect (level rnd ! i)) = r_width (s_rect (level rnd' ! i)) \<and>
              r_height (s_rect (level rnd ! i)) = r_height (s_rect (level rnd' ! i))) \<and>
   (\<forall>i. 4 \<le> i \<and> i < 14 \<longrightarrow>
        r_x (s_rect (level rnd ! i)) = randf_min_max (- 15) 5 (rnd (2 * (i - 4))) \<and>
        s_speed (level rnd ! i) = randf_min_max 5 9 (rnd (2 * (i - 4) + 1)))"
proof -
  have t: "take 4 (level rnd) = take 4 (level rnd')"
    by (simp add: level_def)
  have f: "s_start (level rnd ! i) = s_start (level rnd' ! i) \<and>
      s_end (level rnd ! i) = s_end (level rnd' ! i) \<and>
      r_y (s_rect (level rnd ! i)) = r_y (s_rect (level rnd' ! i)) \<and>
      r_width (s_rect (level rnd ! i)) = r_width (s_rect (level rnd' ! i)) \<and>
      r_height (s_rect (level rnd ! i)) = r_height (s_rect (level rnd' ! i))"
    if "i < 14" for i
  proof (cases "i < 4")
    case True
    then have "level rnd ! i = take 4 (level rnd) ! i" "level rnd' ! i = take 4 (level rnd') ! i"
      by simp_all
    then show ?thesis using t by simp
  next
    case False
    then show ?thesis
      using that level_nth_platform [of i rnd] level_nth_platform [of i rnd']
      by (simp add: platform_spawn_def)
  qed
  have p: "r_x (s_rect (level rnd ! i)) = randf_min_max (- 15) 5 (rnd (2 * (i - 4))) \<and>
      s_speed (level rnd ! i) = randf_min_max 5 9 (rnd (2 * (i - 4) + 1))"
    if "4 \<le> i" "i < 14" for i
    using level_nth_platform [OF that, of rnd] by (simp add: platform_spawn_def)
  show ?thesis
    using t f p by blast
qed

text \<open>
  C6, as amended. A reset from a state of the main loop sets the health to the
  maximum health \<^verbatim>\<open>PLAYER_MAX_HEALTH\<close>, the velocity and the position to
  \<open>(0, 0)\<close> and the count to 14, and the rectangle, endpoints and speed of the 14
  obstacles are those of the level built from the random numbers of this reset.
  Whatever the random numbers, the four static obstacles, and the endpoints, the
  \<open>y\<close>, the width and the height of every platform are the same; the \<open>x\<close> and
  the speed of a platform are \<open>-15 + 20 p\<close> and \<open>5 + 4 q\<close> for its two random
  numbers \<open>p\<close> and \<open>q\<close>.
\<close>

theorem reset_restores:
  assumes "reachable g" and "key_R_pressed fr"
  shows "health (PLAYER (update_reset fr g)) = max_health (PLAYER (update_reset fr g)) \<and>
         max_health (PLAYER (update_reset fr g)) = PLAYER_MAX_HEALTH \<and>
         velocity (PLAYER (update_reset fr g)) = \<lparr>v_x = 0, v_y = 0\<rparr> \<and>
         position (PLAYER (update_reset fr g)) = \<lparr>v_x = 0, v_y = 0\<rparr> \<and>
         N_OBSTACLES (update_reset fr g) = 14 \<and>
         map spawn_of (take 14 (OBSTACLES (update_reset fr g))) = level (randf fr) \<and>
         (\<forall>rnd. take 4 (level (randf fr)) = take 4 (level rnd) \<and>
            (\<forall>i < 14. s_start (level (randf fr) ! i) = s_start (level rnd ! i) \<and>
                       s_end (level (randf fr) ! i) = s_end (level rnd ! i) \<and>
                       r_y (s_rect (level (randf fr) ! i)) = r_y (s_rect (level rnd ! i)) \<and>
                       r_width (s_rect (level (randf fr) ! i)) =
                         r_width (s_rect (level rnd ! i)) \<and>
                       r_height (s_rect (level (randf fr) ! i)) =
                         r_height (s_rect (level rnd ! i)))) \<and>
         (\<forall>i. 4 \<le> i \<and> i < 14 \<longrightarrow>
            r_x (s_rect (level (randf fr) ! i)) = - 15 + randf fr (2 * (i - 4)) * 20 \<and>
            s_speed (level (randf fr) ! i) = 5 + randf fr (2 * (i - 4) + 1) * 4)"
proof -
  have ok: "level_ok g"
    using assms(1) by (rule reachable_level_ok)
  then have len: "length (OBSTACLES g) = MAX_N_OBSTACLES"
    by (simp add: level_ok_def)
  have r: "update_reset fr g = load_game (randf fr) g"
    using assms(2) by (simp add: update_reset_def)
  have l14: "length (level (randf fr)) = length (take 14 (OBSTACLES g))"
    using len by (simp add: length_level MAX_N_OBSTACLES_def)
  have "take 14 (OBSTACLES (load_game (randf fr) g)) =
      map2 respawn (level (randf fr)) (take 14 (OBSTACLES g))"
    using len by (simp add: load_game_eq [OF len] length_level MAX_N_OBSTACLES_def)
  then have m: "map spawn_of (take 14 (OBSTACLES (load_game (randf fr) g))) = level (randf fr)"
    using map_spawn_of_respawn [OF l14] by simp
  have p: "health (PLAYER (load_game (randf fr) g)) = max_health (PLAYER (load_game (randf fr) g)) \<and>
      max_health (PLAYER (load_game (randf fr) g)) = PLAYER_MAX_HEALTH \<and>
      velocity (PLAYER (load_game (randf fr) g)) = \<lparr>v_x = 0, v_y = 0\<rparr> \<and>
      position (PLAYER (load_game (randf fr) g)) = \<lparr>v_x = 0, v_y = 0\<rparr> \<and>
      N_OBSTACLES (load_game (randf fr) g) = 14"
    using load_game_nth [OF len, of "randf fr"]
    by (simp add: loaded_player_def PLAYER_MAX_HEALTH_def)
  have x: "r_x (s_rect (level (randf fr) ! i)) = - 15 + randf fr (2 * (i - 4)) * 20 \<and>
      s_speed (level (randf fr) ! i) = 5 + randf fr (2 * (i - 4) + 1) * 4"
    if "4 \<le> i \<and> i < 14" for i
    using level_fixed [of "randf fr" "randf fr"] that by (simp add: randf_min_max_def)
  show ?thesis
    unfolding r using m p x level_fixed [of "randf fr"] by blast
qed

section \<open>Free fall\<close>

lemma Vector2Normalize_zero: "Vector2Normalize \<lparr>v_x = 0, v_y = 0\<rparr> = \<lparr>v_x = 0, v_y = 0\<rparr>"
  by (simp add: Vector2Normalize_def Vector2Length_def Vector2Zero_def)

lemma update_idle:
  assumes "N_OBSTACLES g = 0"
  shows "update (idle dt) g =
           g\<lparr>PLAYER := (PLAYER g)
               \<lparr>velocity := \<lparr>v_x = v_x (velocity (PLAYER g)),
                             v_y = v_y (velocity (PLAYER g)) + GRAVITY_ACCELERATION * dt\<rparr>,
                position := \<lparr>v_x = v_x (position (PLAYER g)) + v_x (velocity (PLAYER g)) * dt,
                             v_y = v_y (position (PLAYER g)) +
                                   (v_y (velocity (PLAYER g)) + GRAVITY_ACCELERATION * dt) * dt\<rparr>,
                is_grounded := False\<rparr>\<rparr>"
proof -
  have r: "update_reset (idle dt) g = g"
    by (simp add: update_reset_def idle_def)
  let ?g1 = "update_player (idle dt) g"
  have p: "?g1 = g\<lparr>PLAYER := (PLAYER g)
               \<lparr>velocity := \<lparr>v_x = v_x (velocity (PLAYER g)),
                             v_y = v_y (velocity (PLAYER g)) + GRAVITY_ACCELERATION * dt\<rparr>,
                position := \<lparr>v_x = v_x (position (PLAYER g)) + v_x (velocity (PLAYER g)) * dt,
                             v_y = v_y (position (PLAYER g)) +
                                   (v_y (velocity (PLAYER g)) + GRAVITY_ACCELERATION * dt) * dt\<rparr>\<rparr>\<rparr>"
    by (simp add: update_player_def idle_def Let_def Vector2Zero_def Vector2Normalize_zero
        Vector2Scale_def Vector2Add_def)
  have n: "N_OBSTACLES ?g1 = 0"
    using assms by (simp add: p)
  have o: "update_obstacles dt ?g1 = ?g1"
    by (simp add: update_obstacles_def n)
  have c: "collide_obstacles ?g1 =
      (\<lparr>mtv_min_x = 0, mtv_max_x = 0, mtv_min_y = 0, mtv_max_y = 0\<rparr>, ?g1)"
    by (simp add: collide_obstacles_def n)
  have "update_player_collisions ?g1 =
      ?g1\<lparr>PLAYER := (PLAYER ?g1)\<lparr>is_grounded := False\<rparr>\<rparr>"
    unfolding update_player_collisions_def c
    by (simp add: combined_mtv_def Vector2Add_def Let_def)
  moreover have "frame_time (idle dt) = dt"
    by (simp add: idle_def)
  ultimately have "update (idle dt) g = ?g1\<lparr>PLAYER := (PLAYER ?g1)\<lparr>is_grounded := False\<rparr>\<rparr>"
    unfolding update_def r by (simp add: o)
  then show ?thesis
    by (simp add: p)
qed

lemma run_idle:
  assumes "N_OBSTACLES g = 0"
  shows "N_OBSTACLES (run (map idle dts) g) = 0 \<and>
         v_y (velocity (PLAYER (run (map idle dts) g))) =
           v_y (velocity (PLAYER g)) + GRAVITY_ACCELERATION * sum_list dts \<and>
         v_y (position (PLAYER (run (map idle dts) g))) =
           v_y (position (PLAYER g)) + v_y (velocity (PLAYER g)) * sum_list dts +
           GRAVITY_ACCELERATION / 2 *
             (sum_list dts * sum_list dts + (\<Sum>dt\<leftarrow>dts. dt * dt))"
  using assms
proof (induction dts arbitrary: g)
  case Nil
  then show ?case by (simp add: run_def)
next
  case (Cons dt dts)
  let ?g = "update (idle dt) g"
  have n: "N_OBSTACLES ?g = 0"
    using Cons.prems by (simp add: update_idle)
  have v: "v_y (velocity (PLAYER ?g)) = v_y (velocity (PLAYER g)) + GRAVITY_ACCELERATION * dt"
    using Cons.prems by (simp add: update_idle)
  have p: "v_y (position (PLAYER ?g)) =
      v_y (position (PLAYER g)) + (v_y (velocity (PLAYER g)) + GRAVITY_ACCELERATION * dt) * dt"
    using Cons.prems by (simp add: update_idle)
  have r: "run (map idle (dt # dts)) g = run (map idle dts) ?g"
    by (simp add: run_def)
  show ?case
    unfolding r using Cons.IH [OF n]
    by (simp add: v p algebra_simps)
qed

text \<open>
  C7, as amended. A player at rest at the origin, with no obstacle and no input,
  has after ticks whose lengths add up to one second the vertical velocity
  \<^verbatim>\<open>GRAVITY_ACCELERATION\<close> times one, and the vertical position
  \<open>0.5 * GRAVITY_ACCELERATION * (1 + s)\<close> where \<open>s\<close> is the sum of the squares of
  the tick lengths. In every tick the gravity is added to the velocity first
  and the position moves by the new velocity times the tick length.
\<close>

theorem free_fall:
  assumes "N_OBSTACLES g = 0"
    and "position (PLAYER g) = \<lparr>v_x = 0, v_y = 0\<rparr>"
    and "velocity (PLAYER g) = \<lparr>v_x = 0, v_y = 0\<rparr>"
    and "sum_list dts = 1"
  shows "v_y (velocity (PLAYER (run (map idle dts) g))) = GRAVITY_ACCELERATION * 1 \<and>
         v_y (position (PLAYER (run (map idle dts) g))) =
           0.5 * GRAVITY_ACCELERATION * (1 + (\<Sum>dt\<leftarrow>dts. dt * dt)) \<and>
         (\<forall>dt. v_y (velocity (PLAYER (update (idle dt) g))) =
                 v_y (velocity (PLAYER g)) + GRAVITY_ACCELERATION * dt \<and>
               v_y (position (PLAYER (update (idle dt) g))) =
                 v_y (position (PLAYER g)) + v_y (velocity (PLAYER (update (idle dt) g))) * dt)"
  using run_idle [OF assms(1), of dts] assms
  by (simp add: update_idle)

theorem free_fall_witness:
  "N_OBSTACLES drop_game = 0 \<and>
   position (PLAYER drop_game) = \<lparr>v_x = 0, v_y = 0\<rparr> \<and>
   velocity (PLAYER drop_game) = \<lparr>v_x = 0, v_y = 0\<rparr> \<and>
   sum_list [1 / 2, 1 / 2 :: real] = 1 \<and>
   v_y (velocity (PLAYER (run (map idle [1 / 2, 1 / 2]) drop_game))) = 50 \<and>
   v_y (position (PLAYER (run (map idle [1 / 2, 1 / 2]) drop_game))) = 75 / 2"
proof -
  have n: "N_OBSTACLES drop_game = 0"
    by (simp add: drop_game_def initial_game_def)
  have p: "position (PLAYER drop_game) = \<lparr>v_x = 0, v_y = 0\<rparr>"
    by (simp add: drop_game_def loaded_player_def)
  have v: "velocity (PLAYER drop_game) = \<lparr>v_x = 0, v_y = 0\<rparr>"
    by (simp add: drop_game_def loaded_player_def)
  have s: "sum_list [1 / 2, 1 / 2 :: real] = 1"
    by simp
  show ?thesis
    using free_fall [OF n p v s] n p v
    by (simp add: GRAVITY_ACCELERATION_def)
qed

text \<open>
  One tick of one second: the velocity is 50 and the position is 50, not 25.
\<close>

theorem free_fall_counterexample:
  "N_OBSTACLES drop_game = 0 \<and>
   position (PLAYER drop_game) = \<lparr>v_x = 0, v_y = 0\<rparr> \<and>
   velocity (PLAYER drop_game) = \<lparr>v_x = 0, v_y = 0\<rparr> \<and>
   sum_list [1 :: real] = 1 \<and>
   v_y (velocity (PLAYER (run (map idle [1]) drop_game))) = GRAVITY_ACCELERATION * 1 \<and>
   v_y (position (PLAYER (run (map idle [1]) drop_game))) = 50 \<and>
   v_y (position (PLAYER (run (map idle [1]) drop_game))) \<noteq> 0.5 * GRAVITY_ACCELERATION * 1 ^ 2"
proof -
  have n: "N_OBSTACLES drop_game = 0"
    by (simp add: drop_game_def initial_game_def)
  have p: "position (PLAYER drop_game) = \<lparr>v_x = 0, v_y = 0\<rparr>"
    by (simp add: drop_game_def loaded_player_def)
  have v: "velocity (PLAYER drop_game) = \<lparr>v_x = 0, v_y = 0\<rparr>"
    by (simp add: drop_game_def loaded_player_def)
  show ?thesis
    using run_idle [OF n, of "[1]"] n p v
    by (simp add: GRAVITY_ACCELERATION_def)
qed

section \<open>Lemmas: a pass of the loop on given obstacles\<close>

lemma update_obstacles_game_of:
  "update_obstacles dt (game_of p obs) =
     game_of (foldl (carried dt) p obs) (map (moved_obstacle dt) obs)"
proof -
  have n: "N_OBSTACLES (game_of p obs) \<le> length (OBSTACLES (game_of p obs))"
    by (simp add: game_of_def)
  show ?thesis
    unfolding update_obstacles_eq [OF n] by (simp add: game_of_def)
qed

lemma update_player_collisions_eq:
  assumes "N_OBSTACLES g \<le> length (OBSTACLES g)"
  shows "update_player_collisions g =
           g\<lparr>PLAYER := resolve
                 (combined_mtv (foldl track_extrema
                    \<lparr>mtv_min_x = 0, mtv_max_x = 0, mtv_min_y = 0, mtv_max_y = 0\<rparr>
                    (map (\<lambda>ob. get_aabb_mtv (get_player_rect (PLAYER g)) (rect ob))
                       (take (N_OBSTACLES g) (OBSTACLES g))))) (PLAYER g),
             OBSTACLES :=
               map (attach (get_player_rect (PLAYER g))) (take (N_OBSTACLES g) (OBSTACLES g)) @
               drop (N_OBSTACLES g) (OBSTACLES g)\<rparr>"
  unfolding update_player_collisions_def collide_obstacles_eq [OF assms]
  by (simp add: Let_def resolve_def max_def)

lemma update_player_collisions_game_of:
  "update_player_collisions (game_of p obs) =
     game_of
       (resolve
          (combined_mtv (foldl track_extrema
             \<lparr>mtv_min_x = 0, mtv_max_x = 0, mtv_min_y = 0, mtv_max_y = 0\<rparr>
             (map (\<lambda>ob. get_aabb_mtv (get_player_rect p) (rect ob)) obs))) p)
       (map (attach (get_player_rect p)) obs)"
proof -
  have n: "N_OBSTACLES (game_of p obs) \<le> length (OBSTACLES (game_of p obs))"
    by (simp add: game_of_def)
  show ?thesis
    unfolding update_player_collisions_eq [OF n] by (simp add: game_of_def)
qed

lemma Vector2Normalize_x:
  "Vector2Normalize \<lparr>v_x = x, v_y = 0\<rparr> = \<lparr>v_x = sgn x, v_y = 0\<rparr>"
  by (simp add: Vector2Normalize_def Vector2Length_def Vector2Scale_def Vector2Zero_def
      Let_def sgn_real_def)

lemma update_player_game_of:
  "update_player (keys dt a d w)
     (game_of \<lparr>position = \<lparr>v_x = px, v_y = py\<rparr>, velocity = \<lparr>v_x = vx, v_y = vy\<rparr>,
                p_size = sz, p_speed = sp, jump_impulse = j, health = h, max_health = mh,
                is_grounded = gr\<rparr> obs) =
   game_of
     \<lparr>position =
        \<lparr>v_x = px + (((if a then - 1 else 0) + (if d then 1 else 0)) * (sp * dt) + vx * dt),
         v_y = py + (vy + 50 * dt - (if w \<and> gr then j else 0)) * dt\<rparr>,
      velocity = \<lparr>v_x = vx, v_y = vy + 50 * dt - (if w \<and> gr then j else 0)\<rparr>,
      p_size = sz, p_speed = sp, jump_impulse = j, health = h, max_health = mh,
      is_grounded = gr\<rparr> obs"
  by (simp add: update_player_def keys_def game_of_def Let_def Vector2Zero_def
      Vector2Normalize_x Vector2Scale_def Vector2Add_def GRAVITY_ACCELERATION_def)

lemma update_keys:
  "update (keys dt a d w) g =
     update_player_collisions (update_obstacles dt (update_player (keys dt a d w) g))"
  by (simp add: update_def update_reset_def keys_def)

lemma moved_obstacle_static:
  "moved_obstacle dt
     \<lparr>rect = r, start = s, endp = e, speed = 0, is_moving_to_start = m,
      is_player_attached = c\<rparr> =
   \<lparr>rect = r, start = s, endp = e, speed = 0, is_moving_to_start = m,
    is_player_attached = c\<rparr>"
  by (simp add: moved_obstacle_def)

lemma obstacle_direction_horizontal:
  assumes "a < b"
  shows "obstacle_direction
     \<lparr>rect = r, start = \<lparr>v_x = a, v_y = y0\<rparr>, endp = \<lparr>v_x = b, v_y = y0\<rparr>, speed = s,
      is_moving_to_start = m, is_player_attached = c\<rparr> =
     \<lparr>v_x = (if m then - 1 else 1), v_y = 0\<rparr>"
  using assms
  by (simp add: obstacle_direction_def Vector2Subtract_def Vector2Normalize_x Vector2Negate_def)

lemma moved_obstacle_horizontal:
  assumes "0 < s" and "a < b"
  shows "moved_obstacle dt
     \<lparr>rect = \<lparr>r_x = x, r_y = y, r_width = w, r_height = h\<rparr>,
      start = \<lparr>v_x = a, v_y = y0\<rparr>, endp = \<lparr>v_x = b, v_y = y0\<rparr>, speed = s,
      is_moving_to_start = m, is_player_attached = c\<rparr> =
   (if m then
      (if a < x - dt * s
       then \<lparr>rect = \<lparr>r_x = x - dt * s, r_y = y, r_width = w, r_height = h\<rparr>,
             start = \<lparr>v_x = a, v_y = y0\<rparr>, endp = \<lparr>v_x = b, v_y = y0\<rparr>, speed = s,
             is_moving_to_start = True, is_player_attached = c\<rparr>
       else \<lparr>rect = \<lparr>r_x = a, r_y = y0, r_width = w, r_height = h\<rparr>,
             start = \<lparr>v_x = a, v_y = y0\<rparr>, endp = \<lparr>v_x = b, v_y = y0\<rparr>, speed = s,
             is_moving_to_start = False, is_player_attached = c\<rparr>)
    else
      (if x + dt * s < b
       then \<lparr>rect = \<lparr>r_x = x + dt * s, r_y = y, r_width = w, r_height = h\<rparr>,
             start = \<lparr>v_x = a, v_y = y0\<rparr>, endp = \<lparr>v_x = b, v_y = y0\<rparr>, speed = s,
             is_moving_to_start = False, is_player_attached = c\<rparr>
       else \<lparr>rect = \<lparr>r_x = b, r_y = y0, r_width = w, r_height = h\<rparr>,
             start = \<lparr>v_x = a, v_y = y0\<rparr>, endp = \<lparr>v_x = b, v_y = y0\<rparr>, speed = s,
             is_moving_to_start = True, is_player_attached = c\<rparr>))"
  using assms
  by (simp add: moved_obstacle_def obstacle_direction_horizontal obstacle_step_def
      obstacle_position_def obstacle_target_def Vector2Scale_def Vector2Add_def
      Vector2Subtract_def Vector2DotProduct_def Let_def)

lemma carried_static:
  "carried dt p
     \<lparr>rect = r, start = s, endp = e, speed = 0, is_moving_to_start = m,
      is_player_attached = c\<rparr> = p"
  by (simp add: carried_def)

lemma carried_horizontal:
  assumes "0 < s" and "a < b"
  shows "carried dt
     \<lparr>position = \<lparr>v_x = px, v_y = py\<rparr>, velocity = v, p_size = sz, p_speed = sp,
      jump_impulse = j, health = h, max_health = mh, is_grounded = gr\<rparr>
     \<lparr>rect = r, start = \<lparr>v_x = a, v_y = y0\<rparr>, endp = \<lparr>v_x = b, v_y = y0\<rparr>, speed = s,
      is_moving_to_start = m, is_player_attached = c\<rparr> =
     \<lparr>position = \<lparr>v_x = (if c then px + (if m then - (dt * s) else dt * s) else px), v_y = py\<rparr>,
      velocity = v, p_size = sz, p_speed = sp,
      jump_impulse = j, health = h, max_health = mh, is_grounded = gr\<rparr>"
  using assms
  by (simp add: carried_def obstacle_step_def obstacle_direction_horizontal Vector2Scale_def
      Vector2Add_def)

lemma get_aabb_mtv_eval:
  "get_aabb_mtv \<lparr>r_x = x1, r_y = y1, r_width = w1, r_height = h1\<rparr>
     \<lparr>r_x = x2, r_y = y2, r_width = w2, r_height = h2\<rparr> =
   (if x1 < x2 + w2 \<and> x2 < x1 + w1 \<and> y1 < y2 + h2 \<and> y2 < y1 + h1
    then (if \<bar>shallowest (y2 + h2 - y1) (y2 - y1 - h1)\<bar> < \<bar>shallowest (x2 - x1 - w1) (x2 + w2 - x1)\<bar>
          then \<lparr>v_x = 0, v_y = shallowest (y2 + h2 - y1) (y2 - y1 - h1)\<rparr>
          else \<lparr>v_x = shallowest (x2 - x1 - w1) (x2 + w2 - x1), v_y = 0\<rparr>)
    else \<lparr>v_x = 0, v_y = 0\<rparr>)"
  by (simp add: get_aabb_mtv_def CheckCollisionRecs_def shallowest_def Let_def Vector2Zero_def)

lemma attach_eval:
  "attach pr \<lparr>rect = r, start = s, endp = e, speed = sp, is_moving_to_start = m,
      is_player_attached = c\<rparr> =
   \<lparr>rect = r, start = s, endp = e, speed = sp, is_moving_to_start = m,
    is_player_attached = (v_y (get_aabb_mtv pr r) < 0 \<and> 0 < sp)\<rparr>"
  by (simp add: attach_def)

lemma resolve_eval:
  "resolve \<lparr>v_x = mx, v_y = my\<rparr>
     \<lparr>position = \<lparr>v_x = px, v_y = py\<rparr>, velocity = \<lparr>v_x = 0, v_y = vy\<rparr>,
      p_size = sz, p_speed = sp, jump_impulse = j, health = h, max_health = mh,
      is_grounded = gr\<rparr> =
   (if my < 0 \<and> 0 < vy then
      \<lparr>position = \<lparr>v_x = px + mx, v_y = py + my\<rparr>, velocity = \<lparr>v_x = 0, v_y = 0\<rparr>,
       p_size = sz, p_speed = sp, jump_impulse = j, health = h - max 0 (\<bar>vy\<bar> - 30),
       max_health = mh, is_grounded = True\<rparr>
    else if 0 < my \<and> vy < 0 then
      \<lparr>position = \<lparr>v_x = px + mx, v_y = py + my\<rparr>, velocity = \<lparr>v_x = 0, v_y = 0\<rparr>,
       p_size = sz, p_speed = sp, jump_impulse = j, health = h,
       max_health = mh, is_grounded = gr\<rparr>
    else
      \<lparr>position = \<lparr>v_x = px + mx, v_y = py + my\<rparr>, velocity = \<lparr>v_x = 0, v_y = vy\<rparr>,
       p_size = sz, p_speed = sp, jump_impulse = j, health = h,
       max_health = mh, is_grounded = False\<rparr>)"
  by (simp add: resolve_def Vector2Add_def Vector2Length_def Vector2Zero_def
      MAX_SPEED_WITHOUT_DAMAGE_def Let_def)

lemma get_player_rect_eval:
  "get_player_rect \<lparr>position = \<lparr>v_x = px, v_y = py\<rparr>, velocity = v,
      p_size = \<lparr>v_x = sw, v_y = sh\<rparr>, p_speed = sp, jump_impulse = j, health = h,
      max_health = mh, is_grounded = gr\<rparr> =
   \<lparr>r_x = px + sw / 2, r_y = py + sh, r_width = sw, r_height = sh\<rparr>"
  by (simp add: get_player_rect_def)

lemma combined_mtv_eval:
  "combined_mtv \<lparr>mtv_min_x = a, mtv_max_x = b, mtv_min_y = c, mtv_max_y = d\<rparr> =
     \<lparr>v_x = (if \<bar>a\<bar> < \<bar>b\<bar> then b else a), v_y = (if \<bar>c\<bar> < \<bar>d\<bar> then d else c)\<rparr>"
  by (simp add: combined_mtv_def)

lemma track_extrema_eval:
  "track_extrema \<lparr>mtv_min_x = a, mtv_max_x = b, mtv_min_y = c, mtv_max_y = d\<rparr>
     \<lparr>v_x = x, v_y = y\<rparr> =
   \<lparr>mtv_min_x = min a x, mtv_max_x = max b x, mtv_min_y = min c y, mtv_max_y = max d y\<rparr>"
  by (simp add: track_extrema_def)

lemmas tick_eval =
  update_keys update_player_game_of update_obstacles_game_of update_player_collisions_game_of
  moved_obstacle_static moved_obstacle_horizontal carried_static carried_horizontal
  get_aabb_mtv_eval attach_eval resolve_eval get_player_rect_eval combined_mtv_eval
  track_extrema_eval shallowest_def

section \<open>The run, frame by frame\<close>

lemma plan_tick_1:
  "update (keys (5 / 16) False False False)
     (snapshot 0 0 0 100 False (- 5) False None) =
   snapshot 0 4 0 100 True (- (55 / 16)) False (Some 0)"
  by (simp add: snapshot_def platform_at_def static_at_def tick_eval)

lemma plan_tick_2:
  "update (keys (1 / 8) False True True)
     (snapshot 0 4 0 100 True (- (55 / 16)) False (Some 0)) =
   snapshot (5 / 2) (33 / 32) (- (95 / 4)) 100 False (- (45 / 16)) False None"
  by (simp add: snapshot_def platform_at_def static_at_def tick_eval)

lemma plan_tick_3:
  "update (keys (1 / 4) False False False)
     (snapshot (5 / 2) (33 / 32) (- (95 / 4)) 100 False (- (45 / 16)) False None) =
   snapshot (5 / 2) (- 4) (- (45 / 4)) 100 False (- (25 / 16)) False (Some 1)"
  by (simp add: snapshot_def platform_at_def static_at_def tick_eval)

lemma plan_tick_4:
  "update (keys (1 / 4) False False False)
     (snapshot (5 / 2) (- 4) (- (45 / 4)) 100 False (- (25 / 16)) False (Some 1)) =
   snapshot (15 / 4) (- 4) 0 100 True (- (5 / 16)) False (Some 1)"
  by (simp add: snapshot_def platform_at_def static_at_def tick_eval)

lemma plan_tick_5:
  "update (keys (1 / 8) False False True)
     (snapshot (15 / 4) (- 4) 0 100 True (- (5 / 16)) False (Some 1)) =
   snapshot (35 / 8) (- (223 / 32)) (- (95 / 4)) 100 False (5 / 16) False None"
  by (simp add: snapshot_def platform_at_def static_at_def tick_eval)

lemma plan_tick_6:
  "update (keys (1 / 4) False False False)
     (snapshot (35 / 8) (- (223 / 32)) (- (95 / 4)) 100 False (5 / 16) False None) =
   snapshot (35 / 8) (- 12) (- (45 / 4)) 100 False (25 / 16) False (Some 2)"
  by (simp add: snapshot_def platform_at_def static_at_def tick_eval)

lemma plan_tick_7:
  "update (keys (1 / 4) False False False)
     (snapshot (35 / 8) (- 12) (- (45 / 4)) 100 False (25 / 16) False (Some 2)) =
   snapshot (45 / 8) (- 12) 0 100 True (45 / 16) False (Some 2)"
  by (simp add: snapshot_def platform_at_def static_at_def tick_eval)

lemma plan_tick_8:
  "update (keys (1 / 8) False False True)
     (snapshot (45 / 8) (- 12) 0 100 True (45 / 16) False (Some 2)) =
   snapshot (25 / 4) (- (479 / 32)) (- (95 / 4)) 100 False (55 / 16) False None"
  by (simp add: snapshot_def platform_at_def static_at_def tick_eval)

lemma plan_tick_9:
  "update (keys (1 / 4) False False False)
     (snapshot (25 / 4) (- (479 / 32)) (- (95 / 4)) 100 False (55 / 16) False None) =
   snapshot (25 / 4) (- 20) (- (45 / 4)) 100 False (75 / 16) False (Some 3)"
  by (simp add: snapshot_def platform_at_def static_at_def tick_eval)

lemma plan_tick_10:
  "update (keys (1 / 4) False False False)
     (snapshot (25 / 4) (- 20) (- (45 / 4)) 100 False (75 / 16) False (Some 3)) =
   snapshot (15 / 2) (- 20) 0 100 True 5 True (Some 3)"
  by (simp add: snapshot_def platform_at_def static_at_def tick_eval)

lemma plan_tick_11:
  "update (keys (1 / 8) False False True)
     (snapshot (15 / 2) (- 20) 0 100 True 5 True (Some 3)) =
   snapshot (55 / 8) (- (735 / 32)) (- (95 / 4)) 100 False (35 / 8) True None"
  by (simp add: snapshot_def platform_at_def static_at_def tick_eval)

lemma plan_tick_12:
  "update (keys (1 / 4) False False False)
     (snapshot (55 / 8) (- (735 / 32)) (- (95 / 4)) 100 False (35 / 8) True None) =
   snapshot (55 / 8) (- 28) (- (45 / 4)) 100 False (25 / 8) True (Some 4)"
  by (simp add: snapshot_def platform_at_def static_at_def tick_eval)

lemma plan_tick_13:
  "update (keys (1 / 4) False False False)
     (snapshot (55 / 8) (- 28) (- (45 / 4)) 100 False (25 / 8) True (Some 4)) =
   snapshot (45 / 8) (- 28) 0 100 True (15 / 8) True (Some 4)"
  by (simp add: snapshot_def platform_at_def static_at_def tick_eval)

lemma plan_tick_14:
  "update (keys (1 / 8) False False True)
     (snapshot (45 / 8) (- 28) 0 100 True (15 / 8) True (Some 4)) =
   snapshot 5 (- (991 / 32)) (- (95 / 4)) 100 False (5 / 4) True None"
  by (simp add: snapshot_def platform_at_def static_at_def tick_eval)

lemma plan_tick_15:
  "update (keys (1 / 4) False False False)
     (snapshot 5 (- (991 / 32)) (- (95 / 4)) 100 False (5 / 4) True None) =
   snapshot 5 (- 36) (- (45 / 4)) 100 False 0 True (Some 5)"
  by (simp add: snapshot_def platform_at_def static_at_def tick_eval)

lemma plan_tick_16:
  "update (keys (1 / 4) False False False)
     (snapshot 5 (- 36) (- (45 / 4)) 100 False 0 True (Some 5)) =
   snapshot (15 / 4) (- 36) 0 100 True (- (5 / 4)) True (Some 5)"
  by (simp add: snapshot_def platform_at_def static_at_def tick_eval)

lemma plan_tick_17:
  "update (keys (1 / 8) True False True)
     (snapshot (15 / 4) (- 36) 0 100 True (- (5 / 4)) True (Some 5)) =
   snapshot (5 / 4) (- (1247 / 32)) (- (95 / 4)) 100 False (- (15 / 8)) True None"
  by (simp add: snapshot_def platform_at_def static_at_def tick_eval)

lemma plan_tick_18:
  "update (keys (1 / 4) False False False)
     (snapshot (5 / 4) (- (1247 / 32)) (- (95 / 4)) 100 False (- (15 / 8)) True None) =
   snapshot (5 / 4) (- 44) (- (45 / 4)) 100 False (- (25 / 8)) True (Some 6)"
  by (simp add: snapshot_def platform_at_def static_at_def tick_eval)

lemma plan_tick_19:
  "update (keys (1 / 4) False False False)
     (snapshot (5 / 4) (- 44) (- (45 / 4)) 100 False (- (25 / 8)) True (Some 6)) =
   snapshot 0 (- 44) 0 100 True (- (35 / 8)) True (Some 6)"
  by (simp add: snapshot_def platform_at_def static_at_def tick_eval)

lemma plan_tick_20:
  "update (keys (1 / 8) True False True)
     (snapshot 0 (- 44) 0 100 True (- (35 / 8)) True (Some 6)) =
   snapshot (- (5 / 2)) (- (1503 / 32)) (- (95 / 4)) 100 False (- 5) True None"
  by (simp add: snapshot_def platform_at_def static_at_def tick_eval)

lemma plan_tick_21:
  "update (keys (1 / 4) False False False)
     (snapshot (- (5 / 2)) (- (1503 / 32)) (- (95 / 4)) 100 False (- 5) True None) =
   snapshot (- (5 / 2)) (- 52) (- (45 / 4)) 100 False (- (25 / 4)) True (Some 7)"
  by (simp add: snapshot_def platform_at_def static_at_def tick_eval)

lemma plan_tick_22:
  "update (keys (1 / 4) False False False)
     (snapshot (- (5 / 2)) (- 52) (- (45 / 4)) 100 False (- (25 / 4)) True (Some 7)) =
   snapshot (- (15 / 4)) (- 52) 0 100 True (- (15 / 2)) True (Some 7)"
  by (simp add: snapshot_def platform_at_def static_at_def tick_eval)

lemma plan_tick_23:
  "update (keys (1 / 8) False False True)
     (snapshot (- (15 / 4)) (- 52) 0 100 True (- (15 / 2)) True (Some 7)) =
   snapshot (- (35 / 8)) (- (1759 / 32)) (- (95 / 4)) 100 False (- (65 / 8)) True None"
  by (simp add: snapshot_def platform_at_def static_at_def tick_eval)

lemma plan_tick_24:
  "update (keys (1 / 4) False False False)
     (snapshot (- (35 / 8)) (- (1759 / 32)) (- (95 / 4)) 100 False (- (65 / 8)) True None) =
   snapshot (- (35 / 8)) (- 60) (- (45 / 4)) 100 False (- (75 / 8)) True (Some 8)"
  by (simp add: snapshot_def platform_at_def static_at_def tick_eval)

lemma plan_tick_25:
  "update (keys (1 / 4) False False False)
     (snapshot (- (35 / 8)) (- 60) (- (45 / 4)) 100 False (- (75 / 8)) True (Some 8)) =
   snapshot (- (45 / 8)) (- 60) 0 100 True (- (85 / 8)) True (Some 8)"
  by (simp add: snapshot_def platform_at_def static_at_def tick_eval)

lemma plan_tick_26:
  "update (keys (1 / 8) True False True)
     (snapshot (- (45 / 8)) (- 60) 0 100 True (- (85 / 8)) True (Some 8)) =
   snapshot (- (65 / 8)) (- (2015 / 32)) (- (95 / 4)) 100 False (- (45 / 4)) True None"
  by (simp add: snapshot_def platform_at_def static_at_def tick_eval)

lemma plan_tick_27:
  "update (keys (1 / 4) False False False)
     (snapshot (- (65 / 8)) (- (2015 / 32)) (- (95 / 4)) 100 False (- (45 / 4)) True None) =
   snapshot (- (65 / 8)) (- 68) (- (45 / 4)) 100 False (- (25 / 2)) True (Some 9)"
  by (simp add: snapshot_def platform_at_def static_at_def tick_eval)

lemma plan_tick_28:
  "update (keys (1 / 4) False False False)
     (snapshot (- (65 / 8)) (- 68) (- (45 / 4)) 100 False (- (25 / 2)) True (Some 9)) =
   snapshot (- (75 / 8)) (- 68) 0 100 True (- (55 / 4)) True (Some 9)"
  by (simp add: snapshot_def platform_at_def static_at_def tick_eval)

lemma plan_tick_29:
  "update (keys (5 / 16) False False False)
     (snapshot (- (75 / 8)) (- 68) 0 100 True (- (55 / 4)) True (Some 9)) =
   snapshot (- (175 / 16)) (- (8079 / 128)) (125 / 8) 100 False (- 15) False None"
  by (simp add: snapshot_def platform_at_def static_at_def tick_eval)

lemma plan_tick_30:
  "update (keys (5 / 16) False False False)
     (snapshot (- (175 / 16)) (- (8079 / 128)) (125 / 8) 100 False (- 15) False None) =
   snapshot (- (175 / 16)) (- (6829 / 128)) (125 / 4) 100 False (- (215 / 16)) False None"
  by (simp add: snapshot_def platform_at_def static_at_def tick_eval)

lemma plan_tick_31:
  "update (keys (3 / 16) False False False)
     (snapshot (- (175 / 16)) (- (6829 / 128)) (125 / 4) 100 False (- (215 / 16)) False None) =
   snapshot (- (175 / 16)) (- (2927 / 64)) (325 / 8) 100 False (- (25 / 2)) False None"
  by (simp add: snapshot_def platform_at_def static_at_def tick_eval)

lemma plan_tick_32:
  "update (keys (5 / 16) False False False)
     (snapshot (- (175 / 16)) (- (2927 / 64)) (325 / 8) 100 False (- (25 / 2)) False None) =
   snapshot (- (175 / 16)) (- (901 / 32)) (225 / 4) 100 False (- (175 / 16)) False None"
  by (simp add: snapshot_def platform_at_def static_at_def tick_eval)

lemma plan_tick_33:
  "update (keys (7 / 16) False True False)
     (snapshot (- (175 / 16)) (- (901 / 32)) (225 / 4) 100 False (- (175 / 16)) False None) =
   snapshot (- (35 / 8)) 4 0 (415 / 8) True (- (35 / 4)) False (Some 0)"
  by (simp add: snapshot_def platform_at_def static_at_def tick_eval)

lemma plan_tick_34:
  "update (keys (1 / 8) False False True)
     (snapshot (- (35 / 8)) 4 0 (415 / 8) True (- (35 / 4)) False (Some 0)) =
   snapshot (- (15 / 4)) (33 / 32) (- (95 / 4)) (415 / 8) False (- (65 / 8)) False None"
  by (simp add: snapshot_def platform_at_def static_at_def tick_eval)

lemma plan_tick_35:
  "update (keys (1 / 4) False False False)
     (snapshot (- (15 / 4)) (33 / 32) (- (95 / 4)) (415 / 8) False (- (65 / 8)) False None) =
   snapshot (- (15 / 4)) (- 4) (- (45 / 4)) (415 / 8) False (- (55 / 8)) False (Some 1)"
  by (simp add: snapshot_def platform_at_def static_at_def tick_eval)

lemma plan_tick_36:
  "update (keys (1 / 4) False False False)
     (snapshot (- (15 / 4)) (- 4) (- (45 / 4)) (415 / 8) False (- (55 / 8)) False (Some 1)) =
   snapshot (- (5 / 2)) (- 4) 0 (415 / 8) True (- (45 / 8)) False (Some 1)"
  by (simp add: snapshot_def platform_at_def static_at_def tick_eval)

lemma plan_tick_37:
  "update (keys (1 / 8) False True True)
     (snapshot (- (5 / 2)) (- 4) 0 (415 / 8) True (- (45 / 8)) False (Some 1)) =
   snapshot 0 (- (223 / 32)) (- (95 / 4)) (415 / 8) False (- 5) False None"
  by (simp add: snapshot_def platform_at_def static_at_def tick_eval)

lemma plan_tick_38:
  "update (keys (1 / 4) False False False)
     (snapshot 0 (- (223 / 32)) (- (95 / 4)) (415 / 8) False (- 5) False None) =
   snapshot 0 (- 12) (- (45 / 4)) (415 / 8) False (- (15 / 4)) False (Some 2)"
  by (simp add: snapshot_def platform_at_def static_at_def tick_eval)

lemma plan_tick_39:
  "update (keys (1 / 4) False False False)
     (snapshot 0 (- 12) (- (45 / 4)) (415 / 8) False (- (15 / 4)) False (Some 2)) =
   snapshot (5 / 4) (- 12) 0 (415 / 8) True (- (5 / 2)) False (Some 2)"
  by (simp add: snapshot_def platform_at_def static_at_def tick_eval)

lemma plan_tick_40:
  "update (keys (1 / 8) False False True)
     (snapshot (5 / 4) (- 12) 0 (415 / 8) True (- (5 / 2)) False (Some 2)) =
   snapshot (15 / 8) (- (479 / 32)) (- (95 / 4)) (415 / 8) False (- (15 / 8)) False None"
  by (simp add: snapshot_def platform_at_def static_at_def tick_eval)

lemma plan_tick_41:
  "update (keys (1 / 4) False False False)
     (snapshot (15 / 8) (- (479 / 32)) (- (95 / 4)) (415 / 8) False (- (15 / 8)) False None) =
   snapshot (15 / 8) (- 20) (- (45 / 4)) (415 / 8) False (- (5 / 8)) False (Some 3)"
  by (simp add: snapshot_def platform_at_def static_at_def tick_eval)

lemma plan_tick_42:
  "update (keys (1 / 4) False False False)
     (snapshot (15 / 8) (- 20) (- (45 / 4)) (415 / 8) False (- (5 / 8)) False (Some 3)) =
   snapshot (25 / 8) (- 20) 0 (415 / 8) True (5 / 8) False (Some 3)"
  by (simp add: snapshot_def platform_at_def static_at_def tick_eval)

lemma plan_tick_43:
  "update (keys (1 / 8) False True True)
     (snapshot (25 / 8) (- 20) 0 (415 / 8) True (5 / 8) False (Some 3)) =
   snapshot (45 / 8) (- (735 / 32)) (- (95 / 4)) (415 / 8) False (5 / 4) False None"
  by (simp add: snapshot_def platform_at_def static_at_def tick_eval)

lemma plan_tick_44:
  "update (keys (1 / 4) False False False)
     (snapshot (45 / 8) (- (735 / 32)) (- (95 / 4)) (415 / 8) False (5 / 4) False None) =
   snapshot (45 / 8) (- 28) (- (45 / 4)) (415 / 8) False (5 / 2) False (Some 4)"
  by (simp add: snapshot_def platform_at_def static_at_def tick_eval)

lemma plan_tick_45:
  "update (keys (1 / 4) False False False)
     (snapshot (45 / 8) (- 28) (- (45 / 4)) (415 / 8) False (5 / 2) False (Some 4)) =
   snapshot (55 / 8) (- 28) 0 (415 / 8) True (15 / 4) False (Some 4)"
  by (simp add: snapshot_def platform_at_def static_at_def tick_eval)

lemma plan_tick_46:
  "update (keys (1 / 8) False False True)
     (snapshot (55 / 8) (- 28) 0 (415 / 8) True (15 / 4) False (Some 4)) =
   snapshot (15 / 2) (- (991 / 32)) (- (95 / 4)) (415 / 8) False (35 / 8) False None"
  by (simp add: snapshot_def platform_at_def static_at_def tick_eval)

lemma plan_tick_47:
  "update (keys (1 / 4) False False False)
     (snapshot (15 / 2) (- (991 / 32)) (- (95 / 4)) (415 / 8) False (35 / 8) False None) =
   snapshot (15 / 2) (- 36) (- (45 / 4)) (415 / 8) False 5 True (Some 5)"
  by (simp add: snapshot_def platform_at_def static_at_def tick_eval)

lemma plan_tick_48:
  "update (keys (1 / 4) False False False)
     (snapshot (15 / 2) (- 36) (- (45 / 4)) (415 / 8) False 5 True (Some 5)) =
   snapshot (25 / 4) (- 36) 0 (415 / 8) True (15 / 4) True (Some 5)"
  by (simp add: snapshot_def platform_at_def static_at_def tick_eval)

lemma plan_tick_49:
  "update (keys (1 / 8) False False True)
     (snapshot (25 / 4) (- 36) 0 (415 / 8) True (15 / 4) True (Some 5)) =
   snapshot (45 / 8) (- (1247 / 32)) (- (95 / 4)) (415 / 8) False (25 / 8) True None"
  by (simp add: snapshot_def platform_at_def static_at_def tick_eval)

lemma plan_tick_50:
  "update (keys (1 / 4) False False False)
     (snapshot (45 / 8) (- (1247 / 32)) (- (95 / 4)) (415 / 8) False (25 / 8) True None) =
   snapshot (45 / 8) (- 44) (- (45 / 4)) (415 / 8) False (15 / 8) True (Some 6)"
  by (simp add: snapshot_def platform_at_def static_at_def tick_eval)

lemma plan_tick_51:
  "update (keys (1 / 4) False False False)
     (snapshot (45 / 8) (- 44) (- (45 / 4)) (415 / 8) False (15 / 8) True (Some 6)) =
   snapshot (35 / 8) (- 44) 0 (415 / 8) True (5 / 8) True (Some 6)"
  by (simp add: snapshot_def platform_at_def static_at_def tick_eval)

lemma plan_tick_52:
  "update (keys (1 / 8) False False True)
     (snapshot (35 / 8) (- 44) 0 (415 / 8) True (5 / 8) True (Some 6)) =
   snapshot (15 / 4) (- (1503 / 32)) (- (95 / 4)) (415 / 8) False 0 True None"
  by (simp add: snapshot_def platform_at_def static_at_def tick_eval)

lemma plan_tick_53:
  "update (keys (1 / 4) False False False)
     (snapshot (15 / 4) (- (1503 / 32)) (- (95 / 4)) (415 / 8) False 0 True None) =
   snapshot (15 / 4) (- 52) (- (45 / 4)) (415 / 8) False (- (5 / 4)) True (Some 7)"
  by (simp add: snapshot_def platform_at_def static_at_def tick_eval)

lemma plan_tick_54:
  "update (keys (1 / 4) False False False)
     (snapshot (15 / 4) (- 52) (- (45 / 4)) (415 / 8) False (- (5 / 4)) True (Some 7)) =
   snapshot (5 / 2) (- 52) 0 (415 / 8) True (- (5 / 2)) True (Some 7)"
  by (simp add: snapshot_def platform_at_def static_at_def tick_eval)

lemma plan_tick_55:
  "update (keys (1 / 8) True False True)
     (snapshot (5 / 2) (- 52) 0 (415 / 8) True (- (5 / 2)) True (Some 7)) =
   snapshot 0 (- (1759 / 32)) (- (95 / 4)) (415 / 8) False (- (25 / 8)) True None"
  by (simp add: snapshot_def platform_at_def static_at_def tick_eval)

lemma plan_tick_56:
  "update (keys (1 / 4) False False False)
     (snapshot 0 (- (1759 / 32)) (- (95 / 4)) (415 / 8) False (- (25 / 8)) True None) =
   snapshot 0 (- 60) (- (45 / 4)) (415 / 8) False (- (35 / 8)) True (Some 8)"
  by (simp add: snapshot_def platform_at_def static_at_def tick_eval)

lemma plan_tick_57:
  "update (keys (1 / 4) False False False)
     (snapshot 0 (- 60) (- (45 / 4)) (415 / 8) False (- (35 / 8)) True (Some 8)) =
   snapshot (- (5 / 4)) (- 60) 0 (415 / 8) True (- (45 / 8)) True (Some 8)"
  by (simp add: snapshot_def platform_at_def static_at_def tick_eval)

lemma plan_tick_58:
  "update (keys (1 / 8) True False True)
     (snapshot (- (5 / 4)) (- 60) 0 (415 / 8) True (- (45 / 8)) True (Some 8)) =
   snapshot (- (15 / 4)) (- (2015 / 32)) (- (95 / 4)) (415 / 8) False (- (25 / 4)) True None"
  by (simp add: snapshot_def platform_at_def static_at_def tick_eval)

lemma plan_tick_59:
  "update (keys (1 / 4) False False False)
     (snapshot (- (15 / 4)) (- (2015 / 32)) (- (95 / 4)) (415 / 8) False (- (25 / 4)) True None) =
   snapshot (- (15 / 4)) (- 68) (- (45 / 4)) (415 / 8) False (- (15 / 2)) True (Some 9)"
  by (simp add: snapshot_def platform_at_def static_at_def tick_eval)

lemma plan_tick_60:
  "update (keys (1 / 4) False False False)
     (snapshot (- (15 / 4)) (- 68) (- (45 / 4)) (415 / 8) False (- (15 / 2)) True (Some 9)) =
   snapshot (- 5) (- 68) 0 (415 / 8) True (- (35 / 4)) True (Some 9)"
  by (simp add: snapshot_def platform_at_def static_at_def tick_eval)

lemma plan_tick_61:
  "update (keys (5 / 16) False False False)
     (snapshot (- 5) (- 68) 0 (415 / 8) True (- (35 / 4)) True (Some 9)) =
   snapshot (- (105 / 16)) (- (8079 / 128)) (125 / 8) (415 / 8) False (- (165 / 16)) True None"
  by (simp add: snapshot_def platform_at_def static_at_def tick_eval)

lemma plan_tick_62:
  "update (keys (5 / 16) False False False)
     (snapshot (- (105 / 16)) (- (8079 / 128)) (125 / 8) (415 / 8) False (- (165 / 16)) True None) =
   snapshot (- (105 / 16)) (- (6829 / 128)) (125 / 4) (415 / 8) False (- (95 / 8)) True None"
  by (simp add: snapshot_def platform_at_def static_at_def tick_eval)

lemma plan_tick_63:
  "update (keys (5 / 16) False False False)
     (snapshot (- (105 / 16)) (- (6829 / 128)) (125 / 4) (415 / 8) False (- (95 / 8)) True None) =
   snapshot (- (105 / 16)) (- (2477 / 64)) (375 / 8) (415 / 8) False (- (215 / 16)) True None"
  by (simp add: snapshot_def platform_at_def static_at_def tick_eval)

lemma plan_tick_64:
  "update (keys (3 / 8) False False False)
     (snapshot (- (105 / 16)) (- (2477 / 64)) (375 / 8) (415 / 8) False (- (215 / 16)) True None) =
   snapshot (- (105 / 16)) (- (451 / 32)) (525 / 8) (415 / 8) False (- 15) False None"
  by (simp add: snapshot_def platform_at_def static_at_def tick_eval)

lemma plan_tick_65:
  "update (keys (3 / 8) False False False)
     (snapshot (- (105 / 16)) (- (451 / 32)) (525 / 8) (415 / 8) False (- 15) False None) =
   snapshot (- (105 / 16)) 16 0 (- (5 / 2)) True (- (105 / 8)) False None"
  by (simp add: snapshot_def platform_at_def static_at_def tick_eval)

lemma run_Cons: "run (fr # frs) g = run frs (update fr g)"
  by (simp add: run_def)

lemma run_Nil: "run [] g = g"
  by (simp add: run_def)

lemma plan_run:
  "run plan (snapshot 0 0 0 100 False (- 5) False None) =
   snapshot (- (105 / 16)) 16 0 (- (5 / 2)) True (- (105 / 8)) False None"
  unfolding plan_def
  by (simp only: run_Cons run_Nil plan_tick_1 plan_tick_2 plan_tick_3 plan_tick_4 plan_tick_5 plan_tick_6 plan_tick_7 plan_tick_8 plan_tick_9 plan_tick_10 plan_tick_11 plan_tick_12 plan_tick_13 plan_tick_14 plan_tick_15 plan_tick_16 plan_tick_17 plan_tick_18 plan_tick_19 plan_tick_20 plan_tick_21 plan_tick_22 plan_tick_23 plan_tick_24 plan_tick_25 plan_tick_26 plan_tick_27 plan_tick_28 plan_tick_29 plan_tick_30 plan_tick_31 plan_tick_32 plan_tick_33 plan_tick_34 plan_tick_35 plan_tick_36 plan_tick_37 plan_tick_38 plan_tick_39 plan_tick_40 plan_tick_41 plan_tick_42 plan_tick_43 plan_tick_44 plan_tick_45 plan_tick_46 plan_tick_47 plan_tick_48 plan_tick_49 plan_tick_50 plan_tick_51 plan_tick_52 plan_tick_53 plan_tick_54 plan_tick_55 plan_tick_56 plan_tick_57 plan_tick_58 plan_tick_59 plan_tick_60 plan_tick_61 plan_tick_62 plan_tick_63 plan_tick_64 plan_tick_65)

lemma replicate_14: "replicate 14 x = [x, x, x, x, x, x, x, x, x, x, x, x, x, x]"
  by (simp add: numeral_eq_Suc)

lemma upt_10: "[0..<10] = [0, 1, 2, 3, 4, 5, 6, 7, 8, 9]"
  by (simp add: upt_rec)

lemma level_first_draws:
  "map2 respawn (level first_draws) (replicate 14 zero_obstacle) =
     [static_at (- 20) 20 40 (5 / 2), static_at (- 20) (- 100) (5 / 2) 120,
      static_at (- (35 / 2)) 15 (5 / 2) 5, static_at (35 / 2) (- 100) (5 / 2) 120,
      platform_at (- 5) False None 0, platform_at (- 5) False None 1,
      platform_at (- 5) False None 2, platform_at (- 5) False None 3,
      platform_at (- 5) False None 4, platform_at (- 5) False None 5,
      platform_at (- 5) False None 6, platform_at (- 5) False None 7,
      platform_at (- 5) False None 8, platform_at (- 5) False None 9]"
  unfolding level_def upt_10 replicate_14
  by (simp add: respawn_def static_spawn_def platform_spawn_def first_draws_def
      randf_min_max_def zero_obstacle_def static_at_def platform_at_def)

lemma load_first_draws:
  "load_game first_draws initial_game = snapshot 0 0 0 100 False (- 5) False None"
  unfolding load_game_eq [OF initial_game_length]
  by (simp add: initial_game_def MAX_N_OBSTACLES_def level_first_draws snapshot_def game_of_def
      loaded_player_def zero_player_def)

lemma frame_ok_keys: "frame_ok (keys dt a d w) \<longleftrightarrow> 0 \<le> dt"
  by (simp add: frame_ok_def keys_def)

lemma reachable_run:
  assumes "reachable g" and "\<forall>fr \<in> set frs. frame_ok fr"
  shows "reachable (run frs g)"
  using assms
proof (induction frs arbitrary: g)
  case Nil
  then show ?case by (simp add: run_Nil)
next
  case (Cons fr frs)
  then show ?case
    by (simp add: run_Cons reachable.ticked)
qed

lemma first_load_reachable: "reachable (load_game first_draws initial_game)"
  by (rule reachable.loaded) (simp add: first_draws_def)

section \<open>Negative health, and what a reset keeps\<close>

text \<open>
  The run of the sixty-five frames from the first load is a run of the main
  loop, and at its end the health is \<open>-5/2\<close>: the two landings cost \<open>48.125\<close>
  and \<open>54.375\<close>.
\<close>

theorem negative_health_reachable:
  "reachable (run plan (load_game first_draws initial_game)) \<and>
   health (PLAYER (run plan (load_game first_draws initial_game))) = - (5 / 2) \<and>
   \<not> 0 \<le> health (PLAYER (run plan (load_game first_draws initial_game)))"
proof -
  have ok: "\<forall>fr \<in> set plan. frame_ok fr"
    by (simp add: plan_def frame_ok_keys)
  have h: "health (PLAYER (run plan (load_game first_draws initial_game))) = - (5 / 2)"
    unfolding load_first_draws plan_run by (simp add: snapshot_def game_of_def)
  show ?thesis
    using reachable_run [OF first_load_reachable ok] h by simp
qed

text \<open>
  After the first frame of the run the player stands on the lowest platform. A
  reset in that state, with all its random numbers 1, leaves \<open>is_grounded\<close>
  set, and the first platform is spawned at \<open>x = 5\<close> with speed 9, where the
  first load had put it at \<open>x = -5\<close> with speed 5.
\<close>

theorem reset_counterexample:
  "reachable (update (keys (5 / 16) False False False) (load_game first_draws initial_game)) \<and>
   key_R_pressed reset_frame \<and>
   is_grounded (PLAYER (update_reset reset_frame
     (update (keys (5 / 16) False False False) (load_game first_draws initial_game)))) \<and>
   r_x (rect (OBSTACLES (load_game first_draws initial_game) ! 4)) = - 5 \<and>
   r_x (rect (OBSTACLES (update_reset reset_frame
     (update (keys (5 / 16) False False False) (load_game first_draws initial_game))) ! 4)) = 5 \<and>
   speed (OBSTACLES (load_game first_draws initial_game) ! 4) = 5 \<and>
   speed (OBSTACLES (update_reset reset_frame
     (update (keys (5 / 16) False False False) (load_game first_draws initial_game))) ! 4) = 9"
proof -
  let ?g = "update (keys (5 / 16) False False False) (load_game first_draws initial_game)"
  have r: "reachable ?g"
    by (rule reachable.ticked [OF first_load_reachable]) (simp add: frame_ok_keys)
  have len: "length (OBSTACLES ?g) = MAX_N_OBSTACLES"
    using reachable_level_ok [OF r] by (simp add: level_ok_def)
  have u: "update_reset reset_frame ?g = load_game (\<lambda>k. 1) ?g"
    by (simp add: update_reset_def reset_frame_def)
  have gr: "is_grounded (PLAYER ?g)"
    unfolding load_first_draws plan_tick_1 by (simp add: snapshot_def game_of_def)
  have p4: "level (\<lambda>k. 1) ! 4 = platform_spawn (\<lambda>k. 1) 0"
    using level_nth_platform [of 4 "\<lambda>k. 1"] by simp
  have a: "is_grounded (PLAYER (load_game (\<lambda>k. 1) ?g))"
    using load_game_nth [OF len, of "\<lambda>k. 1"] gr by (simp add: loaded_player_def)
  have b: "r_x (rect (OBSTACLES (load_game (\<lambda>k. 1) ?g) ! 4)) = 5 \<and>
      speed (OBSTACLES (load_game (\<lambda>k. 1) ?g) ! 4) = 9"
    using load_game_nth [OF len, of "\<lambda>k. 1"]
    by (simp add: p4 respawn_def platform_spawn_def randf_min_max_def)
  have c: "r_x (rect (OBSTACLES (load_game first_draws initial_game) ! 4)) = - 5 \<and>
      speed (OBSTACLES (load_game first_draws initial_game) ! 4) = 5"
    unfolding load_first_draws by (simp add: snapshot_def game_of_def platform_at_def)
  show ?thesis
    unfolding u using r a b c by (simp add: reset_frame_def)
qed

theorem reset_restores_witness:
  "reachable (load_game first_draws initial_game) \<and>
   key_R_pressed reset_frame \<and>
   health (PLAYER (update_reset reset_frame (load_game first_draws initial_game))) = 100 \<and>
   max_health (PLAYER (update_reset reset_frame (load_game first_draws initial_game))) = 100 \<and>
   velocity (PLAYER (update_reset reset_frame (load_game first_draws initial_game))) =
     \<lparr>v_x = 0, v_y = 0\<rparr> \<and>
   N_OBSTACLES (update_reset reset_frame (load_game first_draws initial_game)) = 14 \<and>
   map spawn_of
     (take 14 (OBSTACLES (update_reset reset_frame (load_game first_draws initial_game)))) =
     level (\<lambda>k. 1) \<and>
   take 4 (level (\<lambda>k. 1)) = take 4 (level first_draws) \<and>
   r_x (s_rect (level (\<lambda>k. 1) ! 4)) = 5 \<and>
   s_speed (level (\<lambda>k. 1) ! 4) = 9"
proof -
  have k: "key_R_pressed reset_frame"
    by (simp add: reset_frame_def)
  have f: "randf reset_frame = (\<lambda>k. 1)"
    by (simp add: reset_frame_def)
  note t = reset_restores [OF first_load_reachable k, unfolded f]
  from t have "\<forall>i. 4 \<le> i \<and> i < 14 \<longrightarrow>
      r_x (s_rect (level (\<lambda>k. 1) ! i)) = - 15 + 1 * 20 \<and>
      s_speed (level (\<lambda>k. 1) ! i) = 5 + 1 * 4"
    by blast
  then have x: "r_x (s_rect (level (\<lambda>k. 1) ! 4)) = 5 \<and> s_speed (level (\<lambda>k. 1) ! 4) = 9"
    by simp
  from t have y: "take 4 (level (\<lambda>k. 1)) = take 4 (level first_draws)"
    by blast
  show ?thesis
    using t first_load_reachable k x y by (simp add: PLAYER_MAX_HEALTH_def)
qed

section \<open>States of the run as examples\<close>




theorem static_never_attached_witness:
  "reachable (run plan (load_game first_draws initial_game)) \<and>
   0 < N_OBSTACLES (run plan (load_game first_draws initial_game)) \<and>
   position (PLAYER (run plan (load_game first_draws initial_game))) =
     \<lparr>v_x = - (105 / 16), v_y = 16\<rparr> \<and>
   is_grounded (PLAYER (run plan (load_game first_draws initial_game))) \<and>
   rect (OBSTACLES (run plan (load_game first_draws initial_game)) ! 0) =
     \<lparr>r_x = - 20, r_y = 20, r_width = 40, r_height = 5 / 2\<rparr> \<and>
   speed (OBSTACLES (run plan (load_game first_draws initial_game)) ! 0) = 0 \<and>
   \<not> is_player_attached (OBSTACLES (run plan (load_game first_draws initial_game)) ! 0)"
proof -
  let ?g = "run plan (load_game first_draws initial_game)"
  have ok: "\<forall>fr \<in> set plan. frame_ok fr"
    by (simp add: plan_def frame_ok_keys)
  have r: "reachable ?g"
    by (rule reachable_run [OF first_load_reachable ok])
  have n: "0 < N_OBSTACLES ?g"
    using reachable_level_ok [OF r] by (simp add: level_ok_def)
  have e: "?g = snapshot (- (105 / 16)) 16 0 (- (5 / 2)) True (- (105 / 8)) False None"
    unfolding load_first_draws by (rule plan_run)
  have f: "position (PLAYER ?g) = \<lparr>v_x = - (105 / 16), v_y = 16\<rparr> \<and>
      is_grounded (PLAYER ?g) \<and>
      rect (OBSTACLES ?g ! 0) = \<lparr>r_x = - 20, r_y = 20, r_width = 40, r_height = 5 / 2\<rparr> \<and>
      speed (OBSTACLES ?g ! 0) = 0"
    unfolding e by (simp add: snapshot_def game_of_def static_at_def)
  show ?thesis
    using static_never_attached [OF r n] r n f by simp
qed

end
